theory Spec2Isabelle
  imports Complex_Main "HOL-Library.Word"
begin

unbundle bit_operations_syntax

section \<open>Engine types and helpers used by the root motion sources\<close>

text \<open>
  The sources are \<^verbatim>\<open>Character/BaseRootMotionSource.cpp\<close> and
  \<^verbatim>\<open>Character/BaseCharacter.cpp\<close>. Floating point fields (\<^verbatim>\<open>float\<close>,
  \<^verbatim>\<open>FVector::FReal\<close>) are modelled by the real number they denote: rounding, infinities
  and NaN are not modelled. Integer fields keep their machine width.
\<close>

definition UE_SMALL_NUMBER :: real where
  "UE_SMALL_NUMBER = 1 / 100000000"

definition UE_KINDA_SMALL_NUMBER :: real where
  "UE_KINDA_SMALL_NUMBER = 1 / 10000"

definition UE_BIG_NUMBER :: real where
  "UE_BIG_NUMBER = 34 * 10 ^ 37"

definition RootMotionSource_InvalidStartTime :: real where
  "RootMotionSource_InvalidStartTime = - UE_BIG_NUMBER"

record FVector =
  X :: real
  Y :: real
  Z :: real

record FRotator =
  Pitch :: real
  Yaw :: real
  Roll :: real

definition ZeroVector :: FVector where
  "ZeroVector = \<lparr>X = 0, Y = 0, Z = 0\<rparr>"

definition ZeroRotator :: FRotator where
  "ZeroRotator = \<lparr>Pitch = 0, Yaw = 0, Roll = 0\<rparr>"

definition VAdd :: "FVector \<Rightarrow> FVector \<Rightarrow> FVector" where
  "VAdd a b = \<lparr>X = X a + X b, Y = Y a + Y b, Z = Z a + Z b\<rparr>"

definition VSub :: "FVector \<Rightarrow> FVector \<Rightarrow> FVector" where
  "VSub a b = \<lparr>X = X a - X b, Y = Y a - Y b, Z = Z a - Z b\<rparr>"

definition VScale :: "FVector \<Rightarrow> real \<Rightarrow> FVector" where
  "VScale a k = \<lparr>X = X a * k, Y = Y a * k, Z = Z a * k\<rparr>"

definition VDiv :: "FVector \<Rightarrow> real \<Rightarrow> FVector" where
  "VDiv a k = \<lparr>X = X a / k, Y = Y a / k, Z = Z a / k\<rparr>"

definition SizeSquared :: "FVector \<Rightarrow> real" where
  "SizeSquared a = X a * X a + Y a * Y a + Z a * Z a"

definition Size :: "FVector \<Rightarrow> real" where
  "Size a = sqrt (SizeSquared a)"

definition Dist :: "FVector \<Rightarrow> FVector \<Rightarrow> real" where
  "Dist a b = Size (VSub b a)"

text \<open>\<^verbatim>\<open>FMath::Clamp(V, Lo, Hi)\<close>: \<^verbatim>\<open>V < Lo ? Lo : (V < Hi ? V : Hi)\<close>.\<close>

definition Clamp :: "real \<Rightarrow> real \<Rightarrow> real \<Rightarrow> real" where
  "Clamp v lo hi = (if v < lo then lo else if v < hi then v else hi)"

definition Lerp :: "real \<Rightarrow> real \<Rightarrow> real \<Rightarrow> real" where
  "Lerp a b alpha = a + alpha * (b - a)"

definition VLerp :: "FVector \<Rightarrow> FVector \<Rightarrow> real \<Rightarrow> FVector" where
  "VLerp a b alpha = VAdd a (VScale (VSub b a) alpha)"

text \<open>\<^verbatim>\<open>FMath::GetRangeValue(Range, Pct)\<close> interpolates between the two ends of the range.\<close>

definition GetRangeValue :: "real \<times> real \<Rightarrow> real \<Rightarrow> real" where
  "GetRangeValue rng pct = Lerp (fst rng) (snd rng) pct"

definition IsNearlyEqual :: "real \<Rightarrow> real \<Rightarrow> real \<Rightarrow> bool" where
  "IsNearlyEqual a b tol = (\<bar>a - b\<bar> \<le> tol)"

text \<open>\<^verbatim>\<open>FVector::PointsAreNear\<close> rejects as soon as one coordinate differs by the distance or more.\<close>

definition PointsAreNear :: "FVector \<Rightarrow> FVector \<Rightarrow> real \<Rightarrow> bool" where
  "PointsAreNear p q d =
     (if \<bar>X p - X q\<bar> \<ge> d then False
      else if \<bar>Y p - Y q\<bar> \<ge> d then False
      else if \<bar>Z p - Z q\<bar> \<ge> d then False
      else True)"

definition VEquals :: "FVector \<Rightarrow> FVector \<Rightarrow> real \<Rightarrow> bool" where
  "VEquals p q tol = (\<bar>X p - X q\<bar> \<le> tol \<and> \<bar>Y p - Y q\<bar> \<le> tol \<and> \<bar>Z p - Z q\<bar> \<le> tol)"

definition VIsNearlyZero :: "FVector \<Rightarrow> real \<Rightarrow> bool" where
  "VIsNearlyZero v tol = (\<bar>X v\<bar> \<le> tol \<and> \<bar>Y v\<bar> \<le> tol \<and> \<bar>Z v\<bar> \<le> tol)"

text \<open>\<^verbatim>\<open>FVector::GetSafeNormal()\<close> with its default tolerance.\<close>

definition GetSafeNormal :: "FVector \<Rightarrow> FVector" where
  "GetSafeNormal v =
     (let sq = SizeSquared v in
      if sq = 1 then v
      else if sq < UE_SMALL_NUMBER then ZeroVector
      else VScale v (1 / sqrt sq))"

text \<open>\<^verbatim>\<open>FVector::Normalize()\<close> leaves a vector shorter than the tolerance unchanged.\<close>

definition Normalize :: "FVector \<Rightarrow> FVector" where
  "Normalize v =
     (let sq = SizeSquared v in
      if sq > UE_SMALL_NUMBER then VScale v (1 / sqrt sq) else v)"

text \<open>
  \<^verbatim>\<open>FRotator::NormalizeAxis\<close> brings an angle into (-180, 180];
  \<^verbatim>\<open>FRotator::Equals\<close> compares the normalized differences of the three angles.
\<close>

definition ClampAxis :: "real \<Rightarrow> real" where
  "ClampAxis a = a - 360 * of_int \<lfloor>a / 360\<rfloor>"

definition NormalizeAxis :: "real \<Rightarrow> real" where
  "NormalizeAxis a = (let c = ClampAxis a in if c > 180 then c - 360 else c)"

definition REquals :: "FRotator \<Rightarrow> FRotator \<Rightarrow> real \<Rightarrow> bool" where
  "REquals r s tol =
     (\<bar>NormalizeAxis (Pitch r - Pitch s)\<bar> \<le> tol \<and>
      \<bar>NormalizeAxis (Yaw r - Yaw s)\<bar> \<le> tol \<and>
      \<bar>NormalizeAxis (Roll r - Roll s)\<bar> \<le> tol)"

section \<open>Status and settings flags\<close>

text \<open>
  The flag enumerations are declared in the header \<^verbatim>\<open>BaseRootMotionSource.h\<close>, which is not
  among the sources; they are single bits of a \<^verbatim>\<open>uint8\<close>, with the values of the engine's
  \<^verbatim>\<open>ERootMotionSourceStatusFlags\<close> and \<^verbatim>\<open>ERootMotionSourceSettingsFlags\<close> that this file
  is derived from.
\<close>

definition Prepared :: "8 word" where "Prepared = 1"
definition Finished :: "8 word" where "Finished = 2"
definition MarkedForRemoval :: "8 word" where "MarkedForRemoval = 4"

definition UseSensitiveLiftoffCheck :: "8 word" where "UseSensitiveLiftoffCheck = 1"
definition DisablePartialEndTick :: "8 word" where "DisablePartialEndTick = 2"
definition IgnoreZAccumulate :: "8 word" where "IgnoreZAccumulate = 4"

definition SetFlag :: "8 word \<Rightarrow> 8 word \<Rightarrow> 8 word" where
  "SetFlag Flags Flag = Flags OR Flag"

definition UnSetFlag :: "8 word \<Rightarrow> 8 word \<Rightarrow> 8 word" where
  "UnSetFlag Flags Flag = Flags AND NOT Flag"

definition HasFlag :: "8 word \<Rightarrow> 8 word \<Rightarrow> bool" where
  "HasFlag Flags Flag = (Flags AND Flag \<noteq> 0)"

section \<open>The root motion source\<close>

text \<open>
  \<^verbatim>\<open>checkf\<close> halts the process where assertions are compiled in and is removed elsewhere:
  the build is a parameter (\<open>DO_CHECK\<close>), and a tripped assertion is the result
  \<open>Inl CheckFailed\<close>. A call through a null pointer is \<open>Inl NullDereference\<close>.
\<close>

datatype fatal = CheckFailed | NullDereference

datatype UScriptStruct =
    Struct_RootMotionSource
  | Struct_ConstantForce
  | Struct_RadialForce
  | Struct_MoveToForce
  | Struct_MoveToDynamicForce
  | Struct_JumpForce
  | Struct_Other nat

text \<open>
  \<^verbatim>\<open>EBaseRootMotionAccumulateMode\<close> is a \<^verbatim>\<open>uint8\<close> enumeration; \<^verbatim>\<open>NetSerialize\<close> casts any
  received byte to it, so a field of that type can hold a byte that is neither mode.
\<close>

definition Override :: "8 word" where "Override = 0"
definition Additive :: "8 word" where "Additive = 1"

datatype EBaseRootMotionFinishVelocityMode =
    Mode_MaintainLastRootMotionVelocity
  | Mode_SetVelocity
  | Mode_ClampVelocity

record FBaseRootMotionFinishVelocitySettings =
  Mode :: EBaseRootMotionFinishVelocityMode
  SetVelocity :: FVector
  ClampVelocity :: real

text \<open>
  \<^verbatim>\<open>FRootMotionMovementParams\<close>: only the translation of the stored transform is read by the
  functions below. \<^verbatim>\<open>Clear\<close> resets the flag and keeps the transform.
\<close>

record FRootMotionMovementParams =
  bHasRootMotion :: bool
  Translation :: FVector

definition ParamsClear :: "FRootMotionMovementParams \<Rightarrow> FRootMotionMovementParams" where
  "ParamsClear p = p\<lparr>bHasRootMotion := False\<rparr>"

definition ParamsSet :: "FVector \<Rightarrow> FRootMotionMovementParams" where
  "ParamsSet t = \<lparr>bHasRootMotion = True, Translation = t\<rparr>"

text \<open>Object pointers (curves, actors) are an object number, \<open>None\<close> for \<^verbatim>\<open>nullptr\<close>.\<close>

record FConstantForce =
  CF_Force :: FVector
  CF_StrengthOverTime :: "nat option"

record FRadialForce =
  RF_Location :: FVector
  RF_LocationActor :: "nat option"
  RF_Radius :: real
  RF_Strength :: real
  RF_bIsPush :: bool
  RF_bNoZForce :: bool
  RF_StrengthDistanceFalloff :: "nat option"
  RF_StrengthOverTime :: "nat option"
  RF_bUseFixedWorldDirection :: bool
  RF_FixedWorldDirection :: FRotator

record FMoveToForce =
  MT_StartLocation :: FVector
  MT_TargetLocation :: FVector
  MT_bRestrictSpeedToExpected :: bool
  MT_PathOffsetCurve :: "nat option"

record FMoveToDynamicForce =
  MD_StartLocation :: FVector
  MD_InitialTargetLocation :: FVector
  MD_TargetLocation :: FVector
  MD_bRestrictSpeedToExpected :: bool
  MD_PathOffsetCurve :: "nat option"
  MD_TimeMappingCurve :: "nat option"

record FJumpForce =
  JF_Rotation :: FRotator
  JF_Distance :: real
  JF_Height :: real
  JF_bDisableTimeout :: bool
  JF_PathOffsetCurve :: "nat option"
  JF_TimeMappingCurve :: "nat option"
  JF_SavedHalfwayLocation :: FVector

datatype FVariant =
    ConstantForce FConstantForce
  | RadialForce FRadialForce
  | MoveToForce FMoveToForce
  | MoveToDynamicForce FMoveToDynamicForce
  | JumpForce FJumpForce

text \<open>
  The header that declares the width of \<^verbatim>\<open>Priority\<close> is not among the sources; the field is
  only copied and compared, and is modelled by its integer value.
\<close>

record FBaseRootMotionSource =
  Priority :: int
  LocalID :: "16 word"
  AccumulateMode :: "8 word"
  InstanceName :: string
  StartTime :: real
  CurrentTime :: real
  PreviousTime :: real
  Duration :: real
  Status :: "8 word"
  Settings :: "8 word"
  bInLocalSpace :: bool
  bNeedsSimulatedCatchup :: bool
  bSimulatedNeedsSmoothing :: bool
  RootMotionParams :: FRootMotionMovementParams
  FinishVelocityParams :: FBaseRootMotionFinishVelocitySettings
  Variant :: FVariant

definition InvalidID :: "16 word" where "InvalidID = 0"

definition NAME_None :: string where "NAME_None = ''None''"

subsection \<open>Constructors\<close>

definition DefaultFinishVelocityParams :: FBaseRootMotionFinishVelocitySettings where
  "DefaultFinishVelocityParams =
     \<lparr>Mode = Mode_MaintainLastRootMotionVelocity, SetVelocity = ZeroVector, ClampVelocity = 0\<rparr>"

definition BaseConstruct :: "FVariant \<Rightarrow> FBaseRootMotionSource" where
  "BaseConstruct v =
     \<lparr>Priority = 0, LocalID = InvalidID, AccumulateMode = Override, InstanceName = NAME_None,
      StartTime = RootMotionSource_InvalidStartTime, CurrentTime = 0, PreviousTime = 0,
      Duration = - 1, Status = 0, Settings = 0, bInLocalSpace = False,
      bNeedsSimulatedCatchup = False, bSimulatedNeedsSmoothing = False,
      RootMotionParams = \<lparr>bHasRootMotion = False, Translation = ZeroVector\<rparr>,
      FinishVelocityParams = DefaultFinishVelocityParams, Variant = v\<rparr>"

definition New_ConstantForce :: FBaseRootMotionSource where
  "New_ConstantForce =
     (BaseConstruct (ConstantForce \<lparr>CF_Force = ZeroVector, CF_StrengthOverTime = None\<rparr>))
       \<lparr>Settings := SetFlag 0 DisablePartialEndTick\<rparr>"

definition New_RadialForce :: FBaseRootMotionSource where
  "New_RadialForce =
     BaseConstruct (RadialForce
       \<lparr>RF_Location = ZeroVector, RF_LocationActor = None, RF_Radius = 1, RF_Strength = 0,
        RF_bIsPush = True, RF_bNoZForce = False, RF_StrengthDistanceFalloff = None,
        RF_StrengthOverTime = None, RF_bUseFixedWorldDirection = False,
        RF_FixedWorldDirection = ZeroRotator\<rparr>)"

definition New_MoveToForce :: FBaseRootMotionSource where
  "New_MoveToForce =
     BaseConstruct (MoveToForce
       \<lparr>MT_StartLocation = ZeroVector, MT_TargetLocation = ZeroVector,
        MT_bRestrictSpeedToExpected = False, MT_PathOffsetCurve = None\<rparr>)"

definition New_MoveToDynamicForce :: FBaseRootMotionSource where
  "New_MoveToDynamicForce =
     BaseConstruct (MoveToDynamicForce
       \<lparr>MD_StartLocation = ZeroVector, MD_InitialTargetLocation = ZeroVector,
        MD_TargetLocation = ZeroVector, MD_bRestrictSpeedToExpected = False,
        MD_PathOffsetCurve = None, MD_TimeMappingCurve = None\<rparr>)"

definition New_JumpForce :: FBaseRootMotionSource where
  "New_JumpForce =
     (BaseConstruct (JumpForce
       \<lparr>JF_Rotation = ZeroRotator, JF_Distance = - 1, JF_Height = - 1, JF_bDisableTimeout = False,
        JF_PathOffsetCurve = None, JF_TimeMappingCurve = None,
        JF_SavedHalfwayLocation = ZeroVector\<rparr>))
       \<lparr>Settings := SetFlag 0 DisablePartialEndTick\<rparr>"

fun GetScriptStruct :: "FBaseRootMotionSource \<Rightarrow> UScriptStruct" where
  "GetScriptStruct s =
     (case Variant s of
        ConstantForce _ \<Rightarrow> Struct_ConstantForce
      | RadialForce _ \<Rightarrow> Struct_RadialForce
      | MoveToForce _ \<Rightarrow> Struct_MoveToForce
      | MoveToDynamicForce _ \<Rightarrow> Struct_MoveToDynamicForce
      | JumpForce _ \<Rightarrow> Struct_JumpForce)"

subsection \<open>Time and timeout\<close>

definition GetTime :: "FBaseRootMotionSource \<Rightarrow> real" where
  "GetTime s = CurrentTime s"

definition IsStartTimeValid :: "FBaseRootMotionSource \<Rightarrow> bool" where
  "IsStartTimeValid s = (StartTime s \<noteq> RootMotionSource_InvalidStartTime)"

text \<open>\<^verbatim>\<open>IsTimeOutEnabled\<close> is virtual: the jump force overrides it.\<close>

definition IsTimeOutEnabled :: "FBaseRootMotionSource \<Rightarrow> bool" where
  "IsTimeOutEnabled s =
     (case Variant s of
        JumpForce j \<Rightarrow> (if JF_bDisableTimeout j then False else Duration s \<ge> 0)
      | _ \<Rightarrow> Duration s \<ge> 0)"

definition CheckTimeOut :: "FBaseRootMotionSource \<Rightarrow> FBaseRootMotionSource" where
  "CheckTimeOut s =
     (if IsTimeOutEnabled s then
        (let bTimedOut = (CurrentTime s \<ge> Duration s) in
         if bTimedOut then s\<lparr>Status := SetFlag (Status s) Finished\<rparr>
         else s\<lparr>Status := UnSetFlag (Status s) Finished\<rparr>)
      else s)"

definition SetTime :: "FBaseRootMotionSource \<Rightarrow> real \<Rightarrow> FBaseRootMotionSource" where
  "SetTime s NewTime = CheckTimeOut (s\<lparr>PreviousTime := CurrentTime s, CurrentTime := NewTime\<rparr>)"

subsection \<open>Matching and state transfer\<close>

text \<open>\<^verbatim>\<open>FBaseRootMotionSource::Matches\<close>; a \<^verbatim>\<open>nullptr\<close> argument is \<open>None\<close>.\<close>

definition Matches_Base :: "FBaseRootMotionSource \<Rightarrow> FBaseRootMotionSource option \<Rightarrow> bool" where
  "Matches_Base s Other =
     (case Other of
        None \<Rightarrow> False
      | Some ot \<Rightarrow>
          GetScriptStruct s = GetScriptStruct ot \<and>
          Priority s = Priority ot \<and>
          AccumulateMode s = AccumulateMode ot \<and>
          bInLocalSpace s = bInLocalSpace ot \<and>
          InstanceName s = InstanceName ot \<and>
          IsNearlyEqual (Duration s) (Duration ot) UE_SMALL_NUMBER)"

text \<open>The overrides of \<^verbatim>\<open>Matches\<close>, after the base test has ensured the same struct.\<close>

fun Matches_Variant :: "FVariant \<Rightarrow> FVariant \<Rightarrow> bool" where
  "Matches_Variant (ConstantForce a) (ConstantForce b) =
     (PointsAreNear (CF_Force a) (CF_Force b) (1 / 10) \<and>
      CF_StrengthOverTime a = CF_StrengthOverTime b)"
| "Matches_Variant (RadialForce a) (RadialForce b) =
     (RF_bIsPush a = RF_bIsPush b \<and>
      RF_bNoZForce a = RF_bNoZForce b \<and>
      RF_bUseFixedWorldDirection a = RF_bUseFixedWorldDirection b \<and>
      RF_StrengthDistanceFalloff a = RF_StrengthDistanceFalloff b \<and>
      RF_StrengthOverTime a = RF_StrengthOverTime b \<and>
      (RF_LocationActor a = RF_LocationActor b \<or>
       PointsAreNear (RF_Location a) (RF_Location b) 1) \<and>
      IsNearlyEqual (RF_Radius a) (RF_Radius b) UE_SMALL_NUMBER \<and>
      IsNearlyEqual (RF_Strength a) (RF_Strength b) UE_SMALL_NUMBER \<and>
      REquals (RF_FixedWorldDirection a) (RF_FixedWorldDirection b) 3)"
| "Matches_Variant (MoveToForce a) (MoveToForce b) =
     (MT_bRestrictSpeedToExpected a = MT_bRestrictSpeedToExpected b \<and>
      MT_PathOffsetCurve a = MT_PathOffsetCurve b \<and>
      PointsAreNear (MT_TargetLocation a) (MT_TargetLocation b) (1 / 10))"
| "Matches_Variant (MoveToDynamicForce a) (MoveToDynamicForce b) =
     (MD_bRestrictSpeedToExpected a = MD_bRestrictSpeedToExpected b \<and>
      MD_PathOffsetCurve a = MD_PathOffsetCurve b \<and>
      MD_TimeMappingCurve a = MD_TimeMappingCurve b)"
| "Matches_Variant (JumpForce a) (JumpForce b) =
     (JF_bDisableTimeout a = JF_bDisableTimeout b \<and>
      JF_PathOffsetCurve a = JF_PathOffsetCurve b \<and>
      JF_TimeMappingCurve a = JF_TimeMappingCurve b \<and>
      IsNearlyEqual (JF_Distance a) (JF_Distance b) UE_SMALL_NUMBER \<and>
      IsNearlyEqual (JF_Height a) (JF_Height b) UE_SMALL_NUMBER \<and>
      REquals (JF_Rotation a) (JF_Rotation b) 1)"
| "Matches_Variant _ _ = False"

definition Matches :: "FBaseRootMotionSource \<Rightarrow> FBaseRootMotionSource option \<Rightarrow> bool" where
  "Matches s Other =
     (if \<not> Matches_Base s Other then False
      else (case Other of None \<Rightarrow> False | Some ot \<Rightarrow> Matches_Variant (Variant s) (Variant ot)))"

text \<open>
  \<^verbatim>\<open>FBaseRootMotionSource::MatchesAndHasSameState\<close>: its call of \<^verbatim>\<open>Matches\<close> is virtual.
\<close>

definition MatchesAndHasSameState_Base ::
    "FBaseRootMotionSource \<Rightarrow> FBaseRootMotionSource option \<Rightarrow> bool" where
  "MatchesAndHasSameState_Base s Other =
     (if \<not> Matches s Other then False
      else (case Other of
              None \<Rightarrow> False
            | Some ot \<Rightarrow> Status s = Status ot \<and> GetTime s = GetTime ot))"

definition MatchesAndHasSameState ::
    "FBaseRootMotionSource \<Rightarrow> FBaseRootMotionSource option \<Rightarrow> bool" where
  "MatchesAndHasSameState s Other =
     (if \<not> MatchesAndHasSameState_Base s Other then False
      else (case (Variant s, Other) of
              (MoveToDynamicForce a, Some ot) \<Rightarrow>
                (case Variant ot of
                   MoveToDynamicForce b \<Rightarrow>
                     VEquals (MD_StartLocation a) (MD_StartLocation b) UE_KINDA_SMALL_NUMBER \<and>
                     VEquals (MD_TargetLocation a) (MD_TargetLocation b) UE_KINDA_SMALL_NUMBER
                 | _ \<Rightarrow> False)
            | _ \<Rightarrow> True))"

text \<open>
  \<^verbatim>\<open>FBaseRootMotionSource::UpdateStateFrom\<close>. The result is the updated source and the
  returned flag, or the tripped assertion.
\<close>

definition UpdateStateFrom_Base ::
    "bool \<Rightarrow> FBaseRootMotionSource \<Rightarrow> FBaseRootMotionSource option \<Rightarrow> bool
     \<Rightarrow> fatal + (FBaseRootMotionSource \<times> bool)" where
  "UpdateStateFrom_Base DO_CHECK s SourceToTakeStateFrom bMarkForSimulatedCatchup =
     (case SourceToTakeStateFrom of
        None \<Rightarrow> Inr (s, False)
      | Some src \<Rightarrow>
          if GetScriptStruct s = GetScriptStruct src then
            (let s1 = s\<lparr>bNeedsSimulatedCatchup := bMarkForSimulatedCatchup\<rparr>;
                 bWasMarkedForRemoval = HasFlag (Status s1) MarkedForRemoval;
                 s2 = s1\<lparr>Status := Status src\<rparr>;
                 s3 = (if bWasMarkedForRemoval
                       then s2\<lparr>Status := SetFlag (Status s2) MarkedForRemoval\<rparr> else s2)
             in Inr (SetTime s3 (GetTime src), True))
          else if DO_CHECK then Inl CheckFailed
          else Inr (s, False))"

text \<open>The overrides: only the dynamic move-to force has state of its own to copy.\<close>

definition UpdateStateFrom ::
    "bool \<Rightarrow> FBaseRootMotionSource \<Rightarrow> FBaseRootMotionSource option \<Rightarrow> bool
     \<Rightarrow> fatal + (FBaseRootMotionSource \<times> bool)" where
  "UpdateStateFrom DO_CHECK s SourceToTakeStateFrom bMarkForSimulatedCatchup =
     (case UpdateStateFrom_Base DO_CHECK s SourceToTakeStateFrom bMarkForSimulatedCatchup of
        Inl e \<Rightarrow> Inl e
      | Inr (s', ok) \<Rightarrow>
          if \<not> ok then Inr (s', False)
          else (case (Variant s', SourceToTakeStateFrom) of
                  (MoveToDynamicForce a, Some src) \<Rightarrow>
                    (case Variant src of
                       MoveToDynamicForce b \<Rightarrow>
                         Inr (s'\<lparr>Variant := MoveToDynamicForce
                                 (a\<lparr>MD_StartLocation := MD_StartLocation b,
                                    MD_TargetLocation := MD_TargetLocation b\<rparr>)\<rparr>, True)
                     | _ \<Rightarrow> Inr (s', True))
                | _ \<Rightarrow> Inr (s', True)))"

section \<open>Preparing one source\<close>

text \<open>
  What the sources read from the character, its movement component, the curve assets and the
  engine's rotation helpers is collected in one record that the functions take as an argument.
\<close>

datatype ENetRole = ROLE_None | ROLE_SimulatedProxy | ROLE_AutonomousProxy | ROLE_Authority

record FWorld =
  DO_CHECK :: bool
  ActorLocation :: FVector
  LocationActorLocation :: "nat \<Rightarrow> FVector"
  FloatCurveValue :: "nat \<Rightarrow> real \<Rightarrow> real"
  FloatCurveTimeRange :: "nat \<Rightarrow> real \<times> real"
  VectorCurveValue :: "nat \<Rightarrow> real \<Rightarrow> FVector"
  VectorCurveTimeRange :: "nat \<Rightarrow> real \<times> real"
  RotatorVector :: "FRotator \<Rightarrow> FVector"
  RotateVector :: "FRotator \<Rightarrow> FVector \<Rightarrow> FVector"
  VectorRotation :: "FVector \<Rightarrow> FRotator"
  LocalRole :: ENetRole
  ClientCurrentTimeStamp :: "real option"
  bClientUpdating :: bool
  ServerCurrentClientTimeStamp :: "real option"
  ComponentRotation :: "(FVector \<Rightarrow> FVector) option"

definition EvaluateFloatCurveAtFraction :: "FWorld \<Rightarrow> nat \<Rightarrow> real \<Rightarrow> real" where
  "EvaluateFloatCurveAtFraction w Curve Fraction =
     FloatCurveValue w Curve (GetRangeValue (FloatCurveTimeRange w Curve) Fraction)"

definition EvaluateVectorCurveAtFraction :: "FWorld \<Rightarrow> nat \<Rightarrow> real \<Rightarrow> FVector" where
  "EvaluateVectorCurveAtFraction w Curve Fraction =
     VectorCurveValue w Curve (GetRangeValue (VectorCurveTimeRange w Curve) Fraction)"

subsection \<open>Constant force\<close>

definition PrepareRootMotion_ConstantForce ::
    "FWorld \<Rightarrow> real \<Rightarrow> real \<Rightarrow> FBaseRootMotionSource \<Rightarrow> FConstantForce
     \<Rightarrow> fatal + FBaseRootMotionSource" where
  "PrepareRootMotion_ConstantForce w SimulationTime MovementTickTime s cf =
     (let NewTransform = CF_Force cf;
          NewTransform1 =
            (case CF_StrengthOverTime cf of
               None \<Rightarrow> NewTransform
             | Some c \<Rightarrow>
                 (let TimeValue = (if Duration s > 0 then Clamp (GetTime s / Duration s) 0 1
                                   else GetTime s);
                      TimeFactor = FloatCurveValue w c TimeValue
                  in VScale NewTransform TimeFactor));
          Multiplier = (if MovementTickTime > UE_SMALL_NUMBER
                        then SimulationTime / MovementTickTime else 1);
          NewTransform2 = VScale NewTransform1 Multiplier;
          s1 = s\<lparr>RootMotionParams := ParamsSet NewTransform2\<rparr>
      in Inr (SetTime s1 (GetTime s1 + SimulationTime)))"

subsection \<open>Radial force\<close>

text \<open>The strength computed inside the radius, from the distance to the force's location.\<close>

definition RadialForce_CurrentStrength ::
    "FWorld \<Rightarrow> FBaseRootMotionSource \<Rightarrow> FRadialForce \<Rightarrow> real \<Rightarrow> real" where
  "RadialForce_CurrentStrength w s rf Distance =
     (let AdditiveStrengthFactor = 1;
          AdditiveStrengthFactor1 =
            (case RF_StrengthDistanceFalloff rf of
               None \<Rightarrow> AdditiveStrengthFactor
             | Some c \<Rightarrow>
                 (let DistanceFactor = FloatCurveValue w c (Clamp (Distance / RF_Radius rf) 0 1)
                  in AdditiveStrengthFactor - (1 - DistanceFactor)));
          AdditiveStrengthFactor2 =
            (case RF_StrengthOverTime rf of
               None \<Rightarrow> AdditiveStrengthFactor1
             | Some c \<Rightarrow>
                 (let TimeValue = (if Duration s > 0 then Clamp (GetTime s / Duration s) 0 1
                                   else GetTime s);
                      TimeFactor = FloatCurveValue w c TimeValue
                  in AdditiveStrengthFactor1 - (1 - TimeFactor)))
      in RF_Strength rf * Clamp AdditiveStrengthFactor2 0 1)"

definition PrepareRootMotion_RadialForce ::
    "FWorld \<Rightarrow> real \<Rightarrow> real \<Rightarrow> FBaseRootMotionSource \<Rightarrow> FRadialForce
     \<Rightarrow> fatal + FBaseRootMotionSource" where
  "PrepareRootMotion_RadialForce w SimulationTime MovementTickTime s rf =
     (let CharacterLocation = ActorLocation w;
          ForceLocation = (case RF_LocationActor rf of
                             Some a \<Rightarrow> LocationActorLocation w a
                           | None \<Rightarrow> RF_Location rf);
          Distance = Dist ForceLocation CharacterLocation;
          Force =
            (if Distance < RF_Radius rf then
               (let CurrentStrength = RadialForce_CurrentStrength w s rf Distance in
                if RF_bUseFixedWorldDirection rf
                then VScale (RotatorVector w (RF_FixedWorldDirection rf)) CurrentStrength
                else (let F = VScale (GetSafeNormal (VSub ForceLocation CharacterLocation))
                                CurrentStrength
                      in if RF_bIsPush rf then VScale F (- 1) else F))
             else ZeroVector);
          Force1 = (if RF_bNoZForce rf then Force\<lparr>Z := 0\<rparr> else Force);
          NewTransform =
            (if SimulationTime \<noteq> MovementTickTime \<and> MovementTickTime > UE_SMALL_NUMBER
             then VScale Force1 (SimulationTime / MovementTickTime) else Force1);
          s1 = s\<lparr>RootMotionParams := ParamsSet NewTransform\<rparr>
      in Inr (SetTime s1 (GetTime s1 + SimulationTime)))"

subsection \<open>Move-to forces\<close>

definition GetPathOffsetInWorldSpace ::
    "FWorld \<Rightarrow> nat option \<Rightarrow> FVector \<Rightarrow> FVector \<Rightarrow> real \<Rightarrow> FVector" where
  "GetPathOffsetInWorldSpace w PathOffsetCurve StartLocation TargetLocation MoveFraction =
     (case PathOffsetCurve of
        Some c \<Rightarrow>
          (let PathOffsetInFacingSpace = EvaluateVectorCurveAtFraction w c MoveFraction;
               FacingRotation = (VectorRotation w (VSub TargetLocation StartLocation))\<lparr>Pitch := 0\<rparr>
           in RotateVector w FacingRotation PathOffsetInFacingSpace)
      | None \<Rightarrow> ZeroVector)"

text \<open>
  The body shared by the two move-to forces once the move fractions are known: the force
  towards the current target, restricted to the expected speed when asked for.
\<close>

definition MoveTo_Force ::
    "FWorld \<Rightarrow> real \<Rightarrow> FVector \<Rightarrow> FVector \<Rightarrow> bool \<Rightarrow> nat option \<Rightarrow> real \<Rightarrow> real \<Rightarrow> FVector" where
  "MoveTo_Force w MovementTickTime StartLocation TargetLocation bRestrictSpeedToExpected
       PathOffsetCurve MoveFraction PreviousMoveFraction =
     (let CurrentTargetLocation =
            VAdd (VLerp StartLocation TargetLocation MoveFraction)
              (GetPathOffsetInWorldSpace w PathOffsetCurve StartLocation TargetLocation MoveFraction);
          CurrentLocation = ActorLocation w;
          Force = VDiv (VSub CurrentTargetLocation CurrentLocation) MovementTickTime
      in if bRestrictSpeedToExpected \<and> \<not> VIsNearlyZero Force UE_KINDA_SMALL_NUMBER then
           (let CurrentExpectedLocation =
                  VAdd (VLerp StartLocation TargetLocation PreviousMoveFraction)
                    (GetPathOffsetInWorldSpace w PathOffsetCurve StartLocation TargetLocation
                       PreviousMoveFraction);
                ExpectedForce = VDiv (VSub CurrentTargetLocation CurrentExpectedLocation)
                                  MovementTickTime;
                ExpectedSpeed = Size ExpectedForce;
                CurrentSpeedSqr = SizeSquared Force;
                ErrorAllowance = 1 / 2
            in if CurrentSpeedSqr > (ExpectedSpeed + ErrorAllowance) * (ExpectedSpeed + ErrorAllowance)
               then VScale (Normalize Force) ExpectedSpeed else Force)
         else Force)"

definition PrepareRootMotion_MoveToForce ::
    "FWorld \<Rightarrow> real \<Rightarrow> real \<Rightarrow> FBaseRootMotionSource \<Rightarrow> FMoveToForce
     \<Rightarrow> fatal + FBaseRootMotionSource" where
  "PrepareRootMotion_MoveToForce w SimulationTime MovementTickTime s mt =
     (let s0 = s\<lparr>RootMotionParams := ParamsClear (RootMotionParams s)\<rparr> in
      if Duration s0 > UE_SMALL_NUMBER \<and> MovementTickTime > UE_SMALL_NUMBER then
        (let MoveFraction = (GetTime s0 + SimulationTime) / Duration s0;
             PreviousMoveFraction = GetTime s0 / Duration s0;
             Force = MoveTo_Force w MovementTickTime (MT_StartLocation mt) (MT_TargetLocation mt)
                       (MT_bRestrictSpeedToExpected mt) (MT_PathOffsetCurve mt)
                       MoveFraction PreviousMoveFraction;
             s1 = s0\<lparr>RootMotionParams := ParamsSet Force\<rparr>
         in Inr (SetTime s1 (GetTime s1 + SimulationTime)))
      else if DO_CHECK w \<and> \<not> Duration s0 > UE_SMALL_NUMBER then Inl CheckFailed
      else Inr (SetTime s0 (GetTime s0 + SimulationTime)))"

definition PrepareRootMotion_MoveToDynamicForce ::
    "FWorld \<Rightarrow> real \<Rightarrow> real \<Rightarrow> FBaseRootMotionSource \<Rightarrow> FMoveToDynamicForce
     \<Rightarrow> fatal + FBaseRootMotionSource" where
  "PrepareRootMotion_MoveToDynamicForce w SimulationTime MovementTickTime s md =
     (let s0 = s\<lparr>RootMotionParams := ParamsClear (RootMotionParams s)\<rparr> in
      if Duration s0 > UE_SMALL_NUMBER \<and> MovementTickTime > UE_SMALL_NUMBER then
        (let MoveFraction0 = (GetTime s0 + SimulationTime) / Duration s0;
             MoveFraction = (case MD_TimeMappingCurve md of
                               Some c \<Rightarrow> EvaluateFloatCurveAtFraction w c MoveFraction0
                             | None \<Rightarrow> MoveFraction0);
             PreviousMoveFraction0 = GetTime s0 / Duration s0;
             PreviousMoveFraction = (case MD_TimeMappingCurve md of
                                       Some c \<Rightarrow> EvaluateFloatCurveAtFraction w c PreviousMoveFraction0
                                     | None \<Rightarrow> PreviousMoveFraction0);
             Force = MoveTo_Force w MovementTickTime (MD_StartLocation md) (MD_TargetLocation md)
                       (MD_bRestrictSpeedToExpected md) (MD_PathOffsetCurve md)
                       MoveFraction PreviousMoveFraction;
             s1 = s0\<lparr>RootMotionParams := ParamsSet Force\<rparr>
         in Inr (SetTime s1 (GetTime s1 + SimulationTime)))
      else if DO_CHECK w \<and> \<not> Duration s0 > UE_SMALL_NUMBER then Inl CheckFailed
      else Inr (SetTime s0 (GetTime s0 + SimulationTime)))"

subsection \<open>Jump force\<close>

definition GetPathOffset :: "FWorld \<Rightarrow> FJumpForce \<Rightarrow> real \<Rightarrow> FVector" where
  "GetPathOffset w jf MoveFraction =
     (let PathOffset =
            (case JF_PathOffsetCurve jf of
               Some c \<Rightarrow> EvaluateVectorCurveAtFraction w c MoveFraction
             | None \<Rightarrow>
                 (let Phi = 2 * MoveFraction - 1;
                      Zv = - (Phi * Phi) + 1
                  in ZeroVector\<lparr>Z := Zv\<rparr>))
      in if JF_Height jf \<ge> 0 then PathOffset\<lparr>Z := Z PathOffset * JF_Height jf\<rparr> else PathOffset)"

definition GetRelativeLocation :: "FWorld \<Rightarrow> FJumpForce \<Rightarrow> real \<Rightarrow> FVector" where
  "GetRelativeLocation w jf MoveFraction =
     (let FacingRotation = (JF_Rotation jf)\<lparr>Pitch := 0\<rparr>;
          RelativeLocationFacingSpace =
            VAdd \<lparr>X = MoveFraction * JF_Distance jf, Y = 0, Z = 0\<rparr> (GetPathOffset w jf MoveFraction)
      in RotateVector w FacingRotation RelativeLocationFacingSpace)"

definition PrepareRootMotion_JumpForce ::
    "FWorld \<Rightarrow> real \<Rightarrow> real \<Rightarrow> FBaseRootMotionSource \<Rightarrow> FJumpForce
     \<Rightarrow> fatal + FBaseRootMotionSource" where
  "PrepareRootMotion_JumpForce w SimulationTime MovementTickTime s jf =
     (let s0 = s\<lparr>RootMotionParams := ParamsClear (RootMotionParams s)\<rparr> in
      if Duration s0 > UE_SMALL_NUMBER \<and> MovementTickTime > UE_SMALL_NUMBER \<and>
         SimulationTime > UE_SMALL_NUMBER then
        (let CurrentTimeFraction0 = GetTime s0 / Duration s0;
             TargetTimeFraction0 = (GetTime s0 + SimulationTime) / Duration s0;
             TimeFractionPastAllowable = TargetTimeFraction0 - 1;
             TargetTimeFraction = (if TargetTimeFraction0 > 1
                                   then TargetTimeFraction0 - TimeFractionPastAllowable
                                   else TargetTimeFraction0);
             CurrentTimeFraction = (if TargetTimeFraction0 > 1
                                    then CurrentTimeFraction0 - TimeFractionPastAllowable
                                    else CurrentTimeFraction0);
             CurrentMoveFraction = (case JF_TimeMappingCurve jf of
                                      Some c \<Rightarrow> EvaluateFloatCurveAtFraction w c CurrentTimeFraction
                                    | None \<Rightarrow> CurrentTimeFraction);
             TargetMoveFraction = (case JF_TimeMappingCurve jf of
                                     Some c \<Rightarrow> EvaluateFloatCurveAtFraction w c TargetTimeFraction
                                   | None \<Rightarrow> TargetTimeFraction);
             CurrentRelativeLocation = GetRelativeLocation w jf CurrentMoveFraction;
             TargetRelativeLocation = GetRelativeLocation w jf TargetMoveFraction;
             Force = VDiv (VSub TargetRelativeLocation CurrentRelativeLocation) MovementTickTime;
             s1 = s0\<lparr>RootMotionParams := ParamsSet Force\<rparr>
         in Inr (SetTime s1 (GetTime s1 + SimulationTime)))
      else if DO_CHECK w \<and> \<not> Duration s0 > UE_SMALL_NUMBER then Inl CheckFailed
      else Inr (SetTime s0 (GetTime s0 + SimulationTime)))"

subsection \<open>The virtual call\<close>

definition PrepareRootMotion ::
    "FWorld \<Rightarrow> real \<Rightarrow> real \<Rightarrow> FBaseRootMotionSource \<Rightarrow> fatal + FBaseRootMotionSource" where
  "PrepareRootMotion w SimulationTime MovementTickTime s =
     (case Variant s of
        ConstantForce cf \<Rightarrow> PrepareRootMotion_ConstantForce w SimulationTime MovementTickTime s cf
      | RadialForce rf \<Rightarrow> PrepareRootMotion_RadialForce w SimulationTime MovementTickTime s rf
      | MoveToForce mt \<Rightarrow> PrepareRootMotion_MoveToForce w SimulationTime MovementTickTime s mt
      | MoveToDynamicForce md \<Rightarrow>
          PrepareRootMotion_MoveToDynamicForce w SimulationTime MovementTickTime s md
      | JumpForce jf \<Rightarrow> PrepareRootMotion_JumpForce w SimulationTime MovementTickTime s jf)"

text \<open>Calling \<^verbatim>\<open>prepare\<close> again and again with the same step.\<close>

fun PrepareRepeatedly ::
    "FWorld \<Rightarrow> real \<Rightarrow> real \<Rightarrow> nat \<Rightarrow> FBaseRootMotionSource \<Rightarrow> fatal + FBaseRootMotionSource" where
  "PrepareRepeatedly w SimulationTime MovementTickTime 0 s = Inr s"
| "PrepareRepeatedly w SimulationTime MovementTickTime (Suc n) s =
     (case PrepareRepeatedly w SimulationTime MovementTickTime n s of
        Inl e \<Rightarrow> Inl e
      | Inr s' \<Rightarrow> PrepareRootMotion w SimulationTime MovementTickTime s')"

section \<open>The root motion source group\<close>

text \<open>The lists hold shared pointers: an entry is \<open>None\<close> when the pointer is null.\<close>

record FBaseRootMotionSourceGroup =
  RootMotionSources :: "FBaseRootMotionSource option list"
  PendingAddRootMotionSources :: "FBaseRootMotionSource option list"
  bHasAdditiveSources :: bool
  bHasOverrideSources :: bool
  bHasOverrideSourcesWithIgnoreZAccumulate :: bool
  bIsAdditiveVelocityApplied :: bool
  LastPreAdditiveVelocity :: FVector
  LastAccumulatedSettings :: "8 word"

definition New_Group :: FBaseRootMotionSourceGroup where
  "New_Group =
     \<lparr>RootMotionSources = [], PendingAddRootMotionSources = [],
      bHasAdditiveSources = False, bHasOverrideSources = False,
      bHasOverrideSourcesWithIgnoreZAccumulate = False, bIsAdditiveVelocityApplied = False,
      LastPreAdditiveVelocity = ZeroVector, LastAccumulatedSettings = 0\<rparr>"

subsection \<open>Sorting by priority\<close>

text \<open>
  The comparison handed to \<^verbatim>\<open>StableSort\<close>. On a null pointer it asserts and answers true.
\<close>

definition SortPredicate ::
    "FBaseRootMotionSource option \<Rightarrow> FBaseRootMotionSource option \<Rightarrow> bool" where
  "SortPredicate SourceL SourceR =
     (case (SourceL, SourceR) of
        (Some l, Some r) \<Rightarrow> Priority l > Priority r
      | _ \<Rightarrow> True)"

text \<open>
  A stable sort by a comparison, as insertion from the right: an element goes behind exactly
  the elements that the comparison puts before it. Every stable sort gives this list when the
  comparison is a strict weak order, which it is on lists without null pointers.
\<close>

fun InsertSorted :: "('a \<Rightarrow> 'a \<Rightarrow> bool) \<Rightarrow> 'a \<Rightarrow> 'a list \<Rightarrow> 'a list" where
  "InsertSorted P x [] = [x]"
| "InsertSorted P x (y # ys) = (if P y x then y # InsertSorted P x ys else x # y # ys)"

fun StableSort :: "('a \<Rightarrow> 'a \<Rightarrow> bool) \<Rightarrow> 'a list \<Rightarrow> 'a list" where
  "StableSort P [] = []"
| "StableSort P (x # xs) = InsertSorted P x (StableSort P xs)"

text \<open>
  Sorting more than one source calls the comparison on every entry, so a null entry trips its
  assertion where assertions are compiled in.
\<close>

definition SortByPriority ::
    "bool \<Rightarrow> FBaseRootMotionSource option list \<Rightarrow> fatal + FBaseRootMotionSource option list" where
  "SortByPriority chk xs =
     (if length xs > 1 then
        (if chk \<and> None \<in> set xs then Inl CheckFailed else Inr (StableSort SortPredicate xs))
      else Inr xs)"

subsection \<open>Simulation time of one source in a tick\<close>

definition CatchupSimulationTime :: "FBaseRootMotionSource \<Rightarrow> real \<Rightarrow> real" where
  "CatchupSimulationTime s SimulationTime =
     (if bNeedsSimulatedCatchup s then
        (let CorrectionDelta = PreviousTime s - CurrentTime s in
         if CorrectionDelta > 0 then
           (let MaxTimeDeltaCorrectionPercent = 1 / 2;
                MaxTimeDeltaCorrectionAbsolute = 1 / 2;
                CorrectionDelta1 = min (CorrectionDelta * MaxTimeDeltaCorrectionPercent)
                                     MaxTimeDeltaCorrectionAbsolute
            in SimulationTime + CorrectionDelta1)
         else SimulationTime)
      else SimulationTime)"

definition CharacterMovementTime :: "FWorld \<Rightarrow> real \<Rightarrow> real" where
  "CharacterMovementTime w DeltaTime =
     (if LocalRole w = ROLE_AutonomousProxy then
        (case ClientCurrentTimeStamp w of
           Some ts \<Rightarrow> (if \<not> bClientUpdating w then ts else - 1)
         | None \<Rightarrow> - 1)
      else if LocalRole w = ROLE_Authority then
        (case ServerCurrentClientTimeStamp w of
           Some ts \<Rightarrow> ts - DeltaTime
         | None \<Rightarrow> - 1)
      else - 1)"

definition StartSimulationTime :: "FWorld \<Rightarrow> real \<Rightarrow> FBaseRootMotionSource \<Rightarrow> real \<Rightarrow> real" where
  "StartSimulationTime w DeltaTime s SimulationTime =
     (let bRootMotionHasNotStarted = (GetTime s = 0);
          bRootMotionHasValidStartTime = IsStartTimeValid s
      in if bRootMotionHasNotStarted \<and> bRootMotionHasValidStartTime then
           (let CharacterMovementTime = CharacterMovementTime w DeltaTime;
                bHasValidMovementTime = (CharacterMovementTime \<ge> 0);
                bHasSourceNotStarted = (StartTime s > CharacterMovementTime)
            in if bHasValidMovementTime \<and> bHasSourceNotStarted then
                 (let EndCharacterMovementTime = CharacterMovementTime + SimulationTime in
                  if EndCharacterMovementTime \<le> StartTime s then 0
                  else EndCharacterMovementTime - StartTime s)
               else SimulationTime)
         else SimulationTime)"

definition EndSimulationTime :: "FBaseRootMotionSource \<Rightarrow> real \<Rightarrow> real" where
  "EndSimulationTime s SimulationTime =
     (if IsTimeOutEnabled s \<and> \<not> HasFlag (Settings s) DisablePartialEndTick then
        (let Duration = Duration s in
         if GetTime s + SimulationTime \<ge> Duration
         then Duration - GetTime s + UE_KINDA_SMALL_NUMBER
         else SimulationTime)
      else SimulationTime)"

definition SourceSimulationTime :: "FWorld \<Rightarrow> real \<Rightarrow> FBaseRootMotionSource \<Rightarrow> real" where
  "SourceSimulationTime w DeltaTime s =
     max (EndSimulationTime s
            (StartSimulationTime w DeltaTime s (CatchupSimulationTime s DeltaTime))) 0"

subsection \<open>Preparing the group\<close>

text \<open>The body of the loop for one valid source that is not yet prepared, or is forced.\<close>

definition PrepareSource ::
    "FWorld \<Rightarrow> real \<Rightarrow> FBaseRootMotionSource \<Rightarrow> fatal + FBaseRootMotionSource" where
  "PrepareSource w DeltaTime s =
     (let SimulationTime = SourceSimulationTime w DeltaTime s;
          s1 = s\<lparr>bSimulatedNeedsSmoothing := False\<rparr>
      in case PrepareRootMotion w SimulationTime DeltaTime s1 of
           Inl e \<Rightarrow> Inl e
         | Inr s2 \<Rightarrow> Inr (s2\<lparr>Status := SetFlag (Status s2) Prepared,
                               bNeedsSimulatedCatchup := False\<rparr>))"

definition NoteAccumulateMode ::
    "FBaseRootMotionSource \<Rightarrow> FBaseRootMotionSourceGroup \<Rightarrow> FBaseRootMotionSourceGroup" where
  "NoteAccumulateMode s g =
     (if AccumulateMode s = Additive then g\<lparr>bHasAdditiveSources := True\<rparr>
      else if AccumulateMode s = Override then
        (let g1 = g\<lparr>bHasOverrideSources := True\<rparr> in
         if HasFlag (Settings s) IgnoreZAccumulate
         then g1\<lparr>bHasOverrideSourcesWithIgnoreZAccumulate := True\<rparr> else g1)
      else g)"

text \<open>
  The loop over the active sources: the prepared sources in order, and the group with the
  flags and settings gathered on the way.
\<close>

fun PrepareSources ::
    "FWorld \<Rightarrow> real \<Rightarrow> bool \<Rightarrow> FBaseRootMotionSource option list \<Rightarrow> FBaseRootMotionSourceGroup
     \<Rightarrow> fatal + (FBaseRootMotionSource option list \<times> FBaseRootMotionSourceGroup)" where
  "PrepareSources w DeltaTime bForcePrepareAll [] g = Inr ([], g)"
| "PrepareSources w DeltaTime bForcePrepareAll (None # xs) g =
     (case PrepareSources w DeltaTime bForcePrepareAll xs g of
        Inl e \<Rightarrow> Inl e
      | Inr (ys, g') \<Rightarrow> Inr (None # ys, g'))"
| "PrepareSources w DeltaTime bForcePrepareAll (Some s # xs) g =
     (case (if \<not> HasFlag (Status s) Prepared \<or> bForcePrepareAll then
              (case PrepareSource w DeltaTime s of
                 Inl e \<Rightarrow> Inl e
               | Inr s' \<Rightarrow> Inr (s', g\<lparr>LastAccumulatedSettings :=
                                         LastAccumulatedSettings g OR Settings s'\<rparr>))
            else Inr (s, g)) of
        Inl e \<Rightarrow> Inl e
      | Inr (s', g1) \<Rightarrow>
          (case PrepareSources w DeltaTime bForcePrepareAll xs (NoteAccumulateMode s' g1) of
             Inl e \<Rightarrow> Inl e
           | Inr (ys, g') \<Rightarrow> Inr (Some s' # ys, g')))"

definition Group_PrepareRootMotion ::
    "FWorld \<Rightarrow> real \<Rightarrow> bool \<Rightarrow> FBaseRootMotionSourceGroup \<Rightarrow> fatal + FBaseRootMotionSourceGroup" where
  "Group_PrepareRootMotion w DeltaTime bForcePrepareAll g =
     (let Sources = RootMotionSources g @ PendingAddRootMotionSources g in
      case SortByPriority (DO_CHECK w) Sources of
        Inl e \<Rightarrow> Inl e
      | Inr Sorted \<Rightarrow>
          (let g1 = g\<lparr>RootMotionSources := Sorted, PendingAddRootMotionSources := [],
                      bHasOverrideSources := False,
                      bHasOverrideSourcesWithIgnoreZAccumulate := False,
                      bHasAdditiveSources := False, LastAccumulatedSettings := 0\<rparr>
           in case PrepareSources w DeltaTime bForcePrepareAll Sorted g1 of
                Inl e \<Rightarrow> Inl e
              | Inr (ys, g2) \<Rightarrow> Inr (g2\<lparr>RootMotionSources := ys\<rparr>)))"

subsection \<open>Accumulating velocity\<close>

text \<open>
  The contribution of a source is the translation of its prepared transform, rotated by the
  updated component's rotation when the source is in local space and the component exists.
\<close>

definition RootMotionVelocity :: "FWorld \<Rightarrow> FBaseRootMotionSource \<Rightarrow> FVector" where
  "RootMotionVelocity w s =
     (let T = Translation (RootMotionParams s) in
      if bInLocalSpace s then
        (case ComponentRotation w of Some rot \<Rightarrow> rot T | None \<Rightarrow> T)
      else T)"

definition AccumulateRootMotionVelocityFromSource ::
    "FWorld \<Rightarrow> FBaseRootMotionSource \<Rightarrow> FVector \<Rightarrow> FVector" where
  "AccumulateRootMotionVelocityFromSource w s InOutVelocity =
     (let InputVelocity = InOutVelocity;
          v1 = (if AccumulateMode s = Override then RootMotionVelocity w s
                else if AccumulateMode s = Additive then VAdd InOutVelocity (RootMotionVelocity w s)
                else InOutVelocity)
      in if HasFlag (Settings s) IgnoreZAccumulate then v1\<lparr>Z := Z InputVelocity\<rparr> else v1)"

text \<open>The loop of \<^verbatim>\<open>AccumulateRootMotionVelocity\<close>; it breaks after the first Override source.\<close>

fun AccumulateRootMotionVelocity ::
    "FWorld \<Rightarrow> 8 word \<Rightarrow> FBaseRootMotionSource option list \<Rightarrow> FVector \<Rightarrow> FVector" where
  "AccumulateRootMotionVelocity w RootMotionType [] v = v"
| "AccumulateRootMotionVelocity w RootMotionType (None # xs) v =
     AccumulateRootMotionVelocity w RootMotionType xs v"
| "AccumulateRootMotionVelocity w RootMotionType (Some s # xs) v =
     (if AccumulateMode s = RootMotionType then
        (let v' = AccumulateRootMotionVelocityFromSource w s v in
         if AccumulateMode s = Override then v'
         else AccumulateRootMotionVelocity w RootMotionType xs v')
      else AccumulateRootMotionVelocity w RootMotionType xs v)"

definition AccumulateOverrideRootMotionVelocity ::
    "FWorld \<Rightarrow> FBaseRootMotionSourceGroup \<Rightarrow> FVector \<Rightarrow> FVector" where
  "AccumulateOverrideRootMotionVelocity w g InOutVelocity =
     AccumulateRootMotionVelocity w Override (RootMotionSources g) InOutVelocity"

definition AccumulateAdditiveRootMotionVelocity ::
    "FWorld \<Rightarrow> FBaseRootMotionSourceGroup \<Rightarrow> FVector \<Rightarrow> FVector" where
  "AccumulateAdditiveRootMotionVelocity w g InOutVelocity =
     AccumulateRootMotionVelocity w Additive (RootMotionSources g) InOutVelocity"

subsection \<open>Removing finished sources\<close>







subsection \<open>Equality of groups\<close>

text \<open>The two loops of \<^verbatim>\<open>operator==\<close> over lists of the same length.\<close>

fun SourcesEqual ::
    "FBaseRootMotionSource option list \<Rightarrow> FBaseRootMotionSource option list \<Rightarrow> bool" where
  "SourcesEqual [] ys = True"
| "SourcesEqual (x # xs) [] = True"
| "SourcesEqual (x # xs) (y # ys) =
     (if (x \<noteq> None) = (y \<noteq> None) then
        (case x of
           Some s \<Rightarrow> (if \<not> MatchesAndHasSameState s y then False else SourcesEqual xs ys)
         | None \<Rightarrow> SourcesEqual xs ys)
      else False)"

definition Group_Equal :: "FBaseRootMotionSourceGroup \<Rightarrow> FBaseRootMotionSourceGroup \<Rightarrow> bool" where
  "Group_Equal g Other =
     (if bHasAdditiveSources g \<noteq> bHasAdditiveSources Other \<or>
         bHasOverrideSources g \<noteq> bHasOverrideSources Other \<or>
         bHasOverrideSourcesWithIgnoreZAccumulate g \<noteq>
           bHasOverrideSourcesWithIgnoreZAccumulate Other \<or>
         bIsAdditiveVelocityApplied g \<noteq> bIsAdditiveVelocityApplied Other \<or>
         \<not> VEquals (LastPreAdditiveVelocity g) (LastPreAdditiveVelocity Other) 1
      then False
      else if length (RootMotionSources g) \<noteq> length (RootMotionSources Other) then False
      else if length (PendingAddRootMotionSources g) \<noteq>
              length (PendingAddRootMotionSources Other) then False
      else if \<not> SourcesEqual (RootMotionSources g) (RootMotionSources Other) then False
      else if \<not> SourcesEqual (PendingAddRootMotionSources g)
                   (PendingAddRootMotionSources Other) then False
      else True)"

section \<open>Net serialization\<close>

text \<open>
  The archive is modelled at the level of the values that \<^verbatim>\<open>operator<<\<close> transfers, not of
  their bit encoding: a saving archive appends the value, a loading archive takes the next
  value. As in the engine's bit reader, a read past the end of the data, or from an archive
  already in error, yields zero and leaves (or puts) the archive in error; a value of another
  kind than the one asked for is a decoding failure and is treated the same way.
\<close>

datatype FStructRef = Ref_Null | Ref_Error | Ref_Struct UScriptStruct

datatype FWireItem =
    W_int int
  | W_uint16 "16 word"
  | W_uint8 "8 word"
  | W_FName string
  | W_float real
  | W_bool bool
  | W_FVector FVector
  | W_FRotator FRotator
  | W_Object "nat option"
  | W_ScriptStruct FStructRef

record FArchive =
  ArIsLoading :: bool
  ArIsError :: bool
  ArData :: "FWireItem list"

definition Serialize ::
    "(FWireItem \<Rightarrow> 'a option) \<Rightarrow> ('a \<Rightarrow> FWireItem) \<Rightarrow> 'a \<Rightarrow> FArchive \<Rightarrow> 'a \<Rightarrow> FArchive \<times> 'a" where
  "Serialize dec enc zero Ar v =
     (if ArIsLoading Ar then
        (if ArIsError Ar then (Ar, zero)
         else (case ArData Ar of
                 [] \<Rightarrow> (Ar\<lparr>ArIsError := True\<rparr>, zero)
               | x # rest \<Rightarrow>
                   (case dec x of
                      Some v' \<Rightarrow> (Ar\<lparr>ArData := rest\<rparr>, v')
                    | None \<Rightarrow> (Ar\<lparr>ArIsError := True\<rparr>, zero))))
      else (Ar\<lparr>ArData := ArData Ar @ [enc v]\<rparr>, v))"

definition Ser_int :: "FArchive \<Rightarrow> int \<Rightarrow> FArchive \<times> int" where
  "Ser_int = Serialize (\<lambda>x. case x of W_int v \<Rightarrow> Some v | _ \<Rightarrow> None) W_int 0"

definition Ser_uint16 :: "FArchive \<Rightarrow> 16 word \<Rightarrow> FArchive \<times> 16 word" where
  "Ser_uint16 = Serialize (\<lambda>x. case x of W_uint16 v \<Rightarrow> Some v | _ \<Rightarrow> None) W_uint16 0"

definition Ser_uint8 :: "FArchive \<Rightarrow> 8 word \<Rightarrow> FArchive \<times> 8 word" where
  "Ser_uint8 = Serialize (\<lambda>x. case x of W_uint8 v \<Rightarrow> Some v | _ \<Rightarrow> None) W_uint8 0"

definition Ser_FName :: "FArchive \<Rightarrow> string \<Rightarrow> FArchive \<times> string" where
  "Ser_FName = Serialize (\<lambda>x. case x of W_FName v \<Rightarrow> Some v | _ \<Rightarrow> None) W_FName NAME_None"

definition Ser_float :: "FArchive \<Rightarrow> real \<Rightarrow> FArchive \<times> real" where
  "Ser_float = Serialize (\<lambda>x. case x of W_float v \<Rightarrow> Some v | _ \<Rightarrow> None) W_float 0"

definition Ser_bool :: "FArchive \<Rightarrow> bool \<Rightarrow> FArchive \<times> bool" where
  "Ser_bool = Serialize (\<lambda>x. case x of W_bool v \<Rightarrow> Some v | _ \<Rightarrow> None) W_bool False"

definition Ser_FVector :: "FArchive \<Rightarrow> FVector \<Rightarrow> FArchive \<times> FVector" where
  "Ser_FVector =
     Serialize (\<lambda>x. case x of W_FVector v \<Rightarrow> Some v | _ \<Rightarrow> None) W_FVector ZeroVector"

definition Ser_FRotator :: "FArchive \<Rightarrow> FRotator \<Rightarrow> FArchive \<times> FRotator" where
  "Ser_FRotator =
     Serialize (\<lambda>x. case x of W_FRotator v \<Rightarrow> Some v | _ \<Rightarrow> None) W_FRotator ZeroRotator"

definition Ser_Object :: "FArchive \<Rightarrow> nat option \<Rightarrow> FArchive \<times> nat option" where
  "Ser_Object = Serialize (\<lambda>x. case x of W_Object v \<Rightarrow> Some v | _ \<Rightarrow> None) W_Object None"

definition Ser_ScriptStruct :: "FArchive \<Rightarrow> FStructRef \<Rightarrow> FArchive \<times> FStructRef" where
  "Ser_ScriptStruct =
     Serialize (\<lambda>x. case x of W_ScriptStruct v \<Rightarrow> Some v | _ \<Rightarrow> None) W_ScriptStruct Ref_Null"

subsection \<open>Sources\<close>

text \<open>
  \<^verbatim>\<open>FBaseRootMotionSource::NetSerialize\<close>. Every \<^verbatim>\<open>NetSerialize\<close> of a source returns true
  and sets \<^verbatim>\<open>bOutSuccess\<close>: the result is the archive and the source.
\<close>

definition NetSerialize_Base :: "FArchive \<Rightarrow> FBaseRootMotionSource \<Rightarrow> FArchive \<times> FBaseRootMotionSource" where
  "NetSerialize_Base Ar s =
     (case Ser_int Ar (Priority s) of (Ar1, vPriority) \<Rightarrow>
      case Ser_uint16 Ar1 (LocalID s) of (Ar2, vLocalID) \<Rightarrow>
      case Ser_uint8 Ar2 (AccumulateMode s) of (Ar3, AccumulateModeSerialize) \<Rightarrow>
      case Ser_FName Ar3 (InstanceName s) of (Ar4, vInstanceName) \<Rightarrow>
      case Ser_float Ar4 (CurrentTime s) of (Ar5, vCurrentTime) \<Rightarrow>
      case Ser_float Ar5 (Duration s) of (Ar6, vDuration) \<Rightarrow>
      case Ser_uint8 Ar6 (Status s) of (Ar7, vFlags) \<Rightarrow>
      case Ser_bool Ar7 (bInLocalSpace s) of (Ar8, vInLocalSpace) \<Rightarrow>
        (Ar8, s\<lparr>Priority := vPriority, LocalID := vLocalID,
                 AccumulateMode := AccumulateModeSerialize, InstanceName := vInstanceName,
                 CurrentTime := vCurrentTime, Duration := vDuration, Status := vFlags,
                 bInLocalSpace := vInLocalSpace\<rparr>))"

definition NetSerialize_ConstantForce :: "FArchive \<Rightarrow> FConstantForce \<Rightarrow> FArchive \<times> FConstantForce" where
  "NetSerialize_ConstantForce Ar cf =
     (case Ser_FVector Ar (CF_Force cf) of (Ar1, vForce) \<Rightarrow>
      case Ser_Object Ar1 (CF_StrengthOverTime cf) of (Ar2, vStrengthOverTime) \<Rightarrow>
        (Ar2, cf\<lparr>CF_Force := vForce, CF_StrengthOverTime := vStrengthOverTime\<rparr>))"

definition NetSerialize_RadialForce :: "FArchive \<Rightarrow> FRadialForce \<Rightarrow> FArchive \<times> FRadialForce" where
  "NetSerialize_RadialForce Ar rf =
     (case Ser_FVector Ar (RF_Location rf) of (Ar1, vLocation) \<Rightarrow>
      case Ser_Object Ar1 (RF_LocationActor rf) of (Ar2, vLocationActor) \<Rightarrow>
      case Ser_float Ar2 (RF_Radius rf) of (Ar3, vRadius) \<Rightarrow>
      case Ser_float Ar3 (RF_Strength rf) of (Ar4, vStrength) \<Rightarrow>
      case Ser_bool Ar4 (RF_bIsPush rf) of (Ar5, vIsPush) \<Rightarrow>
      case Ser_bool Ar5 (RF_bNoZForce rf) of (Ar6, vNoZForce) \<Rightarrow>
      case Ser_Object Ar6 (RF_StrengthDistanceFalloff rf) of (Ar7, vStrengthDistanceFalloff) \<Rightarrow>
      case Ser_Object Ar7 (RF_StrengthOverTime rf) of (Ar8, vStrengthOverTime) \<Rightarrow>
      case Ser_bool Ar8 (RF_bUseFixedWorldDirection rf) of (Ar9, vUseFixedWorldDirection) \<Rightarrow>
      case Ser_FRotator Ar9 (RF_FixedWorldDirection rf) of (Ar10, vFixedWorldDirection) \<Rightarrow>
        (Ar10, rf\<lparr>RF_Location := vLocation, RF_LocationActor := vLocationActor,
                    RF_Radius := vRadius, RF_Strength := vStrength, RF_bIsPush := vIsPush,
                    RF_bNoZForce := vNoZForce,
                    RF_StrengthDistanceFalloff := vStrengthDistanceFalloff,
                    RF_StrengthOverTime := vStrengthOverTime,
                    RF_bUseFixedWorldDirection := vUseFixedWorldDirection,
                    RF_FixedWorldDirection := vFixedWorldDirection\<rparr>))"

definition NetSerialize_MoveToForce :: "FArchive \<Rightarrow> FMoveToForce \<Rightarrow> FArchive \<times> FMoveToForce" where
  "NetSerialize_MoveToForce Ar mt =
     (case Ser_FVector Ar (MT_StartLocation mt) of (Ar1, vStartLocation) \<Rightarrow>
      case Ser_FVector Ar1 (MT_TargetLocation mt) of (Ar2, vTargetLocation) \<Rightarrow>
      case Ser_bool Ar2 (MT_bRestrictSpeedToExpected mt) of (Ar3, vRestrict) \<Rightarrow>
      case Ser_Object Ar3 (MT_PathOffsetCurve mt) of (Ar4, vPathOffsetCurve) \<Rightarrow>
        (Ar4, mt\<lparr>MT_StartLocation := vStartLocation, MT_TargetLocation := vTargetLocation,
                   MT_bRestrictSpeedToExpected := vRestrict,
                   MT_PathOffsetCurve := vPathOffsetCurve\<rparr>))"

definition NetSerialize_MoveToDynamicForce ::
    "FArchive \<Rightarrow> FMoveToDynamicForce \<Rightarrow> FArchive \<times> FMoveToDynamicForce" where
  "NetSerialize_MoveToDynamicForce Ar md =
     (case Ser_FVector Ar (MD_StartLocation md) of (Ar1, vStartLocation) \<Rightarrow>
      case Ser_FVector Ar1 (MD_InitialTargetLocation md) of (Ar2, vInitialTargetLocation) \<Rightarrow>
      case Ser_FVector Ar2 (MD_TargetLocation md) of (Ar3, vTargetLocation) \<Rightarrow>
      case Ser_bool Ar3 (MD_bRestrictSpeedToExpected md) of (Ar4, vRestrict) \<Rightarrow>
      case Ser_Object Ar4 (MD_PathOffsetCurve md) of (Ar5, vPathOffsetCurve) \<Rightarrow>
      case Ser_Object Ar5 (MD_TimeMappingCurve md) of (Ar6, vTimeMappingCurve) \<Rightarrow>
        (Ar6, md\<lparr>MD_StartLocation := vStartLocation,
                   MD_InitialTargetLocation := vInitialTargetLocation,
                   MD_TargetLocation := vTargetLocation,
                   MD_bRestrictSpeedToExpected := vRestrict,
                   MD_PathOffsetCurve := vPathOffsetCurve,
                   MD_TimeMappingCurve := vTimeMappingCurve\<rparr>))"

definition NetSerialize_JumpForce :: "FArchive \<Rightarrow> FJumpForce \<Rightarrow> FArchive \<times> FJumpForce" where
  "NetSerialize_JumpForce Ar jf =
     (case Ser_FRotator Ar (JF_Rotation jf) of (Ar1, vRotation) \<Rightarrow>
      case Ser_float Ar1 (JF_Distance jf) of (Ar2, vDistance) \<Rightarrow>
      case Ser_float Ar2 (JF_Height jf) of (Ar3, vHeight) \<Rightarrow>
      case Ser_bool Ar3 (JF_bDisableTimeout jf) of (Ar4, vDisableTimeout) \<Rightarrow>
      case Ser_Object Ar4 (JF_PathOffsetCurve jf) of (Ar5, vPathOffsetCurve) \<Rightarrow>
      case Ser_Object Ar5 (JF_TimeMappingCurve jf) of (Ar6, vTimeMappingCurve) \<Rightarrow>
        (Ar6, jf\<lparr>JF_Rotation := vRotation, JF_Distance := vDistance, JF_Height := vHeight,
                   JF_bDisableTimeout := vDisableTimeout,
                   JF_PathOffsetCurve := vPathOffsetCurve,
                   JF_TimeMappingCurve := vTimeMappingCurve\<rparr>))"

text \<open>The virtual \<^verbatim>\<open>NetSerialize\<close>: the shared fields, then the fields of the variant.\<close>

definition NetSerialize :: "FArchive \<Rightarrow> FBaseRootMotionSource \<Rightarrow> FArchive \<times> FBaseRootMotionSource" where
  "NetSerialize Ar s =
     (case NetSerialize_Base Ar s of (Ar1, s1) \<Rightarrow>
      case Variant s1 of
        ConstantForce cf \<Rightarrow>
          (case NetSerialize_ConstantForce Ar1 cf of
             (Ar2, cf') \<Rightarrow> (Ar2, s1\<lparr>Variant := ConstantForce cf'\<rparr>))
      | RadialForce rf \<Rightarrow>
          (case NetSerialize_RadialForce Ar1 rf of
             (Ar2, rf') \<Rightarrow> (Ar2, s1\<lparr>Variant := RadialForce rf'\<rparr>))
      | MoveToForce mt \<Rightarrow>
          (case NetSerialize_MoveToForce Ar1 mt of
             (Ar2, mt') \<Rightarrow> (Ar2, s1\<lparr>Variant := MoveToForce mt'\<rparr>))
      | MoveToDynamicForce md \<Rightarrow>
          (case NetSerialize_MoveToDynamicForce Ar1 md of
             (Ar2, md') \<Rightarrow> (Ar2, s1\<lparr>Variant := MoveToDynamicForce md'\<rparr>))
      | JumpForce jf \<Rightarrow>
          (case NetSerialize_JumpForce Ar1 jf of
             (Ar2, jf') \<Rightarrow> (Ar2, s1\<lparr>Variant := JumpForce jf'\<rparr>)))"

subsection \<open>The source arrays of a group\<close>

text \<open>
  The struct hierarchy: the five sources derive directly from the base struct; the other
  script structs of the program are unrelated to it.
\<close>

fun GetSuperStruct :: "UScriptStruct \<Rightarrow> UScriptStruct option" where
  "GetSuperStruct Struct_RootMotionSource = None"
| "GetSuperStruct (Struct_Other n) = None"
| "GetSuperStruct _ = Some Struct_RootMotionSource"

text \<open>The walk up the super structs, for at most the depth given.\<close>

fun SuperStructWalk :: "nat \<Rightarrow> UScriptStruct option \<Rightarrow> bool" where
  "SuperStructWalk n None = False"
| "SuperStructWalk 0 (Some c) = (c = Struct_RootMotionSource)"
| "SuperStructWalk (Suc n) (Some c) =
     (if c = Struct_RootMotionSource then True else SuperStructWalk n (GetSuperStruct c))"

definition IsDerivedFromBaseRMS :: "UScriptStruct \<Rightarrow> bool" where
  "IsDerivedFromBaseRMS st = SuperStructWalk 2 (GetSuperStruct st)"

text \<open>\<^verbatim>\<open>InitializeStruct\<close> on fresh memory runs the constructor of the struct.\<close>

fun InitializeStruct :: "UScriptStruct \<Rightarrow> FBaseRootMotionSource option" where
  "InitializeStruct Struct_ConstantForce = Some New_ConstantForce"
| "InitializeStruct Struct_RadialForce = Some New_RadialForce"
| "InitializeStruct Struct_MoveToForce = Some New_MoveToForce"
| "InitializeStruct Struct_MoveToDynamicForce = Some New_MoveToDynamicForce"
| "InitializeStruct Struct_JumpForce = Some New_JumpForce"
| "InitializeStruct _ = None"

text \<open>\<^verbatim>\<open>STRUCT_NetSerializeNative\<close> is set for the five sources by their struct traits.\<close>

fun HasNetSerializeNative :: "UScriptStruct \<Rightarrow> bool" where
  "HasNetSerializeNative Struct_RootMotionSource = False"
| "HasNetSerializeNative (Struct_Other n) = False"
| "HasNetSerializeNative _ = True"

definition StructRefOf :: "FBaseRootMotionSource option \<Rightarrow> FStructRef" where
  "StructRefOf x = (case x of Some s \<Rightarrow> Ref_Struct (GetScriptStruct s) | None \<Rightarrow> Ref_Null)"

text \<open>
  The loop of \<^verbatim>\<open>NetSerializeRMSArray\<close> over the entries it visits, in order: the archive and
  the entries after it. It stops at the first entry reached with the archive in error, and
  breaks, with the error set, on a struct that does not derive from the base struct and on a
  reference that is no script struct. Going through a null entry would be a crash.
\<close>

fun NetSerializeRMSEntries ::
    "bool \<Rightarrow> FArchive \<Rightarrow> FBaseRootMotionSource option list
     \<Rightarrow> fatal + (FArchive \<times> FBaseRootMotionSource option list)" where
  "NetSerializeRMSEntries chk Ar [] = Inr (Ar, [])"
| "NetSerializeRMSEntries chk Ar (x # xs) =
     (if ArIsError Ar then Inr (Ar, x # xs)
      else
        (case Ser_ScriptStruct Ar (StructRefOf x) of (Ar1, ScriptStruct) \<Rightarrow>
         case ScriptStruct of
           Ref_Struct st \<Rightarrow>
             (if IsDerivedFromBaseRMS st then
                (let x1 = (if ArIsLoading Ar1 then
                             (if x \<noteq> None \<and> StructRefOf x = ScriptStruct then x
                              else InitializeStruct st)
                           else x)
                 in if HasNetSerializeNative st then
                      (case x1 of
                         None \<Rightarrow> Inl NullDereference
                       | Some s \<Rightarrow>
                           (case NetSerialize Ar1 s of (Ar2, s') \<Rightarrow>
                            case NetSerializeRMSEntries chk Ar2 xs of
                              Inl e \<Rightarrow> Inl e
                            | Inr (Ar3, ys) \<Rightarrow> Inr (Ar3, Some s' # ys)))
                    else if chk then Inl CheckFailed
                    else (case NetSerializeRMSEntries chk Ar1 xs of
                            Inl e \<Rightarrow> Inl e
                          | Inr (Ar3, ys) \<Rightarrow> Inr (Ar3, x1 # ys)))
              else Inr (Ar1\<lparr>ArIsError := True\<rparr>, x # xs))
         | Ref_Error \<Rightarrow> Inr (Ar1\<lparr>ArIsError := True\<rparr>, x # xs)
         | Ref_Null \<Rightarrow>
             (case NetSerializeRMSEntries chk Ar1 xs of
                Inl e \<Rightarrow> Inl e
              | Inr (Ar3, ys) \<Rightarrow> Inr (Ar3, x # ys))))"

definition SetNumZeroed :: "'a option list \<Rightarrow> nat \<Rightarrow> 'a option list" where
  "SetNumZeroed xs n = take n xs @ replicate (n - length xs) None"

definition NetSerializeRMSArray ::
    "bool \<Rightarrow> FArchive \<Rightarrow> FBaseRootMotionSource option list \<Rightarrow> 8 word
     \<Rightarrow> fatal + (FArchive \<times> FBaseRootMotionSource option list)" where
  "NetSerializeRMSArray chk Ar RootMotionSourceArray MaxNumRootMotionSourcesToSerialize =
     (let SourcesNum0 =
            (if \<not> ArIsLoading Ar
             then word_of_nat (min (length RootMotionSourceArray)
                                 (unat MaxNumRootMotionSourcesToSerialize))
             else 0)
      in case Ser_uint8 Ar SourcesNum0 of (Ar1, SourcesNum) \<Rightarrow>
           (let Array1 = (if ArIsLoading Ar1
                          then SetNumZeroed RootMotionSourceArray (unat SourcesNum)
                          else RootMotionSourceArray)
            in case NetSerializeRMSEntries chk Ar1 (take (unat SourcesNum) Array1) of
                 Inl e \<Rightarrow> Inl e
               | Inr (Ar2, ys) \<Rightarrow> Inr (Ar2, ys @ drop (unat SourcesNum) Array1)))"

text \<open>
  \<^verbatim>\<open>FBaseRootMotionSourceGroup::NetSerialize\<close>: the archive, the group, and the flag that is
  both returned and stored in \<^verbatim>\<open>bOutSuccess\<close>.
\<close>

definition Group_NetSerialize ::
    "bool \<Rightarrow> FArchive \<Rightarrow> FBaseRootMotionSourceGroup \<Rightarrow> 8 word
     \<Rightarrow> fatal + (FArchive \<times> FBaseRootMotionSourceGroup \<times> bool)" where
  "Group_NetSerialize chk Ar g MaxNumRootMotionSourcesToSerialize =
     (case Ser_bool Ar (bHasAdditiveSources g) of (Ar1, vHasAdditive) \<Rightarrow>
      case Ser_bool Ar1 (bHasOverrideSources g) of (Ar2, vHasOverride) \<Rightarrow>
      case Ser_bool Ar2 (bHasOverrideSourcesWithIgnoreZAccumulate g) of (Ar3, vHasIgnoreZ) \<Rightarrow>
      case Ser_FVector Ar3 (LastPreAdditiveVelocity g) of (Ar4, vLastPre) \<Rightarrow>
      case Ser_bool Ar4 (bIsAdditiveVelocityApplied g) of (Ar5, vApplied) \<Rightarrow>
      case Ser_uint8 Ar5 (LastAccumulatedSettings g) of (Ar6, vSettings) \<Rightarrow>
        (let g1 = g\<lparr>bHasAdditiveSources := vHasAdditive, bHasOverrideSources := vHasOverride,
                    bHasOverrideSourcesWithIgnoreZAccumulate := vHasIgnoreZ,
                    LastPreAdditiveVelocity := vLastPre, bIsAdditiveVelocityApplied := vApplied,
                    LastAccumulatedSettings := vSettings\<rparr>;
             NumRootMotionSourcesToSerialize =
               (word_of_nat (min (length (RootMotionSources g1))
                               (unat MaxNumRootMotionSourcesToSerialize)) :: 8 word);
             NumPendingAddRootMotionSourcesToSerialize =
               (if NumRootMotionSourcesToSerialize < MaxNumRootMotionSourcesToSerialize
                then MaxNumRootMotionSourcesToSerialize - NumRootMotionSourcesToSerialize
                else 0)
         in case NetSerializeRMSArray chk Ar6 (RootMotionSources g1)
                   NumRootMotionSourcesToSerialize of
              Inl e \<Rightarrow> Inl e
            | Inr (Ar7, Active) \<Rightarrow>
                (case NetSerializeRMSArray chk Ar7 (PendingAddRootMotionSources g1)
                        NumPendingAddRootMotionSourcesToSerialize of
                   Inl e \<Rightarrow> Inl e
                 | Inr (Ar8, Pending) \<Rightarrow>
                     (if ArIsError Ar8 then
                        Inr (Ar8,
                             g1\<lparr>RootMotionSources := filter (\<lambda>x. x \<noteq> None) Active,
                                PendingAddRootMotionSources := filter (\<lambda>x. x \<noteq> None) Pending\<rparr>,
                             False)
                      else
                        Inr (Ar8,
                             g1\<lparr>RootMotionSources := Active,
                                PendingAddRootMotionSources := Pending\<rparr>,
                             True)))))"

section \<open>The buffer of replicated root motion moves\<close>

text \<open>
  From \<^verbatim>\<open>BaseCharacter.cpp\<close>. Of a replicated move only the receipt time, the montage and the
  track position are read here. The montage instance of the client carries what the functions
  ask of it and of its montage: position, play rate, the section of a position
  (\<^verbatim>\<open>INDEX_NONE\<close> outside every section), the section that follows a section, and the length
  of a section.
\<close>

definition INDEX_NONE :: int where
  "INDEX_NONE = - 1"

record FBaseRepRootMotionMontage =
  AnimMontage :: "nat option"
  Position :: real

record FBaseSimulatedRootMotionReplicatedMove =
  Time :: real
  RootMotion :: FBaseRepRootMotionMontage

record FAnimMontageInstance =
  Montage :: "nat option"
  GetPosition :: real
  GetPlayRate :: real
  GetSectionIndexFromPosition :: "real \<Rightarrow> int"
  GetNextSectionID :: "int \<Rightarrow> int"
  GetSectionLength :: "int \<Rightarrow> real"

text \<open>\<^verbatim>\<open>GetWorld()->TimeSince(Time)\<close> is the world time in seconds minus the time given.\<close>

definition CanUseRootMotionRepMove ::
    "real \<Rightarrow> FBaseSimulatedRootMotionReplicatedMove \<Rightarrow> FAnimMontageInstance \<Rightarrow> bool" where
  "CanUseRootMotionRepMove TimeSeconds RootMotionRepMove ClientMontageInstance =
     (if TimeSeconds - Time RootMotionRepMove \<le> 1 / 2 then
        (if AnimMontage (RootMotion RootMotionRepMove) \<noteq> None \<and>
            AnimMontage (RootMotion RootMotionRepMove) = Montage ClientMontageInstance then
           (let ServerPosition = Position (RootMotion RootMotionRepMove);
                ClientPosition = GetPosition ClientMontageInstance;
                DeltaPosition = ClientPosition - ServerPosition;
                CurrentSectionIndex =
                  GetSectionIndexFromPosition ClientMontageInstance ClientPosition
            in if CurrentSectionIndex \<noteq> INDEX_NONE then
                 (let NextSectionIndex = GetNextSectionID ClientMontageInstance CurrentSectionIndex;
                      bSameSections =
                        (GetSectionIndexFromPosition ClientMontageInstance ServerPosition =
                           CurrentSectionIndex);
                      bHasLooped =
                        (NextSectionIndex = CurrentSectionIndex \<and>
                         \<bar>DeltaPosition\<bar> >
                           GetSectionLength ClientMontageInstance CurrentSectionIndex / 2);
                      bServerAheadOfClient =
                        (DeltaPosition * GetPlayRate ClientMontageInstance < 0)
                  in bSameSections \<and> \<not> bHasLooped \<and> \<not> bServerAheadOfClient)
               else False)
         else False)
      else False)"

text \<open>
  The loop of \<^verbatim>\<open>FindRootMotionRepMove\<close>, from the most recent move down: the first argument
  is the index after the one looked at next.
\<close>

fun FindRootMotionRepMove_Loop ::
    "real \<Rightarrow> FBaseSimulatedRootMotionReplicatedMove list \<Rightarrow> FAnimMontageInstance \<Rightarrow> nat \<Rightarrow> int" where
  "FindRootMotionRepMove_Loop TimeSeconds RootMotionRepMoves ClientMontageInstance 0 = INDEX_NONE"
| "FindRootMotionRepMove_Loop TimeSeconds RootMotionRepMoves ClientMontageInstance (Suc MoveIndex) =
     (if CanUseRootMotionRepMove TimeSeconds (RootMotionRepMoves ! MoveIndex) ClientMontageInstance
      then int MoveIndex
      else FindRootMotionRepMove_Loop TimeSeconds RootMotionRepMoves ClientMontageInstance MoveIndex)"

definition FindRootMotionRepMove ::
    "real \<Rightarrow> FBaseSimulatedRootMotionReplicatedMove list \<Rightarrow> FAnimMontageInstance \<Rightarrow> int" where
  "FindRootMotionRepMove TimeSeconds RootMotionRepMoves ClientMontageInstance =
     FindRootMotionRepMove_Loop TimeSeconds RootMotionRepMoves ClientMontageInstance
       (length RootMotionRepMoves)"

section \<open>Predicates and example inputs used in the statements\<close>

text \<open>
  The move-to and jump forces assert a duration above \<^verbatim>\<open>UE_SMALL_NUMBER\<close> in their
  \<^verbatim>\<open>PrepareRootMotion\<close>; the constant and radial forces accept every duration.
\<close>

definition DurationAccepted :: "FWorld \<Rightarrow> FBaseRootMotionSource \<Rightarrow> bool" where
  "DurationAccepted w s =
     (case Variant s of
        ConstantForce _ \<Rightarrow> True
      | RadialForce _ \<Rightarrow> True
      | _ \<Rightarrow> \<not> DO_CHECK w \<or> Duration s > UE_SMALL_NUMBER)"

definition ExampleWorld :: FWorld where
  "ExampleWorld =
     \<lparr>DO_CHECK = True, ActorLocation = ZeroVector, LocationActorLocation = (\<lambda>_. ZeroVector),
      FloatCurveValue = (\<lambda>_ t. t), FloatCurveTimeRange = (\<lambda>_. (0, 1)),
      VectorCurveValue = (\<lambda>_ _. ZeroVector), VectorCurveTimeRange = (\<lambda>_. (0, 1)),
      RotatorVector = (\<lambda>_. \<lparr>X = 1, Y = 0, Z = 0\<rparr>), RotateVector = (\<lambda>_ v. v),
      VectorRotation = (\<lambda>_. ZeroRotator), LocalRole = ROLE_Authority,
      ClientCurrentTimeStamp = None, bClientUpdating = False,
      ServerCurrentClientTimeStamp = None, ComponentRotation = None\<rparr>"

definition C7_tiny :: FBaseRootMotionSource where
  "C7_tiny = New_MoveToForce\<lparr>Duration := 1 / 1000000000\<rparr>"

definition C7_moveto :: FBaseRootMotionSource where
  "C7_moveto = New_MoveToForce\<lparr>Duration := 1\<rparr>"

definition C5_self :: FBaseRootMotionSource where
  "C5_self = New_ConstantForce\<lparr>Duration := 1\<rparr>"

definition C5_other :: FBaseRootMotionSource where
  "C5_other = New_ConstantForce\<lparr>Duration := 5, CurrentTime := 2\<rparr>"

definition C5_self_marked :: FBaseRootMotionSource where
  "C5_self_marked = New_ConstantForce\<lparr>Status := MarkedForRemoval\<rparr>"

definition C5_other_prepared :: FBaseRootMotionSource where
  "C5_other_prepared = New_ConstantForce\<lparr>CurrentTime := 3, Status := Prepared\<rparr>"

text \<open>
  The two attenuation factors in the words of the specification: the value of the curve, and
  1 when the curve is absent.
\<close>

definition RadialForce_DistanceFactor :: "FWorld \<Rightarrow> FRadialForce \<Rightarrow> real \<Rightarrow> real" where
  "RadialForce_DistanceFactor w rf Distance =
     (case RF_StrengthDistanceFalloff rf of
        None \<Rightarrow> 1
      | Some c \<Rightarrow> FloatCurveValue w c (Clamp (Distance / RF_Radius rf) 0 1))"

definition RadialForce_TimeFactor :: "FWorld \<Rightarrow> FBaseRootMotionSource \<Rightarrow> FRadialForce \<Rightarrow> real" where
  "RadialForce_TimeFactor w s rf =
     (case RF_StrengthOverTime rf of
        None \<Rightarrow> 1
      | Some c \<Rightarrow> FloatCurveValue w c
                  (if Duration s > 0 then Clamp (GetTime s / Duration s) 0 1 else GetTime s))"

text \<open>
  The location the radial force acts from, the distance of the character to it, and the
  attenuation in the words of the specification.
\<close>

definition RadialForce_ForceLocation :: "FWorld \<Rightarrow> FRadialForce \<Rightarrow> FVector" where
  "RadialForce_ForceLocation w rf =
     (case RF_LocationActor rf of
        Some a \<Rightarrow> LocationActorLocation w a
      | None \<Rightarrow> RF_Location rf)"

definition RadialForce_Distance :: "FWorld \<Rightarrow> FRadialForce \<Rightarrow> real" where
  "RadialForce_Distance w rf = Dist (RadialForce_ForceLocation w rf) (ActorLocation w)"

definition RadialForce_Attenuation :: "FWorld \<Rightarrow> FBaseRootMotionSource \<Rightarrow> FRadialForce \<Rightarrow> real" where
  "RadialForce_Attenuation w s rf =
     Clamp (1 - (1 - RadialForce_DistanceFactor w rf (RadialForce_Distance w rf))
              - (1 - RadialForce_TimeFactor w s rf)) 0 1"

definition C6_force :: FRadialForce where
  "C6_force =
     \<lparr>RF_Location = ZeroVector, RF_LocationActor = None, RF_Radius = 1, RF_Strength = 8,
      RF_bIsPush = True, RF_bNoZForce = False, RF_StrengthDistanceFalloff = Some 0,
      RF_StrengthOverTime = Some 1, RF_bUseFixedWorldDirection = False,
      RF_FixedWorldDirection = ZeroRotator\<rparr>"

definition C6_source :: FBaseRootMotionSource where
  "C6_source = (BaseConstruct (RadialForce C6_force))\<lparr>CurrentTime := 3 / 4\<rparr>"

definition C6_world :: FWorld where
  "C6_world = ExampleWorld\<lparr>ActorLocation := \<lparr>X = 1 / 2, Y = 0, Z = 0\<rparr>\<rparr>"







text \<open>The first valid Override source of a list: the one that the accumulation loop stops at.\<close>

fun FirstOverride :: "FBaseRootMotionSource option list \<Rightarrow> FBaseRootMotionSource option" where
  "FirstOverride [] = None"
| "FirstOverride (None # xs) = FirstOverride xs"
| "FirstOverride (Some s # xs) = (if AccumulateMode s = Override then Some s else FirstOverride xs)"

text \<open>What the group's prepare loop makes of one source.\<close>

definition PreparedFrom ::
    "FWorld \<Rightarrow> real \<Rightarrow> bool \<Rightarrow> FBaseRootMotionSource \<Rightarrow> FBaseRootMotionSource \<Rightarrow> bool" where
  "PreparedFrom w DeltaTime bForcePrepareAll s s' =
     (if \<not> HasFlag (Status s) Prepared \<or> bForcePrepareAll
      then PrepareSource w DeltaTime s = Inr s' else s' = s)"

definition PreparedEntry ::
    "FWorld \<Rightarrow> real \<Rightarrow> bool \<Rightarrow> FBaseRootMotionSource option \<Rightarrow> FBaseRootMotionSource option
     \<Rightarrow> bool" where
  "PreparedEntry w DeltaTime bForcePrepareAll x y =
     (case x of
        None \<Rightarrow> y = None
      | Some s \<Rightarrow> (case y of None \<Rightarrow> False | Some s' \<Rightarrow> PreparedFrom w DeltaTime bForcePrepareAll s s'))"

definition PriorityOf :: "FBaseRootMotionSource option \<Rightarrow> int" where
  "PriorityOf x = (case x of None \<Rightarrow> 0 | Some s \<Rightarrow> Priority s)"

definition C1_a :: FBaseRootMotionSource where
  "C1_a =
     New_ConstantForce
       \<lparr>Priority := 5,
        Variant := ConstantForce \<lparr>CF_Force = \<lparr>X = 5, Y = 0, Z = 0\<rparr>, CF_StrengthOverTime = None\<rparr>\<rparr>"

definition C1_b :: FBaseRootMotionSource where
  "C1_b =
     New_ConstantForce
       \<lparr>Priority := 1,
        Variant := ConstantForce \<lparr>CF_Force = \<lparr>X = 1, Y = 0, Z = 0\<rparr>, CF_StrengthOverTime = None\<rparr>\<rparr>"

definition C1_c :: FBaseRootMotionSource where
  "C1_c =
     New_ConstantForce
       \<lparr>Priority := 9,
        Variant := ConstantForce \<lparr>CF_Force = \<lparr>X = 9, Y = 0, Z = 7\<rparr>, CF_StrengthOverTime = None\<rparr>\<rparr>"

definition C1_group :: FBaseRootMotionSourceGroup where
  "C1_group = New_Group\<lparr>PendingAddRootMotionSources := [Some C1_a, Some C1_b, Some C1_c]\<rparr>"

definition C1_z :: FBaseRootMotionSource where
  "C1_z =
     New_ConstantForce
       \<lparr>Priority := 9,
        Settings := SetFlag (Settings New_ConstantForce) IgnoreZAccumulate,
        Variant := ConstantForce \<lparr>CF_Force = \<lparr>X = 9, Y = 0, Z = 7\<rparr>, CF_StrengthOverTime = None\<rparr>\<rparr>"

definition C1_group_z :: FBaseRootMotionSourceGroup where
  "C1_group_z = New_Group\<lparr>PendingAddRootMotionSources := [Some C1_a, Some C1_b, Some C1_z]\<rparr>"




text \<open>
  Two sources that agree in their variant with its configuration, in the shared configuration
  fields, in the status flags and in the elapsed time; nothing is asked of the other fields,
  \<^verbatim>\<open>LocalID\<close> among them.
\<close>

definition SameConfigurationAndState ::
    "FBaseRootMotionSource \<Rightarrow> FBaseRootMotionSource \<Rightarrow> bool" where
  "SameConfigurationAndState a b =
     (Variant a = Variant b \<and> Priority a = Priority b \<and>
      AccumulateMode a = AccumulateMode b \<and> bInLocalSpace a = bInLocalSpace b \<and>
      InstanceName a = InstanceName b \<and> Duration a = Duration b \<and>
      Status a = Status b \<and> CurrentTime a = CurrentTime b)"

definition SameEntry ::
    "FBaseRootMotionSource option \<Rightarrow> FBaseRootMotionSource option \<Rightarrow> bool" where
  "SameEntry x y =
     (case x of
        None \<Rightarrow> y = None
      | Some a \<Rightarrow> (case y of None \<Rightarrow> False | Some b \<Rightarrow> SameConfigurationAndState a b))"

definition C10_left :: FBaseRootMotionSourceGroup where
  "C10_left =
     New_Group\<lparr>RootMotionSources := [Some (New_ConstantForce\<lparr>LocalID := 1\<rparr>), None],
               PendingAddRootMotionSources := [Some (New_JumpForce\<lparr>LocalID := 2\<rparr>)],
               LastPreAdditiveVelocity := \<lparr>X = 1, Y = 2, Z = 3\<rparr>\<rparr>"

definition C10_right :: FBaseRootMotionSourceGroup where
  "C10_right =
     New_Group\<lparr>RootMotionSources := [Some (New_ConstantForce\<lparr>LocalID := 7\<rparr>), None],
               PendingAddRootMotionSources := [Some (New_JumpForce\<lparr>LocalID := 8\<rparr>)],
               LastPreAdditiveVelocity := \<lparr>X = 3 / 2, Y = 2, Z = 3\<rparr>\<rparr>"

text \<open>The values that \<^verbatim>\<open>NetSerialize\<close> writes for a source, in order.\<close>

definition BaseWire :: "FBaseRootMotionSource \<Rightarrow> FWireItem list" where
  "BaseWire s =
     [W_int (Priority s), W_uint16 (LocalID s), W_uint8 (AccumulateMode s),
      W_FName (InstanceName s), W_float (CurrentTime s), W_float (Duration s),
      W_uint8 (Status s), W_bool (bInLocalSpace s)]"

fun VariantWire :: "FVariant \<Rightarrow> FWireItem list" where
  "VariantWire (ConstantForce cf) = [W_FVector (CF_Force cf), W_Object (CF_StrengthOverTime cf)]"
| "VariantWire (RadialForce rf) =
     [W_FVector (RF_Location rf), W_Object (RF_LocationActor rf), W_float (RF_Radius rf),
      W_float (RF_Strength rf), W_bool (RF_bIsPush rf), W_bool (RF_bNoZForce rf),
      W_Object (RF_StrengthDistanceFalloff rf), W_Object (RF_StrengthOverTime rf),
      W_bool (RF_bUseFixedWorldDirection rf), W_FRotator (RF_FixedWorldDirection rf)]"
| "VariantWire (MoveToForce mt) =
     [W_FVector (MT_StartLocation mt), W_FVector (MT_TargetLocation mt),
      W_bool (MT_bRestrictSpeedToExpected mt), W_Object (MT_PathOffsetCurve mt)]"
| "VariantWire (MoveToDynamicForce md) =
     [W_FVector (MD_StartLocation md), W_FVector (MD_InitialTargetLocation md),
      W_FVector (MD_TargetLocation md), W_bool (MD_bRestrictSpeedToExpected md),
      W_Object (MD_PathOffsetCurve md), W_Object (MD_TimeMappingCurve md)]"
| "VariantWire (JumpForce jf) =
     [W_FRotator (JF_Rotation jf), W_float (JF_Distance jf), W_float (JF_Height jf),
      W_bool (JF_bDisableTimeout jf), W_Object (JF_PathOffsetCurve jf),
      W_Object (JF_TimeMappingCurve jf)]"

definition SourceWire :: "FBaseRootMotionSource \<Rightarrow> FWireItem list" where
  "SourceWire s = BaseWire s @ VariantWire (Variant s)"

text \<open>
  A source \<open>t\<close> after it has received the written fields of a source \<open>s\<close> of the same struct:
  the fields that are not written keep the values they have in \<open>t\<close>.
\<close>

fun ReceiveVariant :: "FVariant \<Rightarrow> FVariant \<Rightarrow> FVariant" where
  "ReceiveVariant (JumpForce jt) (JumpForce js) =
     JumpForce (js\<lparr>JF_SavedHalfwayLocation := JF_SavedHalfwayLocation jt\<rparr>)"
| "ReceiveVariant vt vs = vs"

definition Receive :: "FBaseRootMotionSource \<Rightarrow> FBaseRootMotionSource \<Rightarrow> FBaseRootMotionSource" where
  "Receive t s =
     t\<lparr>Priority := Priority s, LocalID := LocalID s, AccumulateMode := AccumulateMode s,
       InstanceName := InstanceName s, CurrentTime := CurrentTime s, Duration := Duration s,
       Status := Status s, bInLocalSpace := bInLocalSpace s,
       Variant := ReceiveVariant (Variant t) (Variant s)\<rparr>"

text \<open>The default-constructed instance of the struct of a source.\<close>

definition DefaultOf :: "FBaseRootMotionSource \<Rightarrow> FBaseRootMotionSource" where
  "DefaultOf s =
     (case Variant s of
        ConstantForce _ \<Rightarrow> New_ConstantForce
      | RadialForce _ \<Rightarrow> New_RadialForce
      | MoveToForce _ \<Rightarrow> New_MoveToForce
      | MoveToDynamicForce _ \<Rightarrow> New_MoveToDynamicForce
      | JumpForce _ \<Rightarrow> New_JumpForce)"

definition SavingArchive :: FArchive where
  "SavingArchive = \<lparr>ArIsLoading = False, ArIsError = False, ArData = []\<rparr>"

definition LoadingArchive :: "FWireItem list \<Rightarrow> FArchive" where
  "LoadingArchive d = \<lparr>ArIsLoading = True, ArIsError = False, ArData = d\<rparr>"

definition C4_source :: FBaseRootMotionSource where
  "C4_source =
     (BaseConstruct (ConstantForce \<lparr>CF_Force = \<lparr>X = 1, Y = 2, Z = 3\<rparr>,
                                    CF_StrengthOverTime = Some 4\<rparr>))
       \<lparr>Priority := 7, LocalID := 9, AccumulateMode := Additive, InstanceName := ''Dash'',
        StartTime := 5, CurrentTime := 1 / 4, Duration := 2, Status := Prepared,
        Settings := SetFlag 0 DisablePartialEndTick, bInLocalSpace := True\<rparr>"

text \<open>What the array loop writes for one entry: the struct reference, then the source.\<close>

definition EntryWire :: "FBaseRootMotionSource option \<Rightarrow> FWireItem list" where
  "EntryWire x =
     (case x of
        None \<Rightarrow> [W_ScriptStruct Ref_Null]
      | Some s \<Rightarrow> W_ScriptStruct (Ref_Struct (GetScriptStruct s)) # SourceWire s)"

text \<open>
  A local entry after the loop has read the values written for an entry: a null reference
  leaves it as it is; a source is received by the local source when that has the same struct
  and by a freshly constructed one otherwise.
\<close>

definition ReceiveEntry ::
    "FBaseRootMotionSource option \<Rightarrow> FBaseRootMotionSource option \<Rightarrow> FBaseRootMotionSource option" where
  "ReceiveEntry local x =
     (case x of
        None \<Rightarrow> local
      | Some s \<Rightarrow>
          (case local of
             Some t \<Rightarrow> (if GetScriptStruct t = GetScriptStruct s then Some (Receive t s)
                        else Some (Receive (DefaultOf s) s))
           | None \<Rightarrow> Some (Receive (DefaultOf s) s)))"

definition GroupHeaderWire :: "FBaseRootMotionSourceGroup \<Rightarrow> FWireItem list" where
  "GroupHeaderWire g =
     [W_bool (bHasAdditiveSources g), W_bool (bHasOverrideSources g),
      W_bool (bHasOverrideSourcesWithIgnoreZAccumulate g), W_FVector (LastPreAdditiveVelocity g),
      W_bool (bIsAdditiveVelocityApplied g), W_uint8 (LastAccumulatedSettings g)]"

definition IsBadStructRef :: "FStructRef \<Rightarrow> bool" where
  "IsBadStructRef r =
     (case r of
        Ref_Null \<Rightarrow> False
      | Ref_Error \<Rightarrow> True
      | Ref_Struct st \<Rightarrow> \<not> IsDerivedFromBaseRMS st)"

definition C8_stream :: "FWireItem list" where
  "C8_stream =
     GroupHeaderWire New_Group @
     W_uint8 2 # concat (map EntryWire [Some C4_source]) @
     W_ScriptStruct (Ref_Struct Struct_RootMotionSource) # [W_int 1, W_uint8 0]"

definition C8_null_stream :: "FWireItem list" where
  "C8_null_stream =
     GroupHeaderWire New_Group @ [W_uint8 1, W_ScriptStruct Ref_Null, W_uint8 0]"

text \<open>
  The conditions on a usable move in the words of the specification: recent enough, of the
  montage the client plays, in the section the client is in, not wrapped around a loop by
  more than half the section, and not ahead of the client in the direction of play.
\<close>

definition UsableMove ::
    "real \<Rightarrow> FBaseSimulatedRootMotionReplicatedMove \<Rightarrow> FAnimMontageInstance \<Rightarrow> bool" where
  "UsableMove now m c =
     (now - Time m \<le> 1 / 2 \<and>
      (\<exists>a. AnimMontage (RootMotion m) = Some a \<and> Montage c = Some a) \<and>
      GetSectionIndexFromPosition c (GetPosition c) \<noteq> INDEX_NONE \<and>
      GetSectionIndexFromPosition c (Position (RootMotion m)) =
        GetSectionIndexFromPosition c (GetPosition c) \<and>
      \<not> (GetNextSectionID c (GetSectionIndexFromPosition c (GetPosition c)) =
           GetSectionIndexFromPosition c (GetPosition c) \<and>
         \<bar>GetPosition c - Position (RootMotion m)\<bar> >
           GetSectionLength c (GetSectionIndexFromPosition c (GetPosition c)) / 2) \<and>
      (0 < GetPlayRate c \<longrightarrow> Position (RootMotion m) \<le> GetPosition c) \<and>
      (GetPlayRate c < 0 \<longrightarrow> GetPosition c \<le> Position (RootMotion m)))"

definition C9_client :: FAnimMontageInstance where
  "C9_client =
     \<lparr>Montage = Some 3, GetPosition = 2, GetPlayRate = 1,
      GetSectionIndexFromPosition = (\<lambda>p. if 0 \<le> p \<and> p < 10 then 0 else - 1),
      GetNextSectionID = (\<lambda>i. - 1), GetSectionLength = (\<lambda>i. 10)\<rparr>"

definition C9_moves :: "FBaseSimulatedRootMotionReplicatedMove list" where
  "C9_moves =
     [\<lparr>Time = 0, RootMotion = \<lparr>AnimMontage = Some 3, Position = 1\<rparr>\<rparr>,
      \<lparr>Time = 97 / 10, RootMotion = \<lparr>AnimMontage = Some 3, Position = 3 / 2\<rparr>\<rparr>,
      \<lparr>Time = 98 / 10, RootMotion = \<lparr>AnimMontage = Some 3, Position = 7 / 4\<rparr>\<rparr>,
      \<lparr>Time = 99 / 10, RootMotion = \<lparr>AnimMontage = Some 3, Position = 5 / 2\<rparr>\<rparr>]"

section \<open>Flags\<close>

lemma HasFlag_SetFlag_same: "Flag \<noteq> 0 \<Longrightarrow> HasFlag (SetFlag F Flag) Flag"
  by (simp add: HasFlag_def SetFlag_def word_ao_absorbs)

lemma HasFlag_UnSetFlag_same: "\<not> HasFlag (UnSetFlag F Flag) Flag"
  by (simp add: HasFlag_def UnSetFlag_def word_bw_assocs)

lemma HasFlag_SetFlag: "HasFlag (SetFlag F G) Flag = (HasFlag F Flag \<or> HasFlag G Flag)"
  by (auto simp add: HasFlag_def SetFlag_def word_ao_dist or_eq_0_iff)

lemma HasFlag_UnSetFlag_other: "G AND Flag = 0 \<Longrightarrow> HasFlag (UnSetFlag F G) Flag = HasFlag F Flag"
  unfolding HasFlag_def UnSetFlag_def
  by (metis (no_types, lifting) and.assoc and.commute bit.conj_disj_distrib bit.disj_cancel_right and.right_neutral bit.conj_zero_right or.right_neutral word_bw_comms(1))

lemma HasFlag_self: "Flag \<noteq> 0 \<Longrightarrow> HasFlag Flag Flag"
  by (simp add: HasFlag_def)

lemma flag_consts: "Finished AND MarkedForRemoval = 0" "Finished AND Prepared = 0" "Finished \<noteq> 0" "MarkedForRemoval \<noteq> 0"
  by (simp_all add: Finished_def MarkedForRemoval_def Prepared_def)

section \<open>Time and timeout\<close>

lemma IsTimeOutEnabled_cong:
  "Variant a = Variant b \<Longrightarrow> Duration a = Duration b \<Longrightarrow> IsTimeOutEnabled a = IsTimeOutEnabled b"
  by (cases "Variant b") (simp_all add: IsTimeOutEnabled_def)

lemma IsTimeOutEnabled_time [simp]:
  "IsTimeOutEnabled (s\<lparr>PreviousTime := p, CurrentTime := t\<rparr>) = IsTimeOutEnabled s"
  by (rule IsTimeOutEnabled_cong) simp_all

lemma SetTime_Status:
  "Status (SetTime s t) =
     (if IsTimeOutEnabled s
      then (if Duration s \<le> t then SetFlag (Status s) Finished else UnSetFlag (Status s) Finished)
      else Status s)"
  by (simp add: SetTime_def CheckTimeOut_def Let_def)

lemma SetTime_fields:
  "CurrentTime (SetTime s t) = t"
  "PreviousTime (SetTime s t) = CurrentTime s"
  "Duration (SetTime s t) = Duration s"
  "Variant (SetTime s t) = Variant s"
  "Priority (SetTime s t) = Priority s"
  "LocalID (SetTime s t) = LocalID s"
  "AccumulateMode (SetTime s t) = AccumulateMode s"
  "InstanceName (SetTime s t) = InstanceName s"
  "StartTime (SetTime s t) = StartTime s"
  "Settings (SetTime s t) = Settings s"
  "bInLocalSpace (SetTime s t) = bInLocalSpace s"
  "bNeedsSimulatedCatchup (SetTime s t) = bNeedsSimulatedCatchup s"
  "bSimulatedNeedsSmoothing (SetTime s t) = bSimulatedNeedsSmoothing s"
  "RootMotionParams (SetTime s t) = RootMotionParams s"
  "FinishVelocityParams (SetTime s t) = FinishVelocityParams s"
  by (simp_all add: SetTime_def CheckTimeOut_def Let_def)

lemma PrepareRootMotion_shape:
  "PrepareRootMotion w sim tick s = Inr s' \<Longrightarrow>
     \<exists>p. s' = SetTime (s\<lparr>RootMotionParams := p\<rparr>) (CurrentTime s + sim)"
  unfolding PrepareRootMotion_def
  by (cases "Variant s")
     (auto simp: PrepareRootMotion_ConstantForce_def PrepareRootMotion_RadialForce_def
        PrepareRootMotion_MoveToForce_def PrepareRootMotion_MoveToDynamicForce_def
        PrepareRootMotion_JumpForce_def GetTime_def Let_def split: if_splits)

lemma PrepareRootMotion_returns:
  "DurationAccepted w s \<Longrightarrow> \<exists>s'. PrepareRootMotion w sim tick s = Inr s'"
  unfolding PrepareRootMotion_def DurationAccepted_def
  by (cases "Variant s")
     (auto simp: PrepareRootMotion_ConstantForce_def PrepareRootMotion_RadialForce_def
        PrepareRootMotion_MoveToForce_def PrepareRootMotion_MoveToDynamicForce_def
        PrepareRootMotion_JumpForce_def Let_def)

lemma DurationAccepted_cong:
  "Variant a = Variant b \<Longrightarrow> Duration a = Duration b \<Longrightarrow>
     DurationAccepted w a = DurationAccepted w b"
  by (cases "Variant b") (simp_all add: DurationAccepted_def)

lemma PrepareRootMotion_step:
  assumes "DurationAccepted w s"
  shows "\<exists>s'. PrepareRootMotion w sim tick s = Inr s' \<and>
           CurrentTime s' = CurrentTime s + sim \<and> Duration s' = Duration s \<and>
           Variant s' = Variant s \<and>
           (IsTimeOutEnabled s \<longrightarrow>
              (HasFlag (Status s') Finished \<longleftrightarrow> Duration s \<le> CurrentTime s'))"
proof -
  from PrepareRootMotion_returns[OF assms] obtain s' where r: "PrepareRootMotion w sim tick s = Inr s'"
    by blast
  from PrepareRootMotion_shape[OF r] obtain p where
    s': "s' = SetTime (s\<lparr>RootMotionParams := p\<rparr>) (CurrentTime s + sim)" by blast
  have te: "IsTimeOutEnabled (s\<lparr>RootMotionParams := p\<rparr>) = IsTimeOutEnabled s"
    by (rule IsTimeOutEnabled_cong) simp_all
  have "IsTimeOutEnabled s \<longrightarrow>
          (HasFlag (Status s') Finished \<longleftrightarrow> Duration s \<le> CurrentTime s')"
    by (simp add: s' SetTime_Status SetTime_fields te HasFlag_UnSetFlag_same
          HasFlag_SetFlag_same flag_consts)
  with r s' show ?thesis by (simp add: SetTime_fields)
qed

text \<open>
  Claim C7, amended. A source with timeout enabled and a positive duration that its variant's
  \<^verbatim>\<open>PrepareRootMotion\<close> accepts (every duration for constant and radial forces, a duration
  above \<^verbatim>\<open>UE_SMALL_NUMBER\<close> for move-to and jump forces where assertions are compiled in)
  is prepared again and again with a fixed step: every call returns, the elapsed time after
  call \<open>n + 1\<close> is the start time plus \<open>n + 1\<close> steps, and the Finished flag is set after a
  call exactly when the elapsed time has reached the duration. So the flag is set by the first
  call that brings the time to the duration and is clear after every call before it.
\<close>

theorem prepare_sets_Finished_when_time_reaches_duration:
  assumes "IsTimeOutEnabled s" and "0 < Duration s" and "DurationAccepted w s"
  shows "\<exists>s'. PrepareRepeatedly w step tick (Suc n) s = Inr s' \<and>
           CurrentTime s' = CurrentTime s + real (Suc n) * step \<and>
           (HasFlag (Status s') Finished \<longleftrightarrow> Duration s \<le> CurrentTime s')"
proof -
  have inv: "\<exists>s'. PrepareRepeatedly w step tick k s = Inr s' \<and>
               CurrentTime s' = CurrentTime s + real k * step \<and>
               Duration s' = Duration s \<and> Variant s' = Variant s" for k
  proof (induction k)
    case 0
    show ?case by simp
  next
    case (Suc k)
    then obtain sk where sk: "PrepareRepeatedly w step tick k s = Inr sk"
      "CurrentTime sk = CurrentTime s + real k * step"
      "Duration sk = Duration s" "Variant sk = Variant s" by blast
    have "DurationAccepted w sk"
      using assms(3) DurationAccepted_cong[OF sk(4) sk(3)] by simp
    from PrepareRootMotion_step[OF this, of step tick] sk
    show ?case by (auto simp: algebra_simps)
  qed
  from inv[of n] obtain sk where sk: "PrepareRepeatedly w step tick n s = Inr sk"
      "CurrentTime sk = CurrentTime s + real n * step"
      "Duration sk = Duration s" "Variant sk = Variant s" by blast
  have acc: "DurationAccepted w sk"
    using assms(3) DurationAccepted_cong[OF sk(4) sk(3)] by simp
  have te: "IsTimeOutEnabled sk"
    using assms(1) IsTimeOutEnabled_cong[OF sk(4) sk(3)] by simp
  from PrepareRootMotion_step[OF acc, of step tick] te sk
  show ?thesis by (auto simp: algebra_simps)
qed

lemma C7_pre:
  "IsTimeOutEnabled C7_moveto" "0 < Duration C7_moveto" "DurationAccepted ExampleWorld C7_moveto"
  by (simp_all add: C7_moveto_def New_MoveToForce_def BaseConstruct_def IsTimeOutEnabled_def
      DurationAccepted_def UE_SMALL_NUMBER_def)

theorem C7_witness:
  "IsTimeOutEnabled C7_moveto \<and> 0 < Duration C7_moveto \<and>
   DurationAccepted ExampleWorld C7_moveto \<and>
   (\<exists>s'. PrepareRepeatedly ExampleWorld (2/5) (2/5) (Suc 2) C7_moveto = Inr s' \<and>
      CurrentTime s' = CurrentTime C7_moveto + real (Suc 2) * (2/5) \<and>
      (HasFlag (Status s') Finished \<longleftrightarrow> Duration C7_moveto \<le> CurrentTime s'))"
  using prepare_sets_Finished_when_time_reaches_duration[OF C7_pre, of "2/5" "2/5" 2] C7_pre
  by simp

text \<open>
  Claim C7 as stated fails for a move-to force with the positive duration \<open>10\<^sup>-\<^sup>9\<close>: the first
  call of \<^verbatim>\<open>prepare\<close> trips the duration assertion instead of setting the flag.
\<close>

theorem C7_counterexample:
  "IsTimeOutEnabled C7_tiny \<and> 0 < Duration C7_tiny \<and>
   PrepareRootMotion ExampleWorld 1 1 C7_tiny = Inl CheckFailed"
  by (simp add: C7_tiny_def New_MoveToForce_def BaseConstruct_def IsTimeOutEnabled_def
      PrepareRootMotion_def PrepareRootMotion_MoveToForce_def ExampleWorld_def UE_SMALL_NUMBER_def Let_def)

section \<open>State transfer between sources\<close>

lemma UpdateStateFrom_Base_same:
  assumes "GetScriptStruct s = GetScriptStruct src"
  shows "UpdateStateFrom_Base chk s (Some src) mark =
     Inr (SetTime (s\<lparr>bNeedsSimulatedCatchup := mark,
                     Status := (if HasFlag (Status s) MarkedForRemoval
                                then SetFlag (Status src) MarkedForRemoval else Status src)\<rparr>)
            (CurrentTime src), True)"
  using assms by (simp add: UpdateStateFrom_Base_def Let_def GetTime_def del: GetScriptStruct.simps)

lemma UpdateStateFrom_Base_differ:
  assumes "GetScriptStruct s \<noteq> GetScriptStruct src"
  shows "UpdateStateFrom_Base chk s (Some src) mark = (if chk then Inl CheckFailed else Inr (s, False))"
  using assms by (simp add: UpdateStateFrom_Base_def del: GetScriptStruct.simps)

text \<open>
  Claim C5, amended. Between two sources of the same concrete struct \<^verbatim>\<open>UpdateStateFrom\<close>
  returns true and copies the other source's elapsed time (the old time becomes the previous
  time) and its status flags, keeps MarkedForRemoval set when it was set on the receiver, and
  then, when the receiver's timeout is enabled, recomputes Finished from the receiver's own
  duration: set when the copied time has reached it, cleared otherwise. Between sources of
  different structs nothing is copied: the call trips the fatal assertion where assertions are
  compiled in, and returns false where they are not.
\<close>

theorem UpdateStateFrom_copies_time_and_status:
  "(GetScriptStruct s = GetScriptStruct src \<longrightarrow>
      (\<exists>s'. UpdateStateFrom chk s (Some src) mark = Inr (s', True) \<and>
         CurrentTime s' = CurrentTime src \<and>
         PreviousTime s' = CurrentTime s \<and>
         Status s' =
           (let st = (if HasFlag (Status s) MarkedForRemoval
                      then SetFlag (Status src) MarkedForRemoval else Status src)
            in if IsTimeOutEnabled s
               then (if Duration s \<le> CurrentTime src then SetFlag st Finished
                     else UnSetFlag st Finished)
               else st) \<and>
         (HasFlag (Status s) MarkedForRemoval \<longrightarrow> HasFlag (Status s') MarkedForRemoval))) \<and>
   (GetScriptStruct s \<noteq> GetScriptStruct src \<longrightarrow>
      UpdateStateFrom chk s (Some src) mark = (if chk then Inl CheckFailed else Inr (s, False)))"
proof (intro conjI impI)
  assume same: "GetScriptStruct s = GetScriptStruct src"
  let ?st = "if HasFlag (Status s) MarkedForRemoval
             then SetFlag (Status src) MarkedForRemoval else Status src"
  let ?s1 = "s\<lparr>bNeedsSimulatedCatchup := mark, Status := ?st\<rparr>"
  let ?b = "SetTime ?s1 (CurrentTime src)"
  have te: "IsTimeOutEnabled ?s1 = IsTimeOutEnabled s"
    by (rule IsTimeOutEnabled_cong) simp_all
  have base: "UpdateStateFrom_Base chk s (Some src) mark = Inr (?b, True)"
    by (rule UpdateStateFrom_Base_same[OF same])
  have "\<exists>s'. UpdateStateFrom chk s (Some src) mark = Inr (s', True) \<and>
          CurrentTime s' = CurrentTime ?b \<and> PreviousTime s' = PreviousTime ?b \<and>
          Status s' = Status ?b"
    unfolding UpdateStateFrom_def base
    by (cases "Variant ?b"; cases "Variant src") simp_all
  then obtain s' where s': "UpdateStateFrom chk s (Some src) mark = Inr (s', True)"
      "CurrentTime s' = CurrentTime ?b" "PreviousTime s' = PreviousTime ?b"
      "Status s' = Status ?b" by blast
  have st: "Status ?b =
           (if IsTimeOutEnabled s
               then (if Duration s \<le> CurrentTime src then SetFlag ?st Finished
                     else UnSetFlag ?st Finished)
               else ?st)"
    by (simp add: SetTime_Status te)
  have sticky: "HasFlag (Status s) MarkedForRemoval \<longrightarrow> HasFlag (Status ?b) MarkedForRemoval"
    unfolding st
    by (simp add: HasFlag_SetFlag HasFlag_UnSetFlag_other flag_consts HasFlag_self)
  show "\<exists>s'. UpdateStateFrom chk s (Some src) mark = Inr (s', True) \<and>
         CurrentTime s' = CurrentTime src \<and>
         PreviousTime s' = CurrentTime s \<and>
         Status s' =
           (let st = (if HasFlag (Status s) MarkedForRemoval
                      then SetFlag (Status src) MarkedForRemoval else Status src)
            in if IsTimeOutEnabled s
               then (if Duration s \<le> CurrentTime src then SetFlag st Finished
                     else UnSetFlag st Finished)
               else st) \<and>
         (HasFlag (Status s) MarkedForRemoval \<longrightarrow> HasFlag (Status s') MarkedForRemoval)"
  proof (intro exI[of _ s'] conjI)
    show "UpdateStateFrom chk s (Some src) mark = Inr (s', True)" by (rule s'(1))
    show "CurrentTime s' = CurrentTime src" by (simp add: s'(2) SetTime_fields)
    show "PreviousTime s' = CurrentTime s" by (simp add: s'(3) SetTime_fields)
    show "Status s' =
           (let st = (if HasFlag (Status s) MarkedForRemoval
                      then SetFlag (Status src) MarkedForRemoval else Status src)
            in if IsTimeOutEnabled s
               then (if Duration s \<le> CurrentTime src then SetFlag st Finished
                     else UnSetFlag st Finished)
               else st)"
      unfolding Let_def s'(4) by (rule st)
    show "HasFlag (Status s) MarkedForRemoval \<longrightarrow> HasFlag (Status s') MarkedForRemoval"
      unfolding s'(4) by (rule sticky)
  qed
next
  assume "GetScriptStruct s \<noteq> GetScriptStruct src"
  from UpdateStateFrom_Base_differ[OF this]
  show "UpdateStateFrom chk s (Some src) mark = (if chk then Inl CheckFailed else Inr (s, False))"
    by (simp add: UpdateStateFrom_def)
qed


theorem C5_witness:
  "GetScriptStruct C5_self_marked = GetScriptStruct C5_other_prepared \<and>
   (\<exists>s'. UpdateStateFrom True C5_self_marked (Some C5_other_prepared) True = Inr (s', True) \<and>
      CurrentTime s' = 3 \<and> PreviousTime s' = 0 \<and> Status s' = 5) \<and>
   GetScriptStruct C5_self_marked \<noteq> GetScriptStruct New_RadialForce \<and>
   UpdateStateFrom False C5_self_marked (Some New_RadialForce) True = Inr (C5_self_marked, False)"
proof -
  have a: "GetScriptStruct C5_self_marked = GetScriptStruct C5_other_prepared"
    by (simp add: C5_self_marked_def C5_other_prepared_def New_ConstantForce_def BaseConstruct_def)
  have b: "GetScriptStruct C5_self_marked \<noteq> GetScriptStruct New_RadialForce"
    by (simp add: C5_self_marked_def New_RadialForce_def New_ConstantForce_def BaseConstruct_def)
  have c: "HasFlag (Status C5_self_marked) MarkedForRemoval" "\<not> IsTimeOutEnabled C5_self_marked"
      "SetFlag (Status C5_other_prepared) MarkedForRemoval = 5"
      "CurrentTime C5_other_prepared = 3" "CurrentTime C5_self_marked = 0"
    by (simp_all add: C5_self_marked_def C5_other_prepared_def New_ConstantForce_def
        BaseConstruct_def HasFlag_def SetFlag_def MarkedForRemoval_def Prepared_def
        IsTimeOutEnabled_def)
  from UpdateStateFrom_copies_time_and_status[of C5_self_marked C5_other_prepared True True]
       UpdateStateFrom_copies_time_and_status[of C5_self_marked New_RadialForce False True]
       a b c
  show ?thesis by (auto simp del: GetScriptStruct.simps)
qed

text \<open>
  Claim C5 as stated fails twice. A receiver with duration 1 that takes the state of a source
  of the same struct with duration 5, at time 2 and with status byte 0, ends with Finished set
  (status 2), so its flags are not those of the other source; and with a radial force as the
  other source the call does not return false, it trips the assertion.
\<close>

theorem C5_counterexample:
  "GetScriptStruct C5_self = GetScriptStruct C5_other \<and>
   \<not> HasFlag (Status C5_self) MarkedForRemoval \<and>
   Status C5_other = 0 \<and>
   Status (fst (projr (UpdateStateFrom True C5_self (Some C5_other) False))) = 2 \<and>
   GetScriptStruct C5_self \<noteq> GetScriptStruct New_RadialForce \<and>
   UpdateStateFrom True C5_self (Some New_RadialForce) False = Inl CheckFailed"
  by (simp add: C5_self_def C5_other_def New_ConstantForce_def New_RadialForce_def
      BaseConstruct_def UpdateStateFrom_def UpdateStateFrom_Base_def HasFlag_def SetFlag_def
      UnSetFlag_def MarkedForRemoval_def Finished_def DisablePartialEndTick_def SetTime_def
      CheckTimeOut_def IsTimeOutEnabled_def GetTime_def Let_def)

section \<open>Radial force strength\<close>

lemma Clamp_unit: "0 \<le> Clamp v 0 1" "Clamp v 0 1 \<le> 1"
  by (simp_all add: Clamp_def)

lemma RadialForce_CurrentStrength_eq:
  "RadialForce_CurrentStrength w s rf Distance =
     RF_Strength rf *
       Clamp (1 - (1 - RadialForce_DistanceFactor w rf Distance) - (1 - RadialForce_TimeFactor w s rf))
         0 1"
  by (simp add: RadialForce_CurrentStrength_def RadialForce_DistanceFactor_def
      RadialForce_TimeFactor_def Let_def split: option.splits)

lemma scaled_by_unit:
  fixes S c :: real
  assumes "0 \<le> c" "c \<le> 1"
  shows "\<bar>S * c\<bar> \<le> \<bar>S\<bar>" and "0 \<le> S \<Longrightarrow> 0 \<le> S * c \<and> S * c \<le> S"
proof -
  have "\<bar>S * c\<bar> = \<bar>S\<bar> * c" using assms by (simp add: abs_mult)
  also have "\<dots> \<le> \<bar>S\<bar> * 1" using assms by (intro mult_left_mono) simp_all
  finally show "\<bar>S * c\<bar> \<le> \<bar>S\<bar>" by simp
  assume "0 \<le> S"
  then show "0 \<le> S * c \<and> S * c \<le> S"
    using assms by (simp add: mult_left_le)
qed

lemma PrepareRootMotion_RadialForce_translation:
  "\<exists>s'. PrepareRootMotion_RadialForce w st mt s rf = Inr s' \<and>
     Translation (RootMotionParams s') =
       (let Applied = RF_Strength rf * RadialForce_Attenuation w s rf;
            Force = (if RadialForce_Distance w rf < RF_Radius rf then
                       (if RF_bUseFixedWorldDirection rf
                        then VScale (RotatorVector w (RF_FixedWorldDirection rf)) Applied
                        else VScale (GetSafeNormal (VSub (RadialForce_ForceLocation w rf)
                                                      (ActorLocation w)))
                               (if RF_bIsPush rf then - Applied else Applied))
                     else ZeroVector);
            Force1 = (if RF_bNoZForce rf then Force\<lparr>Z := 0\<rparr> else Force)
        in if st \<noteq> mt \<and> mt > UE_SMALL_NUMBER then VScale Force1 (st / mt) else Force1)"
  by (simp add: PrepareRootMotion_RadialForce_def RadialForce_Attenuation_def
      RadialForce_Distance_def RadialForce_ForceLocation_def RadialForce_CurrentStrength_eq
      Let_def SetTime_fields ParamsSet_def VScale_def)

text \<open>
  Claim C6. \<^verbatim>\<open>PrepareRootMotion\<close> of a radial force, with the character inside the radius,
  stores as contribution the direction of the force (the fixed world direction, or the unit
  vector between the character and the force's location, away from it for a push) scaled by
  the applied strength, without its Z component when Z is suppressed, and scaled by the ratio
  of simulation time to tick time when they differ. The applied strength is the configured
  strength times \<open>1 - (1 - distanceFactor) - (1 - timeFactor)\<close> clamped to \<open>[0, 1]\<close>, each factor
  being 1 when its curve is absent. So the attenuation lies in \<open>[0, 1]\<close> and is 1 without
  curves: the applied strength is never larger in magnitude than the configured one, and
  lies between 0 and it when it is not negative. Outside the radius the contribution is zero.
\<close>

theorem RadialForce_strength_only_reduced:
  "(Variant s = RadialForce rf \<and> RadialForce_Distance w rf < RF_Radius rf \<longrightarrow>
      (\<exists>s'. PrepareRootMotion w SimulationTime MovementTickTime s = Inr s' \<and>
         Translation (RootMotionParams s') =
           (let Applied = RF_Strength rf * RadialForce_Attenuation w s rf;
                Force = (if RF_bUseFixedWorldDirection rf
                         then VScale (RotatorVector w (RF_FixedWorldDirection rf)) Applied
                         else VScale (GetSafeNormal (VSub (RadialForce_ForceLocation w rf)
                                                       (ActorLocation w)))
                                (if RF_bIsPush rf then - Applied else Applied));
                Force1 = (if RF_bNoZForce rf then Force\<lparr>Z := 0\<rparr> else Force)
            in if SimulationTime \<noteq> MovementTickTime \<and> MovementTickTime > UE_SMALL_NUMBER
               then VScale Force1 (SimulationTime / MovementTickTime) else Force1))) \<and>
   (Variant s = RadialForce rf \<and> \<not> RadialForce_Distance w rf < RF_Radius rf \<longrightarrow>
      (\<exists>s'. PrepareRootMotion w SimulationTime MovementTickTime s = Inr s' \<and>
         Translation (RootMotionParams s') = ZeroVector)) \<and>
   RadialForce_Attenuation w s rf =
     Clamp (1 - (1 - RadialForce_DistanceFactor w rf (RadialForce_Distance w rf))
              - (1 - RadialForce_TimeFactor w s rf)) 0 1 \<and>
   RadialForce_DistanceFactor w rf (RadialForce_Distance w rf) =
     (case RF_StrengthDistanceFalloff rf of
        None \<Rightarrow> 1
      | Some c \<Rightarrow> FloatCurveValue w c (Clamp (RadialForce_Distance w rf / RF_Radius rf) 0 1)) \<and>
   RadialForce_TimeFactor w s rf =
     (case RF_StrengthOverTime rf of
        None \<Rightarrow> 1
      | Some c \<Rightarrow> FloatCurveValue w c
                  (if Duration s > 0 then Clamp (CurrentTime s / Duration s) 0 1
                   else CurrentTime s)) \<and>
   0 \<le> RadialForce_Attenuation w s rf \<and> RadialForce_Attenuation w s rf \<le> 1 \<and>
   (RF_StrengthDistanceFalloff rf = None \<and> RF_StrengthOverTime rf = None \<longrightarrow>
      RadialForce_Attenuation w s rf = 1) \<and>
   \<bar>RF_Strength rf * RadialForce_Attenuation w s rf\<bar> \<le> \<bar>RF_Strength rf\<bar> \<and>
   (0 \<le> RF_Strength rf \<longrightarrow>
      0 \<le> RF_Strength rf * RadialForce_Attenuation w s rf \<and>
      RF_Strength rf * RadialForce_Attenuation w s rf \<le> RF_Strength rf) \<and>
   RadialForce_CurrentStrength w s rf Distance =
     RF_Strength rf *
       Clamp (1 - (1 - RadialForce_DistanceFactor w rf Distance) - (1 - RadialForce_TimeFactor w s rf))
         0 1 \<and>
   \<bar>RadialForce_CurrentStrength w s rf Distance\<bar> \<le> \<bar>RF_Strength rf\<bar> \<and>
   (0 \<le> RF_Strength rf \<longrightarrow>
      0 \<le> RadialForce_CurrentStrength w s rf Distance \<and>
      RadialForce_CurrentStrength w s rf Distance \<le> RF_Strength rf)"
proof -
  have unit: "0 \<le> RadialForce_Attenuation w s rf" "RadialForce_Attenuation w s rf \<le> 1"
    by (simp_all add: RadialForce_Attenuation_def Clamp_unit)
  have inside: "\<exists>s'. PrepareRootMotion w SimulationTime MovementTickTime s = Inr s' \<and>
         Translation (RootMotionParams s') =
           (let Applied = RF_Strength rf * RadialForce_Attenuation w s rf;
                Force = (if RF_bUseFixedWorldDirection rf
                         then VScale (RotatorVector w (RF_FixedWorldDirection rf)) Applied
                         else VScale (GetSafeNormal (VSub (RadialForce_ForceLocation w rf)
                                                       (ActorLocation w)))
                                (if RF_bIsPush rf then - Applied else Applied));
                Force1 = (if RF_bNoZForce rf then Force\<lparr>Z := 0\<rparr> else Force)
            in if SimulationTime \<noteq> MovementTickTime \<and> MovementTickTime > UE_SMALL_NUMBER
               then VScale Force1 (SimulationTime / MovementTickTime) else Force1)"
    if "Variant s = RadialForce rf" "RadialForce_Distance w rf < RF_Radius rf"
    using PrepareRootMotion_RadialForce_translation[of w SimulationTime MovementTickTime s rf] that
    by (simp add: PrepareRootMotion_def Let_def)
  have outside: "\<exists>s'. PrepareRootMotion w SimulationTime MovementTickTime s = Inr s' \<and>
         Translation (RootMotionParams s') = ZeroVector"
    if "Variant s = RadialForce rf" "\<not> RadialForce_Distance w rf < RF_Radius rf"
    using PrepareRootMotion_RadialForce_translation[of w SimulationTime MovementTickTime s rf] that
    by (auto simp: PrepareRootMotion_def Let_def VScale_def ZeroVector_def)
  have df: "RadialForce_DistanceFactor w rf (RadialForce_Distance w rf) =
     (case RF_StrengthDistanceFalloff rf of
        None \<Rightarrow> 1
      | Some c \<Rightarrow> FloatCurveValue w c (Clamp (RadialForce_Distance w rf / RF_Radius rf) 0 1))"
    by (simp add: RadialForce_DistanceFactor_def)
  have tf: "RadialForce_TimeFactor w s rf =
     (case RF_StrengthOverTime rf of
        None \<Rightarrow> 1
      | Some c \<Rightarrow> FloatCurveValue w c
                  (if Duration s > 0 then Clamp (CurrentTime s / Duration s) 0 1
                   else CurrentTime s))"
    by (simp add: RadialForce_TimeFactor_def GetTime_def split: option.splits)
  have none: "RadialForce_Attenuation w s rf = 1"
    if "RF_StrengthDistanceFalloff rf = None" "RF_StrengthOverTime rf = None"
    using that
    by (simp add: RadialForce_Attenuation_def RadialForce_DistanceFactor_def
        RadialForce_TimeFactor_def Clamp_def)
  have b1: "\<bar>RF_Strength rf * RadialForce_Attenuation w s rf\<bar> \<le> \<bar>RF_Strength rf\<bar>"
    by (rule scaled_by_unit(1)[OF unit])
  have b2: "0 \<le> RF_Strength rf * RadialForce_Attenuation w s rf \<and>
      RF_Strength rf * RadialForce_Attenuation w s rf \<le> RF_Strength rf" if "0 \<le> RF_Strength rf"
    by (rule scaled_by_unit(2)[OF unit that])
  have c1: "RadialForce_CurrentStrength w s rf Distance =
     RF_Strength rf *
       Clamp (1 - (1 - RadialForce_DistanceFactor w rf Distance) - (1 - RadialForce_TimeFactor w s rf))
         0 1"
    by (rule RadialForce_CurrentStrength_eq)
  have c2: "\<bar>RadialForce_CurrentStrength w s rf Distance\<bar> \<le> \<bar>RF_Strength rf\<bar>"
    unfolding RadialForce_CurrentStrength_eq by (rule scaled_by_unit(1)[OF Clamp_unit])
  have c3: "0 \<le> RadialForce_CurrentStrength w s rf Distance \<and>
      RadialForce_CurrentStrength w s rf Distance \<le> RF_Strength rf" if "0 \<le> RF_Strength rf"
    using scaled_by_unit(2)[OF Clamp_unit that] unfolding RadialForce_CurrentStrength_eq
    by simp
  have att: "RadialForce_Attenuation w s rf =
     Clamp (1 - (1 - RadialForce_DistanceFactor w rf (RadialForce_Distance w rf))
              - (1 - RadialForce_TimeFactor w s rf)) 0 1"
    by (simp add: RadialForce_Attenuation_def)
  from inside outside att df tf unit none b1 b2 c1 c2 c3 show ?thesis by blast
qed

lemma C6_values:
  "RadialForce_Distance C6_world C6_force = 1 / 2"
  "RadialForce_DistanceFactor C6_world C6_force (1 / 2) = 1 / 2"
  "RadialForce_TimeFactor C6_world C6_source C6_force = 3 / 4"
  "RadialForce_Attenuation C6_world C6_source C6_force = 1 / 4"
  "GetSafeNormal (VSub (RadialForce_ForceLocation C6_world C6_force) (ActorLocation C6_world)) =
     \<lparr>X = - 1, Y = 0, Z = 0\<rparr>"
proof -
  have sq: "sqrt (1 / 4) = 1 / 2"
    by (simp add: real_sqrt_divide)
  show d: "RadialForce_Distance C6_world C6_force = 1 / 2"
    by (simp add: RadialForce_Distance_def RadialForce_ForceLocation_def Dist_def Size_def
        SizeSquared_def VSub_def C6_force_def C6_world_def ExampleWorld_def ZeroVector_def sq)
  show df: "RadialForce_DistanceFactor C6_world C6_force (1 / 2) = 1 / 2"
    by (simp add: RadialForce_DistanceFactor_def C6_force_def C6_world_def ExampleWorld_def
        Clamp_def)
  show tf: "RadialForce_TimeFactor C6_world C6_source C6_force = 3 / 4"
    by (simp add: RadialForce_TimeFactor_def C6_force_def C6_source_def C6_world_def
        ExampleWorld_def BaseConstruct_def Clamp_def GetTime_def)
  show "RadialForce_Attenuation C6_world C6_source C6_force = 1 / 4"
    by (simp add: RadialForce_Attenuation_def d df tf Clamp_def)
  show "GetSafeNormal (VSub (RadialForce_ForceLocation C6_world C6_force) (ActorLocation C6_world)) =
     \<lparr>X = - 1, Y = 0, Z = 0\<rparr>"
    by (simp add: GetSafeNormal_def RadialForce_ForceLocation_def SizeSquared_def VSub_def
        VScale_def C6_force_def C6_world_def ExampleWorld_def ZeroVector_def sq
        UE_SMALL_NUMBER_def Let_def)
qed

theorem C6_witness:
  "Variant C6_source = RadialForce C6_force \<and>
   RadialForce_Distance C6_world C6_force < RF_Radius C6_force \<and>
   \<not> RF_bUseFixedWorldDirection C6_force \<and> RF_bIsPush C6_force \<and> RF_Strength C6_force = 8 \<and>
   RadialForce_Attenuation C6_world C6_source C6_force = 1 / 4 \<and>
   (\<exists>s'. PrepareRootMotion C6_world (1 / 2) 1 C6_source = Inr s' \<and>
      Translation (RootMotionParams s') = \<lparr>X = 1, Y = 0, Z = 0\<rparr>)"
proof -
  have pre: "Variant C6_source = RadialForce C6_force" "RF_Radius C6_force = 1"
    "\<not> RF_bUseFixedWorldDirection C6_force" "RF_bIsPush C6_force" "RF_Strength C6_force = 8"
    "\<not> RF_bNoZForce C6_force"
    by (simp_all add: C6_source_def C6_force_def BaseConstruct_def)
  from RadialForce_strength_only_reduced[of C6_source C6_force C6_world "1 / 2" 1 "1 / 2"]
  show ?thesis
    by (auto simp add: C6_values pre VScale_def UE_SMALL_NUMBER_def Let_def)
qed

section \<open>The loop body for one source\<close>

lemma PrepareSource_shape:
  "PrepareSource w dt s = Inr s' \<Longrightarrow>
     \<exists>p. s' = (SetTime (s\<lparr>bSimulatedNeedsSmoothing := False, RootMotionParams := p\<rparr>)
                  (CurrentTime s + SourceSimulationTime w dt s))
               \<lparr>Status := SetFlag (Status (SetTime (s\<lparr>bSimulatedNeedsSmoothing := False,
                                                        RootMotionParams := p\<rparr>)
                                    (CurrentTime s + SourceSimulationTime w dt s))) Prepared,
                bNeedsSimulatedCatchup := False\<rparr>"
proof -
  assume a: "PrepareSource w dt s = Inr s'"
  then obtain s2 where s2: "PrepareRootMotion w (SourceSimulationTime w dt s) dt
        (s\<lparr>bSimulatedNeedsSmoothing := False\<rparr>) = Inr s2"
    and s': "s' = s2\<lparr>Status := SetFlag (Status s2) Prepared, bNeedsSimulatedCatchup := False\<rparr>"
    by (auto simp: PrepareSource_def Let_def split: sum.splits)
  from PrepareRootMotion_shape[OF s2] obtain p where
    "s2 = SetTime (s\<lparr>bSimulatedNeedsSmoothing := False, RootMotionParams := p\<rparr>)
            (CurrentTime s + SourceSimulationTime w dt s)"
    by auto
  with s' show ?thesis by blast
qed

section \<open>Override accumulation\<close>

lemma set_InsertSorted: "set (InsertSorted P x ys) = insert x (set ys)"
  by (induction ys) auto

lemma set_StableSort: "set (StableSort P xs) = set xs"
  by (induction xs) (simp_all add: set_InsertSorted)

lemma length_InsertSorted: "length (InsertSorted P x ys) = Suc (length ys)"
  by (induction ys) auto

lemma length_StableSort: "length (StableSort P xs) = length xs"
  by (induction xs) (simp_all add: length_InsertSorted)

lemma SortPredicate_valid:
  "x \<noteq> None \<Longrightarrow> y \<noteq> None \<Longrightarrow> SortPredicate y x = (PriorityOf x < PriorityOf y)"
  by (auto simp: SortPredicate_def PriorityOf_def)

lemma sorted_InsertSorted:
  assumes "x \<noteq> None" "None \<notin> set ys"
    and "sorted_wrt (\<lambda>a b. PriorityOf b \<le> PriorityOf a) ys"
  shows "sorted_wrt (\<lambda>a b. PriorityOf b \<le> PriorityOf a) (InsertSorted SortPredicate x ys)"
  using assms(2,3)
proof (induction ys)
  case Nil
  show ?case by simp
next
  case (Cons y ys)
  from Cons.prems(1) have y: "y \<noteq> None" by (cases y) simp_all
  from Cons.prems(1) have ys: "None \<notin> set ys" by simp
  from Cons.prems(2) have below: "\<forall>z\<in>set ys. PriorityOf z \<le> PriorityOf y"
    and sorted_ys: "sorted_wrt (\<lambda>a b. PriorityOf b \<le> PriorityOf a) ys" by simp_all
  have ih: "sorted_wrt (\<lambda>a b. PriorityOf b \<le> PriorityOf a) (InsertSorted SortPredicate x ys)"
    by (rule Cons.IH[OF ys sorted_ys])
  show ?case
  proof (cases "SortPredicate y x")
    case True
    then have "PriorityOf x \<le> PriorityOf y"
      using SortPredicate_valid[OF assms(1) y] by simp
    then show ?thesis
      using True ih below by (simp add: set_InsertSorted)
  next
    case False
    then have le: "PriorityOf y \<le> PriorityOf x"
      using SortPredicate_valid[OF assms(1) y] by simp
    have "\<forall>z\<in>set ys. PriorityOf z \<le> PriorityOf x"
      using below le by auto
    then show ?thesis
      using False le below sorted_ys by simp
  qed
qed

lemma sorted_StableSort:
  "None \<notin> set xs \<Longrightarrow>
     sorted_wrt (\<lambda>a b. PriorityOf b \<le> PriorityOf a) (StableSort SortPredicate xs)"
proof (induction xs)
  case Nil
  show ?case by simp
next
  case (Cons x xs)
  from Cons.prems have x: "x \<noteq> None" by (cases x) simp_all
  from Cons.prems have xs: "None \<notin> set xs" by simp
  have "None \<notin> set (StableSort SortPredicate xs)"
    using xs by (simp add: set_StableSort)
  from sorted_InsertSorted[OF x this Cons.IH[OF xs]]
  show ?case by simp
qed

lemma SortByPriority_sorted:
  assumes "chk \<or> None \<notin> set xs" and "SortByPriority chk xs = Inr ys"
  shows "sorted_wrt (\<lambda>a b. PriorityOf b \<le> PriorityOf a) ys \<and> set ys = set xs \<and>
         length ys = length xs"
proof (cases "length xs > 1")
  case True
  with assms(2) have "\<not> (chk \<and> None \<in> set xs)"
    by (auto simp: SortByPriority_def split: if_splits)
  with assms(1) have valid: "None \<notin> set xs" by blast
  from True assms(2) valid have "ys = StableSort SortPredicate xs"
    by (simp add: SortByPriority_def)
  then show ?thesis
    using sorted_StableSort[OF valid] by (simp add: set_StableSort length_StableSort)
next
  case False
  with assms have ys: "ys = xs" by (simp add: SortByPriority_def)
  from False have "xs = [] \<or> (\<exists>x. xs = [x])"
    by (cases xs) auto
  then show ?thesis using ys by auto
qed

lemma PrepareSource_fields:
  assumes "PrepareSource w dt s = Inr s'"
  shows "Priority s' = Priority s" "AccumulateMode s' = AccumulateMode s"
    "Settings s' = Settings s" "LocalID s' = LocalID s" "bInLocalSpace s' = bInLocalSpace s"
    "Duration s' = Duration s" "Variant s' = Variant s"
    "FinishVelocityParams s' = FinishVelocityParams s"
proof -
  from PrepareSource_shape[OF assms] obtain p where
    "s' = (SetTime (s\<lparr>bSimulatedNeedsSmoothing := False, RootMotionParams := p\<rparr>)
                  (CurrentTime s + SourceSimulationTime w dt s))
               \<lparr>Status := SetFlag (Status (SetTime (s\<lparr>bSimulatedNeedsSmoothing := False,
                                                        RootMotionParams := p\<rparr>)
                                    (CurrentTime s + SourceSimulationTime w dt s))) Prepared,
                bNeedsSimulatedCatchup := False\<rparr>" by blast
  then show "Priority s' = Priority s" "AccumulateMode s' = AccumulateMode s"
    "Settings s' = Settings s" "LocalID s' = LocalID s" "bInLocalSpace s' = bInLocalSpace s"
    "Duration s' = Duration s" "Variant s' = Variant s"
    "FinishVelocityParams s' = FinishVelocityParams s"
    by (simp_all add: SetTime_fields)
qed

lemma PreparedFrom_fields:
  assumes "PreparedFrom w dt f s s'"
  shows "Priority s' = Priority s" "AccumulateMode s' = AccumulateMode s"
    "Settings s' = Settings s"
  using assms PrepareSource_fields[of w dt s s']
  by (auto simp: PreparedFrom_def split: if_splits)

lemma PreparedFrom_unique:
  "PreparedFrom w dt f s s1 \<Longrightarrow> PreparedFrom w dt f s s2 \<Longrightarrow> s1 = s2"
  by (auto simp: PreparedFrom_def split: if_splits)

lemma PreparedEntry_PriorityOf:
  "PreparedEntry w dt f x y \<Longrightarrow> PriorityOf y = PriorityOf x"
  by (auto simp: PreparedEntry_def PriorityOf_def PreparedFrom_fields split: option.splits)

lemma PrepareSources_rel:
  "PrepareSources w dt f xs g = Inr (ys, g') \<Longrightarrow> list_all2 (PreparedEntry w dt f) xs ys"
proof (induction xs arbitrary: g ys g')
  case Nil
  then show ?case by simp
next
  case (Cons x xs)
  show ?case
  proof (cases x)
    case None
    with Cons.prems obtain zs where
      rest: "PrepareSources w dt f xs g = Inr (zs, g')" and ys: "ys = None # zs"
      by (auto split: sum.splits)
    from Cons.IH[OF rest] show ?thesis
      by (simp add: ys None PreparedEntry_def)
  next
    case (Some s)
    show ?thesis
    proof (cases "\<not> HasFlag (Status s) Prepared \<or> f")
      case True
      with Cons.prems Some obtain s' zs where
        s': "PrepareSource w dt s = Inr s'" and
        rest: "PrepareSources w dt f xs
                 (NoteAccumulateMode s' (g\<lparr>LastAccumulatedSettings :=
                     LastAccumulatedSettings g OR Settings s'\<rparr>)) = Inr (zs, g')" and
        ys: "ys = Some s' # zs"
        by (auto split: sum.splits)
      have "PreparedEntry w dt f (Some s) (Some s')"
        using True s' by (simp add: PreparedEntry_def PreparedFrom_def)
      with Cons.IH[OF rest] show ?thesis by (simp add: ys Some)
    next
      case False
      with Cons.prems Some obtain zs where
        rest: "PrepareSources w dt f xs (NoteAccumulateMode s g) = Inr (zs, g')" and
        ys: "ys = Some s # zs"
        by (auto split: sum.splits)
      have "PreparedEntry w dt f (Some s) (Some s)"
        using False by (simp add: PreparedEntry_def PreparedFrom_def)
      with Cons.IH[OF rest] show ?thesis by (simp add: ys Some)
    qed
  qed
qed

lemma PrepareSources_pending:
  "PrepareSources w dt f xs g = Inr (ys, g') \<Longrightarrow>
     PendingAddRootMotionSources g' = PendingAddRootMotionSources g"
proof (induction xs arbitrary: g ys g')
  case Nil
  then show ?case by simp
next
  case (Cons x xs)
  show ?case
  proof (cases x)
    case None
    with Cons.prems obtain zs where
      rest: "PrepareSources w dt f xs g = Inr (zs, g')"
      by (auto split: sum.splits)
    from Cons.IH[OF rest] show ?thesis .
  next
    case (Some s)
    with Cons.prems obtain zs h where
      rest: "PrepareSources w dt f xs h = Inr (zs, g')" and
      h: "PendingAddRootMotionSources h = PendingAddRootMotionSources g"
      by (auto simp: NoteAccumulateMode_def Let_def split: sum.splits if_splits)
    from Cons.IH[OF rest] h show ?thesis by simp
  qed
qed

lemma AccumulateOverride_FirstOverride:
  "AccumulateRootMotionVelocity w Override ys v =
     (case FirstOverride ys of
        None \<Rightarrow> v
      | Some s \<Rightarrow> AccumulateRootMotionVelocityFromSource w s v)"
  by (induction ys rule: FirstOverride.induct) (simp_all add: Let_def)

lemma FirstOverride_mem:
  "FirstOverride ys = Some s \<Longrightarrow> Some s \<in> set ys \<and> AccumulateMode s = Override"
  by (induction ys rule: FirstOverride.induct) (auto split: if_splits)

lemma FirstOverride_exists:
  "Some t \<in> set ys \<Longrightarrow> AccumulateMode t = Override \<Longrightarrow> \<exists>s. FirstOverride ys = Some s"
  by (induction ys rule: FirstOverride.induct) auto

lemma FirstOverride_highest:
  assumes "sorted_wrt (\<lambda>a b. PriorityOf b \<le> PriorityOf a) ys"
    and "FirstOverride ys = Some s" and "Some t \<in> set ys" and "AccumulateMode t = Override"
  shows "Priority t \<le> Priority s"
  using assms
proof (induction ys rule: FirstOverride.induct)
  case 1
  then show ?case by simp
next
  case (2 xs)
  then show ?case by simp
next
  case (3 x xs)
  show ?case
  proof (cases "AccumulateMode x = Override")
    case True
    with "3.prems"(2) have "x = s" by simp
    with "3.prems"(1,3) show ?thesis
      by (auto simp: PriorityOf_def)
  next
    case False
    with "3.prems" have "Some t \<in> set xs" by auto
    with "3.IH"[OF False] "3.prems" False show ?thesis by simp
  qed
qed

lemma sorted_PreparedEntry:
  assumes "list_all2 (PreparedEntry w dt f) xs ys"
    and "sorted_wrt (\<lambda>a b. PriorityOf b \<le> PriorityOf a) xs"
  shows "sorted_wrt (\<lambda>a b. PriorityOf b \<le> PriorityOf a) ys"
proof -
  have "map PriorityOf ys = map PriorityOf xs"
    using assms(1) by (induction rule: list_all2_induct) (simp_all add: PreparedEntry_PriorityOf)
  moreover have "sorted_wrt (\<lambda>a b. b \<le> a) (map PriorityOf xs)"
    using assms(2) by (simp add: sorted_wrt_map)
  ultimately have "sorted_wrt (\<lambda>a b. b \<le> a) (map PriorityOf ys)" by simp
  then show ?thesis by (simp add: sorted_wrt_map)
qed

lemma Group_PrepareRootMotion_result:
  assumes "DO_CHECK w \<or> None \<notin> set (RootMotionSources g @ PendingAddRootMotionSources g)"
    and "Group_PrepareRootMotion w dt f g = Inr g'"
  shows "\<exists>srt. set srt = set (RootMotionSources g @ PendingAddRootMotionSources g) \<and>
           length srt = length (RootMotionSources g @ PendingAddRootMotionSources g) \<and>
           list_all2 (PreparedEntry w dt f) srt (RootMotionSources g') \<and>
           sorted_wrt (\<lambda>a b. PriorityOf b \<le> PriorityOf a) (RootMotionSources g') \<and>
           PendingAddRootMotionSources g' = []"
proof -
  let ?all = "RootMotionSources g @ PendingAddRootMotionSources g"
  from assms(2) obtain srt where srt: "SortByPriority (DO_CHECK w) ?all = Inr srt"
    by (auto simp: Group_PrepareRootMotion_def Let_def split: sum.splits)
  let ?g1 = "g\<lparr>RootMotionSources := srt, PendingAddRootMotionSources := [],
                bHasOverrideSources := False,
                bHasOverrideSourcesWithIgnoreZAccumulate := False,
                bHasAdditiveSources := False, LastAccumulatedSettings := 0\<rparr>"
  from assms(2) srt obtain ys g2 where
    loop: "PrepareSources w dt f srt ?g1 = Inr (ys, g2)" and g': "g' = g2\<lparr>RootMotionSources := ys\<rparr>"
    by (auto simp: Group_PrepareRootMotion_def Let_def split: sum.splits)
  have pend: "PendingAddRootMotionSources g2 = []"
    using PrepareSources_pending[OF loop] by simp
  from SortByPriority_sorted[OF assms(1) srt]
  have s1: "sorted_wrt (\<lambda>a b. PriorityOf b \<le> PriorityOf a) srt" and s2: "set srt = set ?all"
    and s3: "length srt = length ?all" by simp_all
  have rel: "list_all2 (PreparedEntry w dt f) srt ys" by (rule PrepareSources_rel[OF loop])
  from sorted_PreparedEntry[OF rel s1] rel s2 s3 pend g' show ?thesis
    by (intro exI[of _ srt]) simp
qed

lemma list_all2_right:
  "list_all2 P xs ys \<Longrightarrow> y \<in> set ys \<Longrightarrow> \<exists>x\<in>set xs. P x y"
  by (induction rule: list_all2_induct) auto

lemma list_all2_left:
  "list_all2 P xs ys \<Longrightarrow> x \<in> set xs \<Longrightarrow> \<exists>y\<in>set ys. P x y"
  by (induction rule: list_all2_induct) auto

lemma override_general:
  assumes "DO_CHECK w \<or> None \<notin> set (RootMotionSources g @ PendingAddRootMotionSources g)"
    and "Group_PrepareRootMotion w dt f g = Inr g'"
  shows "AccumulateOverrideRootMotionVelocity w g' v =
           (case FirstOverride (RootMotionSources g') of
              None \<Rightarrow> v
            | Some s \<Rightarrow> AccumulateRootMotionVelocityFromSource w s v)"
    and "FirstOverride (RootMotionSources g') = Some s \<Longrightarrow>
           Some s \<in> set (RootMotionSources g') \<and> AccumulateMode s = Override \<and>
           (\<forall>t. Some t \<in> set (RootMotionSources g') \<and> AccumulateMode t = Override \<longrightarrow>
                Priority t \<le> Priority s) \<and>
           (\<not> HasFlag (Settings s) IgnoreZAccumulate \<longrightarrow>
              AccumulateOverrideRootMotionVelocity w g' v = RootMotionVelocity w s)"
    and "FirstOverride (RootMotionSources g') = None \<Longrightarrow>
           (\<forall>t. Some t \<in> set (RootMotionSources g') \<longrightarrow> AccumulateMode t \<noteq> Override) \<and>
           AccumulateOverrideRootMotionVelocity w g' v = v"
proof -
  from Group_PrepareRootMotion_result[OF assms]
  have sorted: "sorted_wrt (\<lambda>a b. PriorityOf b \<le> PriorityOf a) (RootMotionSources g')" by blast
  show acc: "AccumulateOverrideRootMotionVelocity w g' v =
           (case FirstOverride (RootMotionSources g') of
              None \<Rightarrow> v
            | Some s \<Rightarrow> AccumulateRootMotionVelocityFromSource w s v)"
    by (simp add: AccumulateOverrideRootMotionVelocity_def AccumulateOverride_FirstOverride)
  {
    assume fo: "FirstOverride (RootMotionSources g') = Some s"
    from FirstOverride_mem[OF fo] have mem: "Some s \<in> set (RootMotionSources g')"
      and ov: "AccumulateMode s = Override" by simp_all
    have hi: "\<forall>t. Some t \<in> set (RootMotionSources g') \<and> AccumulateMode t = Override \<longrightarrow>
                Priority t \<le> Priority s"
      using FirstOverride_highest[OF sorted fo] by blast
    have "\<not> HasFlag (Settings s) IgnoreZAccumulate \<longrightarrow>
              AccumulateOverrideRootMotionVelocity w g' v = RootMotionVelocity w s"
      by (simp add: acc fo AccumulateRootMotionVelocityFromSource_def ov Let_def)
    with mem ov hi
    show "Some s \<in> set (RootMotionSources g') \<and> AccumulateMode s = Override \<and>
           (\<forall>t. Some t \<in> set (RootMotionSources g') \<and> AccumulateMode t = Override \<longrightarrow>
                Priority t \<le> Priority s) \<and>
           (\<not> HasFlag (Settings s) IgnoreZAccumulate \<longrightarrow>
              AccumulateOverrideRootMotionVelocity w g' v = RootMotionVelocity w s)"
      by blast
  }
  {
    assume fo: "FirstOverride (RootMotionSources g') = None"
    have "\<forall>t. Some t \<in> set (RootMotionSources g') \<longrightarrow> AccumulateMode t \<noteq> Override"
      using FirstOverride_exists fo by fastforce
    then show "(\<forall>t. Some t \<in> set (RootMotionSources g') \<longrightarrow> AccumulateMode t \<noteq> Override) \<and>
           AccumulateOverrideRootMotionVelocity w g' v = v"
      by (simp add: acc fo)
  }
qed

lemma override_from_source:
  "AccumulateMode s = Override \<Longrightarrow>
     AccumulateRootMotionVelocityFromSource w s v =
       (if HasFlag (Settings s) IgnoreZAccumulate then (RootMotionVelocity w s)\<lparr>Z := Z v\<rparr>
        else RootMotionVelocity w s)"
  by (simp add: AccumulateRootMotionVelocityFromSource_def Let_def)

lemma override_three_sources:
  assumes prio: "Priority a = 5" "Priority b = 1" "Priority c = 9"
    and mode: "AccumulateMode a = Override" "AccumulateMode b = Override"
      "AccumulateMode c = Override"
    and order: "xs \<in> {[a, b, c], [a, c, b], [b, a, c], [b, c, a], [c, a, b], [c, b, a]}"
    and srcs: "RootMotionSources g @ PendingAddRootMotionSources g = map Some xs"
    and prep: "Group_PrepareRootMotion w dt f g = Inr g'"
  shows "\<exists>c'. PreparedFrom w dt f c c' \<and> Some c' \<in> set (RootMotionSources g') \<and>
           AccumulateOverrideRootMotionVelocity w g' v =
             (if HasFlag (Settings c) IgnoreZAccumulate
              then (RootMotionVelocity w c')\<lparr>Z := Z v\<rparr> else RootMotionVelocity w c')"
proof -
  have setxs: "set xs = {a, b, c}" using order by auto
  have "None \<notin> set (RootMotionSources g @ PendingAddRootMotionSources g)"
    unfolding srcs by auto
  then have valid:
    "DO_CHECK w \<or> None \<notin> set (RootMotionSources g @ PendingAddRootMotionSources g)" by simp
  from Group_PrepareRootMotion_result[OF valid prep] obtain srt where
    set_srt0: "set srt = set (RootMotionSources g @ PendingAddRootMotionSources g)" and
    rel: "list_all2 (PreparedEntry w dt f) srt (RootMotionSources g')"
    by blast
  have set_srt: "set srt = Some ` {a, b, c}"
    unfolding set_srt0 srcs by (simp add: setxs)
  let ?ys = "RootMotionSources g'"
  have from_src: "\<exists>x\<in>{a, b, c}. PreparedFrom w dt f x s'" if "Some s' \<in> set ?ys" for s'
  proof -
    from list_all2_right[OF rel that] obtain x where
      "x \<in> set srt" "PreparedEntry w dt f x (Some s')" by blast
    then obtain x' where "x = Some x'" "x' \<in> {a, b, c}"
      using set_srt by blast
    with \<open>PreparedEntry w dt f x (Some s')\<close> show ?thesis
      by (simp add: PreparedEntry_def) blast
  qed
  have "Some c \<in> set srt" using set_srt by simp
  from list_all2_left[OF rel this] obtain y where
    y: "y \<in> set ?ys" "PreparedEntry w dt f (Some c) y" by blast
  from y(2) obtain c' where yc: "y = Some c'" and pc: "PreparedFrom w dt f c c'"
    by (auto simp: PreparedEntry_def split: option.splits)
  with y(1) have c': "Some c' \<in> set ?ys" "PreparedFrom w dt f c c'" by simp_all
  have c'ov: "AccumulateMode c' = Override" "Priority c' = 9" "Settings c' = Settings c"
    using PreparedFrom_fields[OF c'(2)] prio mode by simp_all
  from FirstOverride_exists[OF c'(1) c'ov(1)] obtain s where fo: "FirstOverride ?ys = Some s"
    by blast
  from override_general(2)[OF valid prep fo, of v]
  have mem: "Some s \<in> set ?ys" and hi: "Priority c' \<le> Priority s"
    using c'(1) c'ov(1) by blast+
  from from_src[OF mem] obtain x where x: "x \<in> {a, b, c}" "PreparedFrom w dt f x s" by blast
  have "Priority s = Priority x" using PreparedFrom_fields[OF x(2)] by simp
  with hi c'ov(2) prio have "Priority x \<noteq> 5" "Priority x \<noteq> 1" by simp_all
  with x(1) prio have "x = c" by blast
  with x(2) c'(2) have "s = c'" using PreparedFrom_unique by blast
  with override_general(1)[OF valid prep, of v] fo
  have "AccumulateOverrideRootMotionVelocity w g' v =
          AccumulateRootMotionVelocityFromSource w c' v" by simp
  with override_from_source[OF c'ov(1), of w v] c'ov(3) c' show ?thesis
    by (intro exI[of _ c']) simp
qed

lemma PrepareSource_returns:
  assumes "DurationAccepted w s"
  shows "\<exists>s'. PrepareSource w dt s = Inr s'"
proof -
  have "DurationAccepted w (s\<lparr>bSimulatedNeedsSmoothing := False\<rparr>)"
    using assms DurationAccepted_cong[of "s\<lparr>bSimulatedNeedsSmoothing := False\<rparr>" s w] by simp
  from PrepareRootMotion_returns[OF this, of "SourceSimulationTime w dt s" dt]
  show ?thesis by (auto simp: PrepareSource_def Let_def)
qed

lemma PrepareSources_returns:
  "(\<forall>s. Some s \<in> set xs \<longrightarrow> DurationAccepted w s) \<Longrightarrow>
     \<exists>ys g'. PrepareSources w dt f xs g = Inr (ys, g')"
proof (induction xs arbitrary: g)
  case Nil
  show ?case by simp
next
  case (Cons x xs)
  from Cons.prems have rest: "\<forall>s. Some s \<in> set xs \<longrightarrow> DurationAccepted w s" by simp
  show ?case
  proof (cases x)
    case None
    from Cons.IH[OF rest, of g] show ?thesis by (auto simp: None)
  next
    case (Some s)
    with Cons.prems have "DurationAccepted w s" by simp
    from PrepareSource_returns[OF this, of dt] obtain s' where s': "PrepareSource w dt s = Inr s'"
      by blast
    show ?thesis
    proof (cases "\<not> HasFlag (Status s) Prepared \<or> f")
      case True
      from Cons.IH[OF rest, of "NoteAccumulateMode s' (g\<lparr>LastAccumulatedSettings :=
                     LastAccumulatedSettings g OR Settings s'\<rparr>)"]
      show ?thesis using True s' by (auto simp: Some)
    next
      case False
      from Cons.IH[OF rest, of "NoteAccumulateMode s g"]
      show ?thesis using False by (auto simp: Some)
    qed
  qed
qed

lemma Group_PrepareRootMotion_returns:
  assumes "None \<notin> set (RootMotionSources g @ PendingAddRootMotionSources g)"
    and "\<forall>s. Some s \<in> set (RootMotionSources g @ PendingAddRootMotionSources g) \<longrightarrow>
              DurationAccepted w s"
  shows "\<exists>g'. Group_PrepareRootMotion w dt f g = Inr g'"
proof -
  let ?all = "RootMotionSources g @ PendingAddRootMotionSources g"
  have "\<exists>srt. SortByPriority (DO_CHECK w) ?all = Inr srt"
    using assms(1) unfolding SortByPriority_def by (cases "1 < length ?all") simp_all
  then obtain srt where srt: "SortByPriority (DO_CHECK w) ?all = Inr srt" by blast
  from SortByPriority_sorted[OF disjI2[OF assms(1)] srt] have "set srt = set ?all" by simp
  with assms(2) have "\<forall>s. Some s \<in> set srt \<longrightarrow> DurationAccepted w s" by simp
  from PrepareSources_returns[OF this, of dt f
      "g\<lparr>RootMotionSources := srt, PendingAddRootMotionSources := [],
          bHasOverrideSources := False,
          bHasOverrideSourcesWithIgnoreZAccumulate := False,
          bHasAdditiveSources := False, LastAccumulatedSettings := 0\<rparr>"]
  obtain ys g2 where "PrepareSources w dt f srt
      (g\<lparr>RootMotionSources := srt, PendingAddRootMotionSources := [],
          bHasOverrideSources := False,
          bHasOverrideSourcesWithIgnoreZAccumulate := False,
          bHasAdditiveSources := False, LastAccumulatedSettings := 0\<rparr>) = Inr (ys, g2)"
    by blast
  then show ?thesis
    unfolding Group_PrepareRootMotion_def Let_def srt by simp
qed

text \<open>
  Claim C1, amended. In a group that \<^verbatim>\<open>PrepareRootMotion\<close> has prepared (with assertions
  compiled in, or from lists without null entries), the override accumulation applies the
  contribution of one source only, the first Override source of the sorted list, whose
  priority is the highest among the Override sources, and of no other: the result is that
  contribution, with its Z component replaced by the Z of the input velocity when the source
  has \<^verbatim>\<open>IgnoreZAccumulate\<close>. Without an Override source the velocity is unchanged. In
  particular, with three Override sources of priorities 5, 1 and 9 handed to the group in any
  of the six orders, the result is the contribution of the prepared priority-9 source, with
  the input Z when that source ignores Z, whatever the order.
\<close>

theorem override_velocity_is_highest_priority_source:
  "((DO_CHECK w \<or> None \<notin> set (RootMotionSources g @ PendingAddRootMotionSources g)) \<and>
    Group_PrepareRootMotion w dt f g = Inr g' \<longrightarrow>
      AccumulateOverrideRootMotionVelocity w g' v =
        (case FirstOverride (RootMotionSources g') of
           None \<Rightarrow> v
         | Some s \<Rightarrow> AccumulateRootMotionVelocityFromSource w s v) \<and>
      (\<forall>s. FirstOverride (RootMotionSources g') = Some s \<longrightarrow>
         Some s \<in> set (RootMotionSources g') \<and> AccumulateMode s = Override \<and>
         (\<forall>t. Some t \<in> set (RootMotionSources g') \<and> AccumulateMode t = Override \<longrightarrow>
              Priority t \<le> Priority s) \<and>
         AccumulateOverrideRootMotionVelocity w g' v =
           (if HasFlag (Settings s) IgnoreZAccumulate
            then (RootMotionVelocity w s)\<lparr>Z := Z v\<rparr> else RootMotionVelocity w s)) \<and>
      (FirstOverride (RootMotionSources g') = None \<longrightarrow>
         (\<forall>t. Some t \<in> set (RootMotionSources g') \<longrightarrow> AccumulateMode t \<noteq> Override) \<and>
         AccumulateOverrideRootMotionVelocity w g' v = v)) \<and>
   (Priority a = 5 \<and> Priority b = 1 \<and> Priority c = 9 \<and>
    AccumulateMode a = Override \<and> AccumulateMode b = Override \<and> AccumulateMode c = Override \<and>
    xs \<in> {[a, b, c], [a, c, b], [b, a, c], [b, c, a], [c, a, b], [c, b, a]} \<and>
    RootMotionSources h @ PendingAddRootMotionSources h = map Some xs \<and>
    Group_PrepareRootMotion w dt f h = Inr h' \<longrightarrow>
      (\<exists>c'. PreparedFrom w dt f c c' \<and> Some c' \<in> set (RootMotionSources h') \<and>
         AccumulateOverrideRootMotionVelocity w h' v =
           (if HasFlag (Settings c) IgnoreZAccumulate
            then (RootMotionVelocity w c')\<lparr>Z := Z v\<rparr> else RootMotionVelocity w c')))"
proof (intro conjI impI)
  assume a: "(DO_CHECK w \<or> None \<notin> set (RootMotionSources g @ PendingAddRootMotionSources g)) \<and>
    Group_PrepareRootMotion w dt f g = Inr g'"
  then have valid:
    "DO_CHECK w \<or> None \<notin> set (RootMotionSources g @ PendingAddRootMotionSources g)"
    and prep: "Group_PrepareRootMotion w dt f g = Inr g'" by blast+
  show acc: "AccumulateOverrideRootMotionVelocity w g' v =
        (case FirstOverride (RootMotionSources g') of
           None \<Rightarrow> v
         | Some s \<Rightarrow> AccumulateRootMotionVelocityFromSource w s v)"
    by (rule override_general(1)[OF valid prep])
  show "\<forall>s. FirstOverride (RootMotionSources g') = Some s \<longrightarrow>
         Some s \<in> set (RootMotionSources g') \<and> AccumulateMode s = Override \<and>
         (\<forall>t. Some t \<in> set (RootMotionSources g') \<and> AccumulateMode t = Override \<longrightarrow>
              Priority t \<le> Priority s) \<and>
         AccumulateOverrideRootMotionVelocity w g' v =
           (if HasFlag (Settings s) IgnoreZAccumulate
            then (RootMotionVelocity w s)\<lparr>Z := Z v\<rparr> else RootMotionVelocity w s)"
  proof (intro allI impI)
    fix s
    assume fo: "FirstOverride (RootMotionSources g') = Some s"
    from override_general(2)[OF valid prep fo, of v]
    have mem: "Some s \<in> set (RootMotionSources g')" and ov: "AccumulateMode s = Override"
      and hi: "\<forall>t. Some t \<in> set (RootMotionSources g') \<and> AccumulateMode t = Override \<longrightarrow>
              Priority t \<le> Priority s" by blast+
    have "AccumulateOverrideRootMotionVelocity w g' v =
           (if HasFlag (Settings s) IgnoreZAccumulate
            then (RootMotionVelocity w s)\<lparr>Z := Z v\<rparr> else RootMotionVelocity w s)"
      using acc fo override_from_source[OF ov, of w v] by simp
    with mem ov hi
    show "Some s \<in> set (RootMotionSources g') \<and> AccumulateMode s = Override \<and>
         (\<forall>t. Some t \<in> set (RootMotionSources g') \<and> AccumulateMode t = Override \<longrightarrow>
              Priority t \<le> Priority s) \<and>
         AccumulateOverrideRootMotionVelocity w g' v =
           (if HasFlag (Settings s) IgnoreZAccumulate
            then (RootMotionVelocity w s)\<lparr>Z := Z v\<rparr> else RootMotionVelocity w s)"
      by blast
  qed
  show "\<forall>t. Some t \<in> set (RootMotionSources g') \<longrightarrow> AccumulateMode t \<noteq> Override"
    "AccumulateOverrideRootMotionVelocity w g' v = v"
    if "FirstOverride (RootMotionSources g') = None"
    using override_general(3)[OF valid prep that] by blast+
next
  assume "Priority a = 5 \<and> Priority b = 1 \<and> Priority c = 9 \<and>
    AccumulateMode a = Override \<and> AccumulateMode b = Override \<and> AccumulateMode c = Override \<and>
    xs \<in> {[a, b, c], [a, c, b], [b, a, c], [b, c, a], [c, a, b], [c, b, a]} \<and>
    RootMotionSources h @ PendingAddRootMotionSources h = map Some xs \<and>
    Group_PrepareRootMotion w dt f h = Inr h'"
  then show "\<exists>c'. PreparedFrom w dt f c c' \<and> Some c' \<in> set (RootMotionSources h') \<and>
         AccumulateOverrideRootMotionVelocity w h' v =
           (if HasFlag (Settings c) IgnoreZAccumulate
            then (RootMotionVelocity w c')\<lparr>Z := Z v\<rparr> else RootMotionVelocity w c')"
    using override_three_sources[of a b c xs h w dt f h' v] by blast
qed

lemma C1_sources:
  "Priority C1_a = 5" "Priority C1_b = 1" "Priority C1_c = 9"
  "AccumulateMode C1_a = Override" "AccumulateMode C1_b = Override"
  "AccumulateMode C1_c = Override"
  "DurationAccepted ExampleWorld C1_a" "DurationAccepted ExampleWorld C1_b"
  "DurationAccepted ExampleWorld C1_c"
  "RootMotionSources C1_group @ PendingAddRootMotionSources C1_group =
     map Some [C1_a, C1_b, C1_c]"
  "\<not> HasFlag (Settings C1_c) IgnoreZAccumulate"
  by (simp_all add: C1_a_def C1_b_def C1_c_def C1_group_def New_Group_def New_ConstantForce_def
      BaseConstruct_def DurationAccepted_def HasFlag_def SetFlag_def DisablePartialEndTick_def
      IgnoreZAccumulate_def)

lemma C1_prepared_c:
  assumes "PreparedFrom ExampleWorld (1 / 10) False C1_c c'"
  shows "RootMotionVelocity ExampleWorld c' = \<lparr>X = 9, Y = 0, Z = 7\<rparr>"
proof -
  have np: "\<not> HasFlag (Status C1_c) Prepared"
    by (simp add: C1_c_def New_ConstantForce_def BaseConstruct_def HasFlag_def)
  with assms have ps: "PrepareSource ExampleWorld (1 / 10) C1_c = Inr c'"
    by (simp add: PreparedFrom_def)
  have sim: "SourceSimulationTime ExampleWorld (1 / 10) C1_c = 1 / 10"
    by (simp add: SourceSimulationTime_def EndSimulationTime_def StartSimulationTime_def
        CatchupSimulationTime_def IsTimeOutEnabled_def IsStartTimeValid_def C1_c_def
        New_ConstantForce_def BaseConstruct_def Let_def)
  have tr: "Translation (RootMotionParams c') = \<lparr>X = 9, Y = 0, Z = 7\<rparr>"
    using ps unfolding PrepareSource_def sim Let_def
    by (auto simp: PrepareRootMotion_def PrepareRootMotion_ConstantForce_def C1_c_def
        New_ConstantForce_def BaseConstruct_def SetTime_fields ParamsSet_def VScale_def
        UE_SMALL_NUMBER_def Let_def)
  have flds: "\<not> bInLocalSpace c'"
    using PrepareSource_fields[OF ps]
    by (simp_all add: C1_c_def New_ConstantForce_def BaseConstruct_def)
  show ?thesis
    by (simp add: RootMotionVelocity_def flds tr Let_def)
qed

theorem C1_witness:
  "None \<notin> set (RootMotionSources C1_group @ PendingAddRootMotionSources C1_group) \<and>
   Priority C1_a = 5 \<and> Priority C1_b = 1 \<and> Priority C1_c = 9 \<and>
   AccumulateMode C1_a = Override \<and> AccumulateMode C1_b = Override \<and>
   AccumulateMode C1_c = Override \<and> \<not> HasFlag (Settings C1_c) IgnoreZAccumulate \<and>
   (\<exists>g'. Group_PrepareRootMotion ExampleWorld (1 / 10) False C1_group = Inr g' \<and>
      AccumulateOverrideRootMotionVelocity ExampleWorld g' \<lparr>X = 1, Y = 2, Z = 3\<rparr> =
        \<lparr>X = 9, Y = 0, Z = 7\<rparr>)"
proof -
  have valid: "None \<notin> set (RootMotionSources C1_group @ PendingAddRootMotionSources C1_group)"
    unfolding C1_sources(10) by simp
  have "\<forall>s. Some s \<in> set (RootMotionSources C1_group @ PendingAddRootMotionSources C1_group)
          \<longrightarrow> DurationAccepted ExampleWorld s"
    unfolding C1_sources(10) using C1_sources(7-9) by auto
  from Group_PrepareRootMotion_returns[OF valid this, of "1 / 10" False] obtain g' where
    g': "Group_PrepareRootMotion ExampleWorld (1 / 10) False C1_group = Inr g'" by blast
  from override_velocity_is_highest_priority_source[of ExampleWorld C1_group "1 / 10" False g'
      "\<lparr>X = 1, Y = 2, Z = 3\<rparr>" C1_a C1_b C1_c "[C1_a, C1_b, C1_c]" C1_group g']
    C1_sources g'
  obtain c' where "PreparedFrom ExampleWorld (1 / 10) False C1_c c'"
    "AccumulateOverrideRootMotionVelocity ExampleWorld g' \<lparr>X = 1, Y = 2, Z = 3\<rparr> =
       RootMotionVelocity ExampleWorld c'"
    by auto
  with C1_prepared_c[of c'] g' valid C1_sources(1-6,11) show ?thesis by auto
qed

lemma C1_sources_z:
  "Priority C1_z = 9" "AccumulateMode C1_z = Override" "DurationAccepted ExampleWorld C1_z"
  "RootMotionSources C1_group_z @ PendingAddRootMotionSources C1_group_z =
     map Some [C1_a, C1_b, C1_z]"
  "HasFlag (Settings C1_z) IgnoreZAccumulate"
  by (simp_all add: C1_z_def C1_group_z_def New_Group_def New_ConstantForce_def
      BaseConstruct_def DurationAccepted_def HasFlag_def SetFlag_def DisablePartialEndTick_def
      IgnoreZAccumulate_def)

lemma C1_prepared_z:
  assumes "PreparedFrom ExampleWorld (1 / 10) False C1_z c'"
  shows "RootMotionVelocity ExampleWorld c' = \<lparr>X = 9, Y = 0, Z = 7\<rparr>"
proof -
  have np: "\<not> HasFlag (Status C1_z) Prepared"
    by (simp add: C1_z_def New_ConstantForce_def BaseConstruct_def HasFlag_def)
  with assms have ps: "PrepareSource ExampleWorld (1 / 10) C1_z = Inr c'"
    by (simp add: PreparedFrom_def)
  have sim: "SourceSimulationTime ExampleWorld (1 / 10) C1_z = 1 / 10"
    by (simp add: SourceSimulationTime_def EndSimulationTime_def StartSimulationTime_def
        CatchupSimulationTime_def IsTimeOutEnabled_def IsStartTimeValid_def C1_z_def
        New_ConstantForce_def BaseConstruct_def Let_def)
  have tr: "Translation (RootMotionParams c') = \<lparr>X = 9, Y = 0, Z = 7\<rparr>"
    using ps unfolding PrepareSource_def sim Let_def
    by (auto simp: PrepareRootMotion_def PrepareRootMotion_ConstantForce_def C1_z_def
        New_ConstantForce_def BaseConstruct_def SetTime_fields ParamsSet_def VScale_def
        UE_SMALL_NUMBER_def Let_def)
  have flds: "\<not> bInLocalSpace c'"
    using PrepareSource_fields[OF ps]
    by (simp_all add: C1_z_def New_ConstantForce_def BaseConstruct_def)
  show ?thesis
    by (simp add: RootMotionVelocity_def flds tr Let_def)
qed

text \<open>
  Claim C1 as stated fails for a priority-9 source that has \<^verbatim>\<open>IgnoreZAccumulate\<close>: its
  prepared contribution is \<open>(9, 0, 7)\<close>, and the accumulation into the input velocity
  \<open>(1, 2, 3)\<close> yields \<open>(9, 0, 3)\<close>, the contribution with the Z of the input.
\<close>

theorem C1_counterexample:
  "Priority C1_a = 5 \<and> Priority C1_b = 1 \<and> Priority C1_z = 9 \<and>
   AccumulateMode C1_a = Override \<and> AccumulateMode C1_b = Override \<and>
   AccumulateMode C1_z = Override \<and>
   RootMotionSources C1_group_z @ PendingAddRootMotionSources C1_group_z =
     map Some [C1_a, C1_b, C1_z] \<and>
   (\<exists>g' c'. Group_PrepareRootMotion ExampleWorld (1 / 10) False C1_group_z = Inr g' \<and>
      PreparedFrom ExampleWorld (1 / 10) False C1_z c' \<and>
      Some c' \<in> set (RootMotionSources g') \<and>
      RootMotionVelocity ExampleWorld c' = \<lparr>X = 9, Y = 0, Z = 7\<rparr> \<and>
      AccumulateOverrideRootMotionVelocity ExampleWorld g' \<lparr>X = 1, Y = 2, Z = 3\<rparr> =
        \<lparr>X = 9, Y = 0, Z = 3\<rparr>)"
proof -
  have valid: "None \<notin> set (RootMotionSources C1_group_z @ PendingAddRootMotionSources C1_group_z)"
    unfolding C1_sources_z(4) by simp
  have "\<forall>s. Some s \<in> set (RootMotionSources C1_group_z @ PendingAddRootMotionSources C1_group_z)
          \<longrightarrow> DurationAccepted ExampleWorld s"
    unfolding C1_sources_z(4) using C1_sources(7,8) C1_sources_z(3) by auto
  from Group_PrepareRootMotion_returns[OF valid this, of "1 / 10" False] obtain g' where
    g': "Group_PrepareRootMotion ExampleWorld (1 / 10) False C1_group_z = Inr g'" by blast
  have "[C1_a, C1_b, C1_z] \<in> {[C1_a, C1_b, C1_z], [C1_a, C1_z, C1_b], [C1_b, C1_a, C1_z],
          [C1_b, C1_z, C1_a], [C1_z, C1_a, C1_b], [C1_z, C1_b, C1_a]}" by simp
  from override_three_sources[OF C1_sources(1,2) C1_sources_z(1) C1_sources(4,5)
      C1_sources_z(2) this C1_sources_z(4) g', of "\<lparr>X = 1, Y = 2, Z = 3\<rparr>"]
  obtain c' where c': "PreparedFrom ExampleWorld (1 / 10) False C1_z c'"
    "Some c' \<in> set (RootMotionSources g')"
    "AccumulateOverrideRootMotionVelocity ExampleWorld g' \<lparr>X = 1, Y = 2, Z = 3\<rparr> =
       (RootMotionVelocity ExampleWorld c')\<lparr>Z := 3\<rparr>"
    using C1_sources_z(5) by auto
  from c'(3) C1_prepared_z[OF c'(1)]
  have "AccumulateOverrideRootMotionVelocity ExampleWorld g' \<lparr>X = 1, Y = 2, Z = 3\<rparr> =
        \<lparr>X = 9, Y = 0, Z = 3\<rparr>" by simp
  with g' c'(1,2) C1_prepared_z[OF c'(1)] C1_sources(1,2,4,5) C1_sources_z(1,2,4)
  show ?thesis by blast
qed

section \<open>Partial end ticks\<close>











section \<open>Removing an additive source\<close>







section \<open>Equality of groups\<close>

lemma NormalizeAxis_zero: "NormalizeAxis 0 = 0"
  by (simp add: NormalizeAxis_def ClampAxis_def)

lemma REquals_refl: "0 \<le> tol \<Longrightarrow> REquals r r tol"
  by (simp add: REquals_def NormalizeAxis_zero)

lemma Matches_Variant_refl: "Matches_Variant v v"
  by (cases v)
     (simp_all add: PointsAreNear_def IsNearlyEqual_def UE_SMALL_NUMBER_def REquals_refl)

lemma SameConfigurationAndState_Matches:
  assumes "SameConfigurationAndState a b"
  shows "MatchesAndHasSameState a (Some b)"
proof -
  from assms have v: "Variant a = Variant b" and rest: "Priority a = Priority b"
    "AccumulateMode a = AccumulateMode b" "bInLocalSpace a = bInLocalSpace b"
    "InstanceName a = InstanceName b" "Duration a = Duration b"
    "Status a = Status b" "CurrentTime a = CurrentTime b"
    by (simp_all add: SameConfigurationAndState_def)
  have base: "Matches_Base a (Some b)"
    using v rest by (simp add: Matches_Base_def IsNearlyEqual_def UE_SMALL_NUMBER_def)
  have m: "Matches a (Some b)"
    using base v by (simp add: Matches_def Matches_Variant_refl)
  have mb: "MatchesAndHasSameState_Base a (Some b)"
    using m rest by (simp add: MatchesAndHasSameState_Base_def GetTime_def)
  show ?thesis
    unfolding MatchesAndHasSameState_def using mb v
    by (cases "Variant b")
       (simp_all add: VEquals_def UE_KINDA_SMALL_NUMBER_def)
qed

lemma SourcesEqual_same:
  "list_all2 SameEntry xs ys \<Longrightarrow> SourcesEqual xs ys"
proof (induction rule: list_all2_induct)
  case Nil
  show ?case by simp
next
  case (Cons x xs y ys)
  show ?case
  proof (cases x)
    case None
    with Cons show ?thesis by (simp add: SameEntry_def)
  next
    case (Some a)
    with Cons.hyps(1) obtain b where y: "y = Some b" and same: "SameConfigurationAndState a b"
      by (auto simp: SameEntry_def split: option.splits)
    from SameConfigurationAndState_Matches[OF same] Cons.IH show ?thesis
      by (simp add: Some y)
  qed
qed

text \<open>
  Claim C10. \<^verbatim>\<open>operator==\<close> of the group never reads \<^verbatim>\<open>LocalID\<close>: two groups whose active and
  pending lists agree entry by entry in validity, variant and configuration, status flags
  and elapsed time, whose four boolean flags agree and whose \<^verbatim>\<open>LastPreAdditiveVelocity\<close>
  agree within 1 in every component, are equal, whatever the local IDs of their sources.
\<close>

theorem group_equality_ignores_LocalID:
  assumes "list_all2 SameEntry (RootMotionSources g) (RootMotionSources h)"
    and "list_all2 SameEntry (PendingAddRootMotionSources g) (PendingAddRootMotionSources h)"
    and "bHasAdditiveSources g = bHasAdditiveSources h"
    and "bHasOverrideSources g = bHasOverrideSources h"
    and "bHasOverrideSourcesWithIgnoreZAccumulate g = bHasOverrideSourcesWithIgnoreZAccumulate h"
    and "bIsAdditiveVelocityApplied g = bIsAdditiveVelocityApplied h"
    and "VEquals (LastPreAdditiveVelocity g) (LastPreAdditiveVelocity h) 1"
  shows "Group_Equal g h"
proof -
  have "length (RootMotionSources g) = length (RootMotionSources h)"
    "length (PendingAddRootMotionSources g) = length (PendingAddRootMotionSources h)"
    using assms(1,2) by (simp_all add: list_all2_lengthD)
  moreover have "SourcesEqual (RootMotionSources g) (RootMotionSources h)"
    "SourcesEqual (PendingAddRootMotionSources g) (PendingAddRootMotionSources h)"
    using assms(1,2) by (simp_all add: SourcesEqual_same)
  ultimately show ?thesis
    using assms(3-7) by (simp add: Group_Equal_def)
qed

lemma C10_pre:
  "list_all2 SameEntry (RootMotionSources C10_left) (RootMotionSources C10_right)"
  "list_all2 SameEntry (PendingAddRootMotionSources C10_left)
     (PendingAddRootMotionSources C10_right)"
  "bHasAdditiveSources C10_left = bHasAdditiveSources C10_right"
  "bHasOverrideSources C10_left = bHasOverrideSources C10_right"
  "bHasOverrideSourcesWithIgnoreZAccumulate C10_left =
     bHasOverrideSourcesWithIgnoreZAccumulate C10_right"
  "bIsAdditiveVelocityApplied C10_left = bIsAdditiveVelocityApplied C10_right"
  "VEquals (LastPreAdditiveVelocity C10_left) (LastPreAdditiveVelocity C10_right) 1"
  by (simp_all add: C10_left_def C10_right_def New_Group_def SameEntry_def
      SameConfigurationAndState_def VEquals_def)

theorem C10_witness:
  "list_all2 SameEntry (RootMotionSources C10_left) (RootMotionSources C10_right) \<and>
   list_all2 SameEntry (PendingAddRootMotionSources C10_left)
     (PendingAddRootMotionSources C10_right) \<and>
   VEquals (LastPreAdditiveVelocity C10_left) (LastPreAdditiveVelocity C10_right) 1 \<and>
   map (map_option LocalID) (RootMotionSources C10_left) = [Some 1, None] \<and>
   map (map_option LocalID) (RootMotionSources C10_right) = [Some 7, None] \<and>
   Group_Equal C10_left C10_right"
  using group_equality_ignores_LocalID[OF C10_pre] C10_pre
  by (simp add: C10_left_def C10_right_def)

section \<open>Round trip of a source through the archive\<close>

lemma Serialize_saving:
  "Serialize dec enc z \<lparr>ArIsLoading = False, ArIsError = e, ArData = d\<rparr> v =
     (\<lparr>ArIsLoading = False, ArIsError = e, ArData = d @ [enc v]\<rparr>, v)"
  by (simp add: Serialize_def)

lemma Serialize_loading:
  "dec x = Some v' \<Longrightarrow>
   Serialize dec enc z \<lparr>ArIsLoading = True, ArIsError = False, ArData = x # rest\<rparr> v =
     (\<lparr>ArIsLoading = True, ArIsError = False, ArData = rest\<rparr>, v')"
  by (simp add: Serialize_def)

lemmas Ser_defs = Ser_int_def Ser_uint16_def Ser_uint8_def Ser_FName_def Ser_float_def
  Ser_bool_def Ser_FVector_def Ser_FRotator_def Ser_Object_def Ser_ScriptStruct_def

lemma Ser_saving:
  "Ser_int \<lparr>ArIsLoading = False, ArIsError = e, ArData = d\<rparr> i =
     (\<lparr>ArIsLoading = False, ArIsError = e, ArData = d @ [W_int i]\<rparr>, i)"
  "Ser_uint16 \<lparr>ArIsLoading = False, ArIsError = e, ArData = d\<rparr> u16 =
     (\<lparr>ArIsLoading = False, ArIsError = e, ArData = d @ [W_uint16 u16]\<rparr>, u16)"
  "Ser_uint8 \<lparr>ArIsLoading = False, ArIsError = e, ArData = d\<rparr> u8 =
     (\<lparr>ArIsLoading = False, ArIsError = e, ArData = d @ [W_uint8 u8]\<rparr>, u8)"
  "Ser_FName \<lparr>ArIsLoading = False, ArIsError = e, ArData = d\<rparr> n =
     (\<lparr>ArIsLoading = False, ArIsError = e, ArData = d @ [W_FName n]\<rparr>, n)"
  "Ser_float \<lparr>ArIsLoading = False, ArIsError = e, ArData = d\<rparr> r =
     (\<lparr>ArIsLoading = False, ArIsError = e, ArData = d @ [W_float r]\<rparr>, r)"
  "Ser_bool \<lparr>ArIsLoading = False, ArIsError = e, ArData = d\<rparr> b =
     (\<lparr>ArIsLoading = False, ArIsError = e, ArData = d @ [W_bool b]\<rparr>, b)"
  "Ser_FVector \<lparr>ArIsLoading = False, ArIsError = e, ArData = d\<rparr> vec =
     (\<lparr>ArIsLoading = False, ArIsError = e, ArData = d @ [W_FVector vec]\<rparr>, vec)"
  "Ser_FRotator \<lparr>ArIsLoading = False, ArIsError = e, ArData = d\<rparr> rot =
     (\<lparr>ArIsLoading = False, ArIsError = e, ArData = d @ [W_FRotator rot]\<rparr>, rot)"
  "Ser_Object \<lparr>ArIsLoading = False, ArIsError = e, ArData = d\<rparr> ob =
     (\<lparr>ArIsLoading = False, ArIsError = e, ArData = d @ [W_Object ob]\<rparr>, ob)"
  "Ser_ScriptStruct \<lparr>ArIsLoading = False, ArIsError = e, ArData = d\<rparr> sr =
     (\<lparr>ArIsLoading = False, ArIsError = e, ArData = d @ [W_ScriptStruct sr]\<rparr>, sr)"
  by (simp_all add: Ser_defs Serialize_saving)

lemma Ser_loading:
  "Ser_int \<lparr>ArIsLoading = True, ArIsError = False, ArData = W_int i # rest\<rparr> i0 =
     (\<lparr>ArIsLoading = True, ArIsError = False, ArData = rest\<rparr>, i)"
  "Ser_uint16 \<lparr>ArIsLoading = True, ArIsError = False, ArData = W_uint16 u16 # rest\<rparr> u160 =
     (\<lparr>ArIsLoading = True, ArIsError = False, ArData = rest\<rparr>, u16)"
  "Ser_uint8 \<lparr>ArIsLoading = True, ArIsError = False, ArData = W_uint8 u8 # rest\<rparr> u80 =
     (\<lparr>ArIsLoading = True, ArIsError = False, ArData = rest\<rparr>, u8)"
  "Ser_FName \<lparr>ArIsLoading = True, ArIsError = False, ArData = W_FName n # rest\<rparr> n0 =
     (\<lparr>ArIsLoading = True, ArIsError = False, ArData = rest\<rparr>, n)"
  "Ser_float \<lparr>ArIsLoading = True, ArIsError = False, ArData = W_float r # rest\<rparr> r0 =
     (\<lparr>ArIsLoading = True, ArIsError = False, ArData = rest\<rparr>, r)"
  "Ser_bool \<lparr>ArIsLoading = True, ArIsError = False, ArData = W_bool b # rest\<rparr> b0 =
     (\<lparr>ArIsLoading = True, ArIsError = False, ArData = rest\<rparr>, b)"
  "Ser_FVector \<lparr>ArIsLoading = True, ArIsError = False, ArData = W_FVector vec # rest\<rparr> vec0 =
     (\<lparr>ArIsLoading = True, ArIsError = False, ArData = rest\<rparr>, vec)"
  "Ser_FRotator \<lparr>ArIsLoading = True, ArIsError = False, ArData = W_FRotator rot # rest\<rparr> rot0 =
     (\<lparr>ArIsLoading = True, ArIsError = False, ArData = rest\<rparr>, rot)"
  "Ser_Object \<lparr>ArIsLoading = True, ArIsError = False, ArData = W_Object ob # rest\<rparr> ob0 =
     (\<lparr>ArIsLoading = True, ArIsError = False, ArData = rest\<rparr>, ob)"
  "Ser_ScriptStruct \<lparr>ArIsLoading = True, ArIsError = False, ArData = W_ScriptStruct sr # rest\<rparr> sr0 =
     (\<lparr>ArIsLoading = True, ArIsError = False, ArData = rest\<rparr>, sr)"
  by (simp_all add: Ser_defs Serialize_loading)

lemma NetSerialize_Base_saving:
  "NetSerialize_Base \<lparr>ArIsLoading = False, ArIsError = e, ArData = d\<rparr> s =
     (\<lparr>ArIsLoading = False, ArIsError = e, ArData = d @ BaseWire s\<rparr>, s)"
  by (simp add: NetSerialize_Base_def Ser_saving BaseWire_def)

lemma NetSerialize_Base_loading:
  "NetSerialize_Base \<lparr>ArIsLoading = True, ArIsError = False, ArData = BaseWire s @ rest\<rparr> t =
     (\<lparr>ArIsLoading = True, ArIsError = False, ArData = rest\<rparr>,
      t\<lparr>Priority := Priority s, LocalID := LocalID s, AccumulateMode := AccumulateMode s,
        InstanceName := InstanceName s, CurrentTime := CurrentTime s, Duration := Duration s,
        Status := Status s, bInLocalSpace := bInLocalSpace s\<rparr>)"
  by (simp add: NetSerialize_Base_def Ser_loading BaseWire_def)

lemma NetSerialize_saving:
  "NetSerialize \<lparr>ArIsLoading = False, ArIsError = e, ArData = d\<rparr> s =
     (\<lparr>ArIsLoading = False, ArIsError = e, ArData = d @ SourceWire s\<rparr>, s)"
  unfolding NetSerialize_def NetSerialize_Base_saving SourceWire_def
  by (cases "Variant s")
     (simp_all add: NetSerialize_ConstantForce_def NetSerialize_RadialForce_def
        NetSerialize_MoveToForce_def NetSerialize_MoveToDynamicForce_def
        NetSerialize_JumpForce_def Ser_saving)

lemma NetSerialize_loading:
  assumes "GetScriptStruct t = GetScriptStruct s"
  shows "NetSerialize \<lparr>ArIsLoading = True, ArIsError = False, ArData = SourceWire s @ rest\<rparr> t =
     (\<lparr>ArIsLoading = True, ArIsError = False, ArData = rest\<rparr>, Receive t s)"
  using assms unfolding NetSerialize_def SourceWire_def append_assoc NetSerialize_Base_loading
  by (cases "Variant s"; cases "Variant t")
     (simp_all add: NetSerialize_ConstantForce_def NetSerialize_RadialForce_def
        NetSerialize_MoveToForce_def NetSerialize_MoveToDynamicForce_def
        NetSerialize_JumpForce_def Ser_loading Receive_def)

lemma DefaultOf_struct: "GetScriptStruct (DefaultOf s) = GetScriptStruct s"
  by (cases "Variant s")
     (simp_all add: DefaultOf_def New_ConstantForce_def New_RadialForce_def New_MoveToForce_def
        New_MoveToDynamicForce_def New_JumpForce_def BaseConstruct_def)

lemma DefaultOf_fields:
  "StartTime (DefaultOf s) = RootMotionSource_InvalidStartTime"
  "PreviousTime (DefaultOf s) = 0"
  "FinishVelocityParams (DefaultOf s) = DefaultFinishVelocityParams"
  "\<not> bNeedsSimulatedCatchup (DefaultOf s)"
  by (cases "Variant s";
      simp add: DefaultOf_def New_ConstantForce_def New_RadialForce_def New_MoveToForce_def
        New_MoveToDynamicForce_def New_JumpForce_def BaseConstruct_def)+

text \<open>
  Claim C4, amended. Writing a source and reading the written values into a
  default-constructed source of the same struct succeeds, consumes exactly what was written,
  and reproduces the fields that \<^verbatim>\<open>NetSerialize\<close> transfers: priority, local ID, accumulate
  mode, instance name, elapsed time, duration, the whole status byte, the local-space flag and
  the fields of the variant (all but the saved halfway location of a jump force). Every other
  field has the value the constructor gave it: the start time is the invalid start time, the
  previous time 0, the finish-velocity parameters the default ones, and the settings flags
  those of the constructor.
\<close>

theorem source_round_trip_reproduces_written_fields:
  "(case NetSerialize SavingArchive s of
      (ArW, s1) \<Rightarrow>
        s1 = s \<and> \<not> ArIsError ArW \<and>
        (case NetSerialize (LoadingArchive (ArData ArW)) (DefaultOf s) of
           (ArR, s2) \<Rightarrow>
             \<not> ArIsError ArR \<and> ArData ArR = [] \<and>
             s2 = (DefaultOf s)
                    \<lparr>Priority := Priority s, LocalID := LocalID s,
                     AccumulateMode := AccumulateMode s, InstanceName := InstanceName s,
                     CurrentTime := CurrentTime s, Duration := Duration s, Status := Status s,
                     bInLocalSpace := bInLocalSpace s,
                     Variant := ReceiveVariant (Variant (DefaultOf s)) (Variant s)\<rparr> \<and>
             StartTime s2 = RootMotionSource_InvalidStartTime \<and>
             PreviousTime s2 = 0 \<and>
             Settings s2 = Settings (DefaultOf s) \<and>
             FinishVelocityParams s2 = DefaultFinishVelocityParams))"
proof -
  have w: "NetSerialize SavingArchive s =
             (\<lparr>ArIsLoading = False, ArIsError = False, ArData = SourceWire s\<rparr>, s)"
    using NetSerialize_saving[of False "[]" s] by (simp add: SavingArchive_def)
  have r: "NetSerialize (LoadingArchive (SourceWire s)) (DefaultOf s) =
             (\<lparr>ArIsLoading = True, ArIsError = False, ArData = []\<rparr>, Receive (DefaultOf s) s)"
    using NetSerialize_loading[OF DefaultOf_struct, of s "[]"] by (simp add: LoadingArchive_def)
  show ?thesis
    by (simp add: w r Receive_def DefaultOf_fields)
qed

theorem C4_witness:
  "fst (NetSerialize SavingArchive C4_source) =
     \<lparr>ArIsLoading = False, ArIsError = False,
      ArData = [W_int 7, W_uint16 9, W_uint8 1, W_FName ''Dash'', W_float (1 / 4), W_float 2,
                W_uint8 1, W_bool True, W_FVector \<lparr>X = 1, Y = 2, Z = 3\<rparr>, W_Object (Some 4)]\<rparr> \<and>
   snd (NetSerialize
          (LoadingArchive (ArData (fst (NetSerialize SavingArchive C4_source))))
          (DefaultOf C4_source)) =
     C4_source\<lparr>StartTime := RootMotionSource_InvalidStartTime\<rparr>"
proof -
  have w: "NetSerialize SavingArchive C4_source =
     (\<lparr>ArIsLoading = False, ArIsError = False,
       ArData = [W_int 7, W_uint16 9, W_uint8 1, W_FName ''Dash'', W_float (1 / 4), W_float 2,
                 W_uint8 1, W_bool True, W_FVector \<lparr>X = 1, Y = 2, Z = 3\<rparr>, W_Object (Some 4)]\<rparr>,
      C4_source)"
    using NetSerialize_saving[of False "[]" C4_source]
    by (simp add: SavingArchive_def SourceWire_def BaseWire_def C4_source_def BaseConstruct_def
        Additive_def Prepared_def)
  have d: "DefaultOf C4_source = New_ConstantForce"
    by (simp add: DefaultOf_def C4_source_def BaseConstruct_def)
  from source_round_trip_reproduces_written_fields[of C4_source]
  show ?thesis
    unfolding w d
    by (simp add: split_def New_ConstantForce_def C4_source_def BaseConstruct_def)
qed

text \<open>
  Claim C4 as stated fails: a constant force with start time 5 comes back from the round
  trip with the invalid start time of the default-constructed source, and the start time is
  no status flag.
\<close>

theorem C4_counterexample:
  "StartTime C4_source = 5 \<and>
   StartTime (snd (NetSerialize
                     (LoadingArchive (ArData (fst (NetSerialize SavingArchive C4_source))))
                     New_ConstantForce)) = - (34 * 10 ^ 37)"
proof -
  have s: "GetScriptStruct New_ConstantForce = GetScriptStruct C4_source"
    by (simp add: New_ConstantForce_def C4_source_def BaseConstruct_def)
  have w: "NetSerialize SavingArchive C4_source =
             (\<lparr>ArIsLoading = False, ArIsError = False, ArData = SourceWire C4_source\<rparr>, C4_source)"
    using NetSerialize_saving[of False "[]" C4_source] by (simp add: SavingArchive_def)
  have r: "NetSerialize (LoadingArchive (SourceWire C4_source)) New_ConstantForce =
             (\<lparr>ArIsLoading = True, ArIsError = False, ArData = []\<rparr>,
              Receive New_ConstantForce C4_source)"
    using NetSerialize_loading[OF s, of "[]"] by (simp add: LoadingArchive_def)
  have "snd (NetSerialize
               (LoadingArchive (ArData (fst (NetSerialize SavingArchive C4_source))))
               New_ConstantForce) = Receive New_ConstantForce C4_source"
    by (simp add: w r)
  then show ?thesis
    by (simp add: Receive_def New_ConstantForce_def BaseConstruct_def C4_source_def
        RootMotionSource_InvalidStartTime_def UE_BIG_NUMBER_def)
qed

section \<open>Deserializing a group\<close>

lemma Serialize_keeps_mode: "ArIsLoading (fst (Serialize dec enc z Ar v)) = ArIsLoading Ar"
  by (simp add: Serialize_def split: list.splits option.splits)

lemma Serialize_in_error:
  "ArIsLoading Ar \<Longrightarrow> ArIsError Ar \<Longrightarrow> Serialize dec enc z Ar v = (Ar, z)"
  by (simp add: Serialize_def)

lemma Ser_keeps_mode:
  "ArIsLoading (fst (Ser_int Ar i)) = ArIsLoading Ar"
  "ArIsLoading (fst (Ser_uint16 Ar u16)) = ArIsLoading Ar"
  "ArIsLoading (fst (Ser_uint8 Ar u8)) = ArIsLoading Ar"
  "ArIsLoading (fst (Ser_FName Ar n)) = ArIsLoading Ar"
  "ArIsLoading (fst (Ser_float Ar r)) = ArIsLoading Ar"
  "ArIsLoading (fst (Ser_bool Ar b)) = ArIsLoading Ar"
  "ArIsLoading (fst (Ser_FVector Ar vec)) = ArIsLoading Ar"
  "ArIsLoading (fst (Ser_FRotator Ar rot)) = ArIsLoading Ar"
  "ArIsLoading (fst (Ser_Object Ar ob)) = ArIsLoading Ar"
  "ArIsLoading (fst (Ser_ScriptStruct Ar sr)) = ArIsLoading Ar"
  by (simp_all add: Ser_defs Serialize_keeps_mode)

lemma NetSerialize_Base_keeps_mode:
  "ArIsLoading (fst (NetSerialize_Base Ar s)) = ArIsLoading Ar"
  by (simp add: NetSerialize_Base_def split_def Ser_keeps_mode)

lemma NetSerialize_keeps_mode: "ArIsLoading (fst (NetSerialize Ar s)) = ArIsLoading Ar"
  unfolding NetSerialize_def
  by (cases "Variant (snd (NetSerialize_Base Ar s))")
     (simp_all add: split_def NetSerialize_Base_keeps_mode Ser_keeps_mode
        NetSerialize_ConstantForce_def NetSerialize_RadialForce_def NetSerialize_MoveToForce_def
        NetSerialize_MoveToDynamicForce_def NetSerialize_JumpForce_def)

lemma derived_structs:
  "IsDerivedFromBaseRMS st \<Longrightarrow> InitializeStruct st \<noteq> None \<and> HasNetSerializeNative st"
  by (cases st) (simp_all add: IsDerivedFromBaseRMS_def)

lemma GetScriptStruct_derived: "IsDerivedFromBaseRMS (GetScriptStruct s)"
  by (cases "Variant s") (simp_all add: IsDerivedFromBaseRMS_def numeral_2_eq_2)

lemma InitializeStruct_DefaultOf: "InitializeStruct (GetScriptStruct s) = Some (DefaultOf s)"
  by (cases "Variant s") (simp_all add: DefaultOf_def)

text \<open>Reading never goes through a null entry and never trips an assertion.\<close>

lemma NetSerializeRMSEntries_loading_returns:
  "ArIsLoading Ar \<Longrightarrow> \<exists>Ar' ys. NetSerializeRMSEntries chk Ar xs = Inr (Ar', ys) \<and>
      ArIsLoading Ar' \<and> length ys = length xs"
proof (induction xs arbitrary: Ar)
  case Nil
  then show ?case by simp
next
  case (Cons x xs)
  obtain Ar1 ref where ser: "Ser_ScriptStruct Ar (StructRefOf x) = (Ar1, ref)"
    by (cases "Ser_ScriptStruct Ar (StructRefOf x)")
  have l1: "ArIsLoading Ar1"
    using Ser_keeps_mode(10)[of Ar "StructRefOf x"] ser Cons.prems by simp
  show ?case
  proof (cases "ArIsError Ar")
    case True
    with Cons.prems show ?thesis by simp
  next
    case False
    show ?thesis
    proof (cases ref)
      case Ref_Null
      from Cons.IH[OF l1] show ?thesis
        using False ser Ref_Null by auto
    next
      case Ref_Error
      then show ?thesis using False ser l1 by simp
    next
      case (Ref_Struct st)
      show ?thesis
      proof (cases "IsDerivedFromBaseRMS st")
        case nd: False
        then show ?thesis using False ser l1 Ref_Struct by simp
      next
        case d: True
        from derived_structs[OF d] obtain n where n: "InitializeStruct st = Some n"
          and nat: "HasNetSerializeNative st" by auto
        let ?x1 = "if x \<noteq> None \<and> StructRefOf x = ref then x else InitializeStruct st"
        have "\<exists>t. ?x1 = Some t" using n by (cases x) simp_all
        then obtain t where t: "?x1 = Some t" by blast
        obtain Ar2 s' where ns: "NetSerialize Ar1 t = (Ar2, s')"
          by (cases "NetSerialize Ar1 t")
        have l2: "ArIsLoading Ar2"
          using NetSerialize_keeps_mode[of Ar1 t] ns l1 by simp
        from Cons.IH[OF l2] obtain Ar3 ys where
          "NetSerializeRMSEntries chk Ar2 xs = Inr (Ar3, ys)" "ArIsLoading Ar3"
          "length ys = length xs" by blast
        then show ?thesis
          using False ser Ref_Struct d nat l1 t ns by (simp add: Let_def)
      qed
    qed
  qed
qed

lemma NetSerializeRMSEntries_in_error:
  "ArIsError Ar \<Longrightarrow> NetSerializeRMSEntries chk Ar xs = Inr (Ar, xs)"
  by (cases xs) simp_all

lemma NetSerializeRMSArray_loading_returns:
  assumes "ArIsLoading Ar"
  shows "\<exists>Ar' ys. NetSerializeRMSArray chk Ar xs m = Inr (Ar', ys) \<and> ArIsLoading Ar'"
proof -
  obtain Ar1 n where ser: "Ser_uint8 Ar 0 = (Ar1, n)" by (cases "Ser_uint8 Ar 0")
  have l1: "ArIsLoading Ar1" using Ser_keeps_mode(3)[of Ar 0] ser assms by simp
  from NetSerializeRMSEntries_loading_returns[OF l1, of chk
      "take (unat n) (SetNumZeroed xs (unat n))"]
  show ?thesis
    using assms ser l1 by (auto simp: NetSerializeRMSArray_def Let_def)
qed

lemma NetSerializeRMSArray_in_error:
  assumes "ArIsLoading Ar" "ArIsError Ar"
  shows "NetSerializeRMSArray chk Ar xs m = Inr (Ar, [])"
proof -
  have "Ser_uint8 Ar 0 = (Ar, 0)"
    using assms by (simp add: Ser_uint8_def Serialize_in_error)
  then show ?thesis
    using assms by (simp add: NetSerializeRMSArray_def Let_def SetNumZeroed_def)
qed

lemma NetSerializeRMSEntries_bad_ref:
  assumes "IsBadStructRef bad"
  shows "NetSerializeRMSEntries chk
           \<lparr>ArIsLoading = True, ArIsError = False, ArData = W_ScriptStruct bad # rest\<rparr> (x # xs) =
         Inr (\<lparr>ArIsLoading = True, ArIsError = True, ArData = rest\<rparr>, x # xs)"
  using assms by (cases bad) (simp_all add: Ser_loading IsBadStructRef_def)

lemma NetSerializeRMSEntries_one:
  "NetSerializeRMSEntries chk
     \<lparr>ArIsLoading = True, ArIsError = False, ArData = EntryWire x @ tail\<rparr> (l # ls) =
   (case NetSerializeRMSEntries chk
           \<lparr>ArIsLoading = True, ArIsError = False, ArData = tail\<rparr> ls of
      Inl e \<Rightarrow> Inl e
    | Inr (Ar', ys) \<Rightarrow> Inr (Ar', ReceiveEntry l x # ys))"
proof (cases x)
  case None
  show ?thesis
    unfolding None
    by (simp add: EntryWire_def Ser_loading ReceiveEntry_def split: sum.splits)
next
  case (Some s)
  let ?st = "GetScriptStruct s"
  let ?x1 = "if l \<noteq> None \<and> StructRefOf l = Ref_Struct ?st then l else InitializeStruct ?st"
  let ?t = "case l of Some t \<Rightarrow> (if GetScriptStruct t = ?st then t else DefaultOf s)
                     | None \<Rightarrow> DefaultOf s"
  have x1: "?x1 = Some ?t"
    by (cases l) (simp_all add: StructRefOf_def InitializeStruct_DefaultOf del: GetScriptStruct.simps)
  have st: "GetScriptStruct ?t = ?st"
    by (cases l) (simp_all add: DefaultOf_struct del: GetScriptStruct.simps)
  have rcv: "Some (Receive ?t s) = ReceiveEntry l x"
    by (cases l) (simp_all add: ReceiveEntry_def Some del: GetScriptStruct.simps)
  have d: "IsDerivedFromBaseRMS ?st" "HasNetSerializeNative ?st"
    using GetScriptStruct_derived[of s] derived_structs[of ?st] by simp_all
  show ?thesis
    unfolding Some EntryWire_def option.case append_Cons NetSerializeRMSEntries.simps
    by (simp only: Ser_loading FArchive.simps if_False if_True prod.case FStructRef.case d
          Let_def x1 option.case NetSerialize_loading[OF st] rcv[unfolded Some])
qed

lemma NetSerializeRMSEntries_prefix:
  "length locals = length srcs \<Longrightarrow>
   NetSerializeRMSEntries chk
     \<lparr>ArIsLoading = True, ArIsError = False, ArData = concat (map EntryWire srcs) @ tail\<rparr>
     (locals @ others) =
   (case NetSerializeRMSEntries chk
           \<lparr>ArIsLoading = True, ArIsError = False, ArData = tail\<rparr> others of
      Inl e \<Rightarrow> Inl e
    | Inr (Ar', ys) \<Rightarrow> Inr (Ar', map2 ReceiveEntry locals srcs @ ys))"
proof (induction locals srcs rule: list_induct2)
  case Nil
  show ?case by (simp split: sum.splits)
next
  case (Cons l ls x xs)
  show ?case
    using NetSerializeRMSEntries_one[of chk x "concat (map EntryWire xs) @ tail" l "ls @ others"]
    by (simp add: Cons.IH split: sum.splits)
qed

lemma length_SetNumZeroed: "length (SetNumZeroed xs n) = n"
  by (simp add: SetNumZeroed_def)

lemma NetSerializeRMSArray_bad_ref:
  assumes "IsBadStructRef bad" and "length srcs < unat n"
  shows "NetSerializeRMSArray chk
           \<lparr>ArIsLoading = True, ArIsError = False,
            ArData = W_uint8 n # concat (map EntryWire srcs) @ W_ScriptStruct bad # rest\<rparr> arr m =
         Inr (\<lparr>ArIsLoading = True, ArIsError = True, ArData = rest\<rparr>,
              map2 ReceiveEntry (take (length srcs) (SetNumZeroed arr (unat n))) srcs @
              drop (length srcs) (SetNumZeroed arr (unat n)))"
proof -
  let ?A = "SetNumZeroed arr (unat n)"
  let ?k = "length srcs"
  have len: "length ?A = unat n" by (rule length_SetNumZeroed)
  have tk: "take (unat n) ?A = take ?k ?A @ drop ?k ?A" "drop (unat n) ?A = []"
    using len by simp_all
  have lk: "length (take ?k ?A) = length srcs" using len assms(2) by simp
  have "drop ?k ?A \<noteq> []" using len assms(2) by simp
  then obtain y ys where dr: "drop ?k ?A = y # ys" by (cases "drop ?k ?A") auto
  have loop: "NetSerializeRMSEntries chk
      \<lparr>ArIsLoading = True, ArIsError = False,
       ArData = concat (map EntryWire srcs) @ W_ScriptStruct bad # rest\<rparr>
      (take ?k ?A @ drop ?k ?A) =
      Inr (\<lparr>ArIsLoading = True, ArIsError = True, ArData = rest\<rparr>,
           map2 ReceiveEntry (take ?k ?A) srcs @ drop ?k ?A)"
    unfolding NetSerializeRMSEntries_prefix[OF lk] dr
      NetSerializeRMSEntries_bad_ref[OF assms(1)]
    by simp
  have loop': "NetSerializeRMSEntries chk
      \<lparr>ArIsLoading = True, ArIsError = False,
       ArData = concat (map EntryWire srcs) @ W_ScriptStruct bad # rest\<rparr> ?A =
      Inr (\<lparr>ArIsLoading = True, ArIsError = True, ArData = rest\<rparr>,
           map2 ReceiveEntry (take ?k ?A) srcs @ drop ?k ?A)"
    using loop by simp
  have full: "take (unat n) ?A = ?A" using len by simp
  show ?thesis
    unfolding NetSerializeRMSArray_def
    by (simp add: Ser_loading Let_def full tk(2) loop' del: NetSerializeRMSEntries.simps)
qed

lemma Group_header_loading:
  "Ser_bool \<lparr>ArIsLoading = True, ArIsError = False, ArData = GroupHeaderWire hdr @ d\<rparr> b =
     (\<lparr>ArIsLoading = True, ArIsError = False,
       ArData = tl (GroupHeaderWire hdr) @ d\<rparr>, bHasAdditiveSources hdr)"
  by (simp add: GroupHeaderWire_def Ser_loading)

lemma Group_NetSerialize_bad_ref:
  assumes "IsBadStructRef bad" and "length srcs < unat n"
  shows "Group_NetSerialize chk
           \<lparr>ArIsLoading = True, ArIsError = False,
            ArData = GroupHeaderWire hdr @
                     W_uint8 n # concat (map EntryWire srcs) @ W_ScriptStruct bad # rest\<rparr>
           g MaxNum =
         Inr (\<lparr>ArIsLoading = True, ArIsError = True, ArData = rest\<rparr>,
              g\<lparr>bHasAdditiveSources := bHasAdditiveSources hdr,
                bHasOverrideSources := bHasOverrideSources hdr,
                bHasOverrideSourcesWithIgnoreZAccumulate :=
                  bHasOverrideSourcesWithIgnoreZAccumulate hdr,
                LastPreAdditiveVelocity := LastPreAdditiveVelocity hdr,
                bIsAdditiveVelocityApplied := bIsAdditiveVelocityApplied hdr,
                LastAccumulatedSettings := LastAccumulatedSettings hdr,
                RootMotionSources :=
                  filter (\<lambda>x. x \<noteq> None)
                    (map2 ReceiveEntry
                       (take (length srcs) (SetNumZeroed (RootMotionSources g) (unat n))) srcs @
                     drop (length srcs) (SetNumZeroed (RootMotionSources g) (unat n))),
                PendingAddRootMotionSources := []\<rparr>,
              False)"
  unfolding Group_NetSerialize_def GroupHeaderWire_def
  by (simp add: Ser_loading Let_def NetSerializeRMSArray_bad_ref[OF assms]
        NetSerializeRMSArray_in_error
      del: NetSerializeRMSEntries.simps)

lemma Group_NetSerialize_loading_returns:
  assumes "ArIsLoading Ar"
  shows "\<exists>Ar' g' ok. Group_NetSerialize chk Ar g MaxNum = Inr (Ar', g', ok) \<and>
           ok = (\<not> ArIsError Ar') \<and>
           (ArIsError Ar' \<longrightarrow> None \<notin> set (RootMotionSources g') \<and>
                               None \<notin> set (PendingAddRootMotionSources g'))"
proof -
  obtain Ar1 b1 where s1: "Ser_bool Ar (bHasAdditiveSources g) = (Ar1, b1)"
    by (cases "Ser_bool Ar (bHasAdditiveSources g)")
  obtain Ar2 b2 where s2: "Ser_bool Ar1 (bHasOverrideSources g) = (Ar2, b2)"
    by (cases "Ser_bool Ar1 (bHasOverrideSources g)")
  obtain Ar3 b3 where s3:
    "Ser_bool Ar2 (bHasOverrideSourcesWithIgnoreZAccumulate g) = (Ar3, b3)"
    by (cases "Ser_bool Ar2 (bHasOverrideSourcesWithIgnoreZAccumulate g)")
  obtain Ar4 lp where s4: "Ser_FVector Ar3 (LastPreAdditiveVelocity g) = (Ar4, lp)"
    by (cases "Ser_FVector Ar3 (LastPreAdditiveVelocity g)")
  obtain Ar5 b4 where s5: "Ser_bool Ar4 (bIsAdditiveVelocityApplied g) = (Ar5, b4)"
    by (cases "Ser_bool Ar4 (bIsAdditiveVelocityApplied g)")
  obtain Ar6 st where s6: "Ser_uint8 Ar5 (LastAccumulatedSettings g) = (Ar6, st)"
    by (cases "Ser_uint8 Ar5 (LastAccumulatedSettings g)")
  have l6: "ArIsLoading Ar6"
    using assms Ser_keeps_mode(6)[of Ar "bHasAdditiveSources g"]
      Ser_keeps_mode(6)[of Ar1 "bHasOverrideSources g"]
      Ser_keeps_mode(6)[of Ar2 "bHasOverrideSourcesWithIgnoreZAccumulate g"]
      Ser_keeps_mode(7)[of Ar3 "LastPreAdditiveVelocity g"]
      Ser_keeps_mode(6)[of Ar4 "bIsAdditiveVelocityApplied g"]
      Ser_keeps_mode(3)[of Ar5 "LastAccumulatedSettings g"]
    by (simp add: s1 s2 s3 s4 s5 s6)
  let ?g1 = "g\<lparr>bHasAdditiveSources := b1, bHasOverrideSources := b2,
                bHasOverrideSourcesWithIgnoreZAccumulate := b3,
                LastPreAdditiveVelocity := lp, bIsAdditiveVelocityApplied := b4,
                LastAccumulatedSettings := st\<rparr>"
  let ?n = "word_of_nat (min (length (RootMotionSources ?g1)) (unat MaxNum)) :: 8 word"
  let ?p = "if ?n < MaxNum then MaxNum - ?n else 0"
  from NetSerializeRMSArray_loading_returns[OF l6, of chk "RootMotionSources ?g1" ?n]
  obtain Ar7 act where a7: "NetSerializeRMSArray chk Ar6 (RootMotionSources ?g1) ?n = Inr (Ar7, act)"
    and l7: "ArIsLoading Ar7" by blast
  from NetSerializeRMSArray_loading_returns[OF l7, of chk "PendingAddRootMotionSources ?g1" ?p]
  obtain Ar8 pend where
    a8: "NetSerializeRMSArray chk Ar7 (PendingAddRootMotionSources ?g1) ?p = Inr (Ar8, pend)"
    by blast
  have "Group_NetSerialize chk Ar g MaxNum =
      (if ArIsError Ar8 then
         Inr (Ar8, ?g1\<lparr>RootMotionSources := filter (\<lambda>x. x \<noteq> None) act,
                       PendingAddRootMotionSources := filter (\<lambda>x. x \<noteq> None) pend\<rparr>, False)
       else Inr (Ar8, ?g1\<lparr>RootMotionSources := act, PendingAddRootMotionSources := pend\<rparr>, True))"
    unfolding Group_NetSerialize_def s1 s2 s3 s4 s5 s6 prod.case Let_def
    using a7 a8 by simp
  then show ?thesis by (cases "ArIsError Ar8") simp_all
qed

lemma NetSerializeRMSArray_valid:
  assumes "length srcs = unat n"
  shows "NetSerializeRMSArray chk
           \<lparr>ArIsLoading = True, ArIsError = False,
            ArData = W_uint8 n # concat (map EntryWire srcs) @ tail\<rparr> arr m =
         Inr (\<lparr>ArIsLoading = True, ArIsError = False, ArData = tail\<rparr>,
              map2 ReceiveEntry (SetNumZeroed arr (unat n)) srcs)"
proof -
  let ?A = "SetNumZeroed arr (unat n)"
  have len: "length ?A = length srcs" using assms by (simp add: length_SetNumZeroed)
  have loop: "NetSerializeRMSEntries chk
      \<lparr>ArIsLoading = True, ArIsError = False, ArData = concat (map EntryWire srcs) @ tail\<rparr> ?A =
      Inr (\<lparr>ArIsLoading = True, ArIsError = False, ArData = tail\<rparr>, map2 ReceiveEntry ?A srcs)"
    using NetSerializeRMSEntries_prefix[OF len, of chk tail "[]"] by simp
  have full: "take (unat n) ?A = ?A" "drop (unat n) ?A = []"
    using len assms by simp_all
  show ?thesis
    unfolding NetSerializeRMSArray_def
    by (simp add: Ser_loading Let_def full loop del: NetSerializeRMSEntries.simps)
qed

lemma Group_NetSerialize_bad_ref_pending:
  assumes "IsBadStructRef bad" and "length act = unat na" and "length srcs < unat n"
  shows "Group_NetSerialize chk
           \<lparr>ArIsLoading = True, ArIsError = False,
            ArData = GroupHeaderWire hdr @
                     W_uint8 na # concat (map EntryWire act) @
                     W_uint8 n # concat (map EntryWire srcs) @ W_ScriptStruct bad # rest\<rparr>
           g MaxNum =
         Inr (\<lparr>ArIsLoading = True, ArIsError = True, ArData = rest\<rparr>,
              g\<lparr>bHasAdditiveSources := bHasAdditiveSources hdr,
                bHasOverrideSources := bHasOverrideSources hdr,
                bHasOverrideSourcesWithIgnoreZAccumulate :=
                  bHasOverrideSourcesWithIgnoreZAccumulate hdr,
                LastPreAdditiveVelocity := LastPreAdditiveVelocity hdr,
                bIsAdditiveVelocityApplied := bIsAdditiveVelocityApplied hdr,
                LastAccumulatedSettings := LastAccumulatedSettings hdr,
                RootMotionSources :=
                  filter (\<lambda>x. x \<noteq> None)
                    (map2 ReceiveEntry (SetNumZeroed (RootMotionSources g) (unat na)) act),
                PendingAddRootMotionSources :=
                  filter (\<lambda>x. x \<noteq> None)
                    (map2 ReceiveEntry
                       (take (length srcs)
                          (SetNumZeroed (PendingAddRootMotionSources g) (unat n))) srcs @
                     drop (length srcs)
                       (SetNumZeroed (PendingAddRootMotionSources g) (unat n)))\<rparr>,
              False)"
  unfolding Group_NetSerialize_def GroupHeaderWire_def
  by (simp add: Ser_loading Let_def NetSerializeRMSArray_valid[OF assms(2)]
        NetSerializeRMSArray_bad_ref[OF assms(1,3)]
      del: NetSerializeRMSEntries.simps)

text \<open>
  Claim C8, amended. Reading a group never crashes and never trips an assertion; it reports
  success exactly when the archive is not in error at the end, and on failure neither list
  holds a null entry. When the struct reference of a source, after a count and any number of
  well-formed entries of the active list (or after a well-formed active list, in the pending
  list), resolves to a struct that does not derive from the base struct (the base struct
  itself included) or does not resolve to a script struct, the loop breaks with the archive
  in error: nothing after that reference is read, the result is failure, the entries read
  before are kept, and the null entries are removed from both lists. A null struct reference
  is no error: the entry is skipped.
\<close>

theorem group_deserialization_aborts_on_bad_struct:
  "(ArIsLoading Ar \<longrightarrow>
      (\<exists>Ar' g' ok. Group_NetSerialize chk Ar g MaxNum = Inr (Ar', g', ok) \<and>
         ok = (\<not> ArIsError Ar') \<and>
         (ArIsError Ar' \<longrightarrow> None \<notin> set (RootMotionSources g') \<and>
                             None \<notin> set (PendingAddRootMotionSources g')))) \<and>
   (IsBadStructRef bad \<and> length srcs < unat n \<longrightarrow>
      (\<exists>g'. Group_NetSerialize chk
                \<lparr>ArIsLoading = True, ArIsError = False,
                 ArData = GroupHeaderWire hdr @
                          W_uint8 n # concat (map EntryWire srcs) @ W_ScriptStruct bad # rest\<rparr>
                g MaxNum =
              Inr (\<lparr>ArIsLoading = True, ArIsError = True, ArData = rest\<rparr>, g', False) \<and>
            RootMotionSources g' =
              filter (\<lambda>x. x \<noteq> None)
                (map2 ReceiveEntry
                   (take (length srcs) (SetNumZeroed (RootMotionSources g) (unat n))) srcs @
                 drop (length srcs) (SetNumZeroed (RootMotionSources g) (unat n))) \<and>
            PendingAddRootMotionSources g' = [])) \<and>
   (IsBadStructRef bad \<and> length act = unat na \<and> length srcs < unat n \<longrightarrow>
      (\<exists>g'. Group_NetSerialize chk
                \<lparr>ArIsLoading = True, ArIsError = False,
                 ArData = GroupHeaderWire hdr @
                          W_uint8 na # concat (map EntryWire act) @
                          W_uint8 n # concat (map EntryWire srcs) @ W_ScriptStruct bad # rest\<rparr>
                g MaxNum =
              Inr (\<lparr>ArIsLoading = True, ArIsError = True, ArData = rest\<rparr>, g', False) \<and>
            RootMotionSources g' =
              filter (\<lambda>x. x \<noteq> None)
                (map2 ReceiveEntry (SetNumZeroed (RootMotionSources g) (unat na)) act) \<and>
            PendingAddRootMotionSources g' =
              filter (\<lambda>x. x \<noteq> None)
                (map2 ReceiveEntry
                   (take (length srcs)
                      (SetNumZeroed (PendingAddRootMotionSources g) (unat n))) srcs @
                 drop (length srcs) (SetNumZeroed (PendingAddRootMotionSources g) (unat n)))))"
proof (intro conjI impI)
  assume "ArIsLoading Ar"
  then show "\<exists>Ar' g' ok. Group_NetSerialize chk Ar g MaxNum = Inr (Ar', g', ok) \<and>
         ok = (\<not> ArIsError Ar') \<and>
         (ArIsError Ar' \<longrightarrow> None \<notin> set (RootMotionSources g') \<and>
                             None \<notin> set (PendingAddRootMotionSources g'))"
    by (rule Group_NetSerialize_loading_returns)
next
  assume "IsBadStructRef bad \<and> length srcs < unat n"
  then have a: "IsBadStructRef bad" "length srcs < unat n" by simp_all
  show "\<exists>g'. Group_NetSerialize chk
                \<lparr>ArIsLoading = True, ArIsError = False,
                 ArData = GroupHeaderWire hdr @
                          W_uint8 n # concat (map EntryWire srcs) @ W_ScriptStruct bad # rest\<rparr>
                g MaxNum =
              Inr (\<lparr>ArIsLoading = True, ArIsError = True, ArData = rest\<rparr>, g', False) \<and>
            RootMotionSources g' =
              filter (\<lambda>x. x \<noteq> None)
                (map2 ReceiveEntry
                   (take (length srcs) (SetNumZeroed (RootMotionSources g) (unat n))) srcs @
                 drop (length srcs) (SetNumZeroed (RootMotionSources g) (unat n))) \<and>
            PendingAddRootMotionSources g' = []"
    unfolding Group_NetSerialize_bad_ref[OF a] by simp
next
  assume "IsBadStructRef bad \<and> length act = unat na \<and> length srcs < unat n"
  then have a: "IsBadStructRef bad" "length act = unat na" "length srcs < unat n" by simp_all
  show "\<exists>g'. Group_NetSerialize chk
                \<lparr>ArIsLoading = True, ArIsError = False,
                 ArData = GroupHeaderWire hdr @
                          W_uint8 na # concat (map EntryWire act) @
                          W_uint8 n # concat (map EntryWire srcs) @ W_ScriptStruct bad # rest\<rparr>
                g MaxNum =
              Inr (\<lparr>ArIsLoading = True, ArIsError = True, ArData = rest\<rparr>, g', False) \<and>
            RootMotionSources g' =
              filter (\<lambda>x. x \<noteq> None)
                (map2 ReceiveEntry (SetNumZeroed (RootMotionSources g) (unat na)) act) \<and>
            PendingAddRootMotionSources g' =
              filter (\<lambda>x. x \<noteq> None)
                (map2 ReceiveEntry
                   (take (length srcs)
                      (SetNumZeroed (PendingAddRootMotionSources g) (unat n))) srcs @
                 drop (length srcs) (SetNumZeroed (PendingAddRootMotionSources g) (unat n)))"
    unfolding Group_NetSerialize_bad_ref_pending[OF a] by simp
qed

theorem C8_witness:
  "ArIsLoading (LoadingArchive C8_stream) \<and>
   IsBadStructRef (Ref_Struct Struct_RootMotionSource) \<and>
   (\<exists>g'. Group_NetSerialize True (LoadingArchive C8_stream) New_Group 255 =
           Inr (\<lparr>ArIsLoading = True, ArIsError = True, ArData = [W_int 1, W_uint8 0]\<rparr>,
                g', False) \<and>
         RootMotionSources g' = [Some (Receive New_ConstantForce C4_source)] \<and>
         PendingAddRootMotionSources g' = [])"
proof -
  have bad: "IsBadStructRef (Ref_Struct Struct_RootMotionSource)"
    by (simp add: IsBadStructRef_def IsDerivedFromBaseRMS_def)
  have len: "length [Some C4_source] < unat (2 :: 8 word)" by simp
  have ar: "LoadingArchive C8_stream =
      \<lparr>ArIsLoading = True, ArIsError = False,
       ArData = GroupHeaderWire New_Group @
                W_uint8 2 # concat (map EntryWire [Some C4_source]) @
                W_ScriptStruct (Ref_Struct Struct_RootMotionSource) # [W_int 1, W_uint8 0]\<rparr>"
    by (simp add: LoadingArchive_def C8_stream_def)
  have d: "DefaultOf C4_source = New_ConstantForce"
    by (simp add: DefaultOf_def C4_source_def BaseConstruct_def)
  have rcv: "filter (\<lambda>x. x \<noteq> None)
       (map2 ReceiveEntry
          (take (length [Some C4_source])
             (SetNumZeroed (RootMotionSources New_Group) (unat (2 :: 8 word))))
          [Some C4_source] @
        drop (length [Some C4_source])
          (SetNumZeroed (RootMotionSources New_Group) (unat (2 :: 8 word)))) =
      [Some (Receive New_ConstantForce C4_source)]"
  proof -
    have u: "unat (2 :: 8 word) = 2" by simp
    have z: "SetNumZeroed (RootMotionSources New_Group) 2 = [None, None]"
      by (simp add: SetNumZeroed_def New_Group_def numeral_2_eq_2)
    show ?thesis
      unfolding u z by (simp add: ReceiveEntry_def d)
  qed
  from group_deserialization_aborts_on_bad_struct[of "LoadingArchive C8_stream" True New_Group
      255 "Ref_Struct Struct_RootMotionSource" "[Some C4_source]" 2 New_Group
      "[W_int 1, W_uint8 0]" "[]" 0]
  have "\<exists>g'. Group_NetSerialize True (LoadingArchive C8_stream) New_Group 255 =
           Inr (\<lparr>ArIsLoading = True, ArIsError = True, ArData = [W_int 1, W_uint8 0]\<rparr>,
                g', False) \<and>
         RootMotionSources g' = [Some (Receive New_ConstantForce C4_source)] \<and>
         PendingAddRootMotionSources g' = []"
    unfolding ar rcv using bad len by blast
  then show ?thesis using bad by (simp add: LoadingArchive_def)
qed

text \<open>
  Claim C8 as stated fails for a null struct reference, which does not resolve to a
  descendant of the base struct either: reading the message with one entry whose reference
  is null succeeds, the archive is not in error, and the null entry stays in the active list.
\<close>

theorem C8_counterexample:
  "Group_NetSerialize True (LoadingArchive C8_null_stream) New_Group 255 =
     Inr (\<lparr>ArIsLoading = True, ArIsError = False, ArData = []\<rparr>,
          New_Group\<lparr>RootMotionSources := [None]\<rparr>, True)"
proof -
  have a1: "NetSerializeRMSArray True
      \<lparr>ArIsLoading = True, ArIsError = False,
       ArData = [W_uint8 1, W_ScriptStruct Ref_Null, W_uint8 0]\<rparr> [] m =
      Inr (\<lparr>ArIsLoading = True, ArIsError = False, ArData = [W_uint8 0]\<rparr>, [None])" for m
    using NetSerializeRMSArray_valid[of "[None]" 1 True "[W_uint8 0]" "[]" m]
    by (simp add: EntryWire_def SetNumZeroed_def ReceiveEntry_def)
  have a2: "NetSerializeRMSArray True
      \<lparr>ArIsLoading = True, ArIsError = False, ArData = [W_uint8 0]\<rparr> [] m =
      Inr (\<lparr>ArIsLoading = True, ArIsError = False, ArData = []\<rparr>, [])" for m
    using NetSerializeRMSArray_valid[of "[]" 0 True "[]" "[]" m]
    by (simp add: SetNumZeroed_def)
  show ?thesis
    unfolding Group_NetSerialize_def LoadingArchive_def C8_null_stream_def GroupHeaderWire_def
    by (simp add: Ser_loading Let_def a1 a2 New_Group_def del: NetSerializeRMSEntries.simps)
qed

section \<open>Finding a usable replicated move\<close>

lemma server_ahead_iff:
  "(d * r < 0) = (\<not> ((0 < r \<longrightarrow> 0 \<le> d) \<and> (r < 0 \<longrightarrow> d \<le> 0)))" for d r :: real
  unfolding mult_less_0_iff by auto

lemma CanUseRootMotionRepMove_UsableMove:
  "CanUseRootMotionRepMove now m c = UsableMove now m c"
proof (cases "AnimMontage (RootMotion m)")
  case None
  then show ?thesis
    by (simp add: CanUseRootMotionRepMove_def UsableMove_def)
next
  case (Some a)
  show ?thesis
    unfolding CanUseRootMotionRepMove_def UsableMove_def Let_def server_ahead_iff Some
    by (cases "Montage c = Some a") simp_all
qed

lemma FindRootMotionRepMove_Loop_none:
  "FindRootMotionRepMove_Loop now ms c k = INDEX_NONE \<longleftrightarrow>
     (\<forall>i<k. \<not> CanUseRootMotionRepMove now (ms ! i) c)"
  by (induction k) (auto simp: INDEX_NONE_def less_Suc_eq)

lemma FindRootMotionRepMove_Loop_found:
  "FindRootMotionRepMove_Loop now ms c k \<noteq> INDEX_NONE \<Longrightarrow>
     \<exists>i<k. FindRootMotionRepMove_Loop now ms c k = int i \<and>
        CanUseRootMotionRepMove now (ms ! i) c \<and>
        (\<forall>j. i < j \<and> j < k \<longrightarrow> \<not> CanUseRootMotionRepMove now (ms ! j) c)"
proof (induction k)
  case 0
  then show ?case by simp
next
  case (Suc k)
  show ?case
  proof (cases "CanUseRootMotionRepMove now (ms ! k) c")
    case True
    then show ?thesis by (intro exI[of _ k]) auto
  next
    case False
    with Suc.prems have "FindRootMotionRepMove_Loop now ms c k \<noteq> INDEX_NONE" by simp
    from Suc.IH[OF this] obtain i where i: "i < k"
      "FindRootMotionRepMove_Loop now ms c k = int i"
      "CanUseRootMotionRepMove now (ms ! i) c"
      "\<forall>j. i < j \<and> j < k \<longrightarrow> \<not> CanUseRootMotionRepMove now (ms ! j) c" by blast
    show ?thesis
    proof (intro exI[of _ i] conjI allI impI)
      show "i < Suc k" using i(1) by simp
      show "FindRootMotionRepMove_Loop now ms c (Suc k) = int i" using False i(2) by simp
      show "CanUseRootMotionRepMove now (ms ! i) c" by (rule i(3))
      fix j assume "i < j \<and> j < Suc k"
      then show "\<not> CanUseRootMotionRepMove now (ms ! j) c"
        using i(4) False by (cases "j = k") auto
    qed
  qed
qed

text \<open>
  Claim C9. \<^verbatim>\<open>FindRootMotionRepMove\<close> returns \<^verbatim>\<open>INDEX_NONE\<close> exactly when no buffered move is
  usable, and otherwise the index of the most recent usable move: that move is usable, every
  move after it in the buffer is not, and it was received at most half a second ago. A move
  is usable exactly under the five conditions of the specification.
\<close>

theorem FindRootMotionRepMove_most_recent_usable:
  "(FindRootMotionRepMove now ms c = INDEX_NONE \<longleftrightarrow>
      (\<forall>i<length ms. \<not> UsableMove now (ms ! i) c)) \<and>
   (FindRootMotionRepMove now ms c \<noteq> INDEX_NONE \<longrightarrow>
      (\<exists>i<length ms. FindRootMotionRepMove now ms c = int i \<and>
         UsableMove now (ms ! i) c \<and>
         (\<forall>j. i < j \<and> j < length ms \<longrightarrow> \<not> UsableMove now (ms ! j) c) \<and>
         now - Time (ms ! i) \<le> 1 / 2)) \<and>
   (\<forall>m. CanUseRootMotionRepMove now m c = UsableMove now m c)"
proof (intro conjI impI allI)
  show "FindRootMotionRepMove now ms c = INDEX_NONE \<longleftrightarrow>
      (\<forall>i<length ms. \<not> UsableMove now (ms ! i) c)"
    by (simp add: FindRootMotionRepMove_def FindRootMotionRepMove_Loop_none
        CanUseRootMotionRepMove_UsableMove)
next
  assume "FindRootMotionRepMove now ms c \<noteq> INDEX_NONE"
  then have "FindRootMotionRepMove_Loop now ms c (length ms) \<noteq> INDEX_NONE"
    by (simp add: FindRootMotionRepMove_def)
  from FindRootMotionRepMove_Loop_found[OF this] obtain i where i: "i < length ms"
    "FindRootMotionRepMove_Loop now ms c (length ms) = int i"
    "UsableMove now (ms ! i) c"
    "\<forall>j. i < j \<and> j < length ms \<longrightarrow> \<not> UsableMove now (ms ! j) c"
    unfolding CanUseRootMotionRepMove_UsableMove by blast
  have "now - Time (ms ! i) \<le> 1 / 2" using i(3) by (simp add: UsableMove_def)
  with i show "\<exists>i<length ms. FindRootMotionRepMove now ms c = int i \<and>
         UsableMove now (ms ! i) c \<and>
         (\<forall>j. i < j \<and> j < length ms \<longrightarrow> \<not> UsableMove now (ms ! j) c) \<and>
         now - Time (ms ! i) \<le> 1 / 2"
    unfolding FindRootMotionRepMove_def by blast
next
  fix m
  show "CanUseRootMotionRepMove now m c = UsableMove now m c"
    by (rule CanUseRootMotionRepMove_UsableMove)
qed

lemma C9_values:
  "\<not> UsableMove 10 (C9_moves ! 3) C9_client"
  "UsableMove 10 (C9_moves ! 2) C9_client"
  "UsableMove 10 (C9_moves ! 1) C9_client"
  "\<not> UsableMove 10 (C9_moves ! 0) C9_client"
  "length C9_moves = 4"
  by (simp_all add: UsableMove_def C9_moves_def C9_client_def INDEX_NONE_def)

theorem C9_witness:
  "FindRootMotionRepMove 10 C9_moves C9_client = 2 \<and>
   UsableMove 10 (C9_moves ! 2) C9_client \<and>
   \<not> UsableMove 10 (C9_moves ! 3) C9_client \<and>
   \<not> UsableMove 10 (C9_moves ! 0) C9_client"
proof -
  have ne: "FindRootMotionRepMove 10 C9_moves C9_client \<noteq> INDEX_NONE"
    using FindRootMotionRepMove_most_recent_usable[of 10 C9_moves C9_client] C9_values
    by auto
  with FindRootMotionRepMove_most_recent_usable[of 10 C9_moves C9_client] obtain i where
    i: "i < 4" "FindRootMotionRepMove 10 C9_moves C9_client = int i"
      "UsableMove 10 (C9_moves ! i) C9_client"
      "\<forall>j. i < j \<and> j < 4 \<longrightarrow> \<not> UsableMove 10 (C9_moves ! j) C9_client"
    unfolding C9_values(5) by blast
  from i(1) have "i = 0 \<or> i = 1 \<or> i = 2 \<or> i = 3" by auto
  with i(3,4) C9_values have "i = 2" by auto
  with i(2) C9_values show ?thesis by simp
qed


end
